theory Spec2Isabelle
  imports Main "HOL-Library.Monad_Syntax"
begin

section \<open>JSON values and the Python operations applied to them\<close>

text \<open>
  The scripts work on the parsed JSON of the catalog service and on CSV rows: Python
  dicts, lists, strings, integers, booleans and \<open>None\<close>. A dict is kept as the list of
  its entries; \<open>map_of\<close> is the lookup. A result of type \<open>'a option\<close> is \<open>None\<close>
  exactly when the Python code raises (AttributeError for \<open>.get\<close>, \<open>.encode\<close> or
  \<open>.append\<close> on a value that has none, TypeError for an unhashable key or a value
  that cannot be iterated); Python's own \<open>None\<close> is the value \<open>JNull\<close>. Numbers are the
  integers (ids, orders, weights); strings are byte strings.
\<close>

datatype json =
    JNull
  | JBool bool
  | JInt int
  | JStr string
  | JList "json list"
  | JObj "(string \<times> json) list"

text \<open>Truth value of a Python object, as \<open>if x:\<close> and \<open>not x\<close> take it.\<close>

fun truthy :: "json \<Rightarrow> bool" where
  "truthy JNull = False"
| "truthy (JBool b) = b"
| "truthy (JInt n) = (n \<noteq> 0)"
| "truthy (JStr s) = (s \<noteq> [])"
| "truthy (JList xs) = (xs \<noteq> [])"
| "truthy (JObj kvs) = (kvs \<noteq> [])"

text \<open>\<open>a or b\<close>.\<close>

definition py_or :: "json \<Rightarrow> json \<Rightarrow> json" where
  "py_or a b = (if truthy a then a else b)"

text \<open>\<open>d.get(k, dflt)\<close> on the entries of a dict, and on any value.\<close>

definition get_or :: "(string \<times> json) list \<Rightarrow> string \<Rightarrow> json \<Rightarrow> json" where
  "get_or kvs k dflt = (case map_of kvs k of None \<Rightarrow> dflt | Some v \<Rightarrow> v)"

fun as_dict :: "json \<Rightarrow> (string \<times> json) list option" where
  "as_dict (JObj kvs) = Some kvs"
| "as_dict _ = None"

definition dict_get :: "json \<Rightarrow> string \<Rightarrow> json \<Rightarrow> json option" where
  "dict_get d k dflt = do { kvs \<leftarrow> as_dict d; Some (get_or kvs k dflt) }"

text \<open>\<open>for x in v\<close>: the elements of a list, the characters of a string, the keys of a dict.\<close>

fun py_iter :: "json \<Rightarrow> json list option" where
  "py_iter (JList xs) = Some xs"
| "py_iter (JStr s) = Some (map (\<lambda>c. JStr [c]) s)"
| "py_iter (JObj kvs) = Some (map (\<lambda>kv. JStr (fst kv)) kvs)"
| "py_iter _ = None"

text \<open>\<open>v.append(x)\<close>: only a list has it.\<close>

fun py_append :: "json \<Rightarrow> json \<Rightarrow> json option" where
  "py_append (JList xs) x = Some (JList (xs @ [x]))"
| "py_append _ x = None"

text \<open>
  Keys of Python dicts and sets: the hashable JSON values. \<open>True\<close> and \<open>1\<close>, \<open>False\<close>
  and \<open>0\<close> are the same key; lists and dicts are unhashable.
\<close>

datatype pykey = KNone | KNum int | KStr string

fun hash_key :: "json \<Rightarrow> pykey option" where
  "hash_key JNull = Some KNone"
| "hash_key (JBool b) = Some (KNum (if b then 1 else 0))"
| "hash_key (JInt n) = Some (KNum n)"
| "hash_key (JStr s) = Some (KStr s)"
| "hash_key (JList xs) = None"
| "hash_key (JObj kvs) = None"

text \<open>Decimal rendering of an integer, as \<open>str\<close> prints it.\<close>

fun show_nat :: "nat \<Rightarrow> string" where
  "show_nat n =
     (if n < 10 then [''0123456789'' ! n]
      else show_nat (n div 10) @ [''0123456789'' ! (n mod 10)])"

declare show_nat.simps [simp del]

definition show_int :: "int \<Rightarrow> string" where
  "show_int i = (if i < 0 then CHR ''-'' # show_nat (nat (- i)) else show_nat (nat i))"

text \<open>
  Two library functions are parameters of the model: \<open>hashlib.md5(s.encode()).hexdigest()\<close>
  and the \<open>repr\<close> of a list or dict (what \<open>str\<close> and an f-string print for them).
\<close>

record pylib =
  md5_hexdigest :: "string \<Rightarrow> string"
  repr :: "json \<Rightarrow> string"

text \<open>\<open>str(v)\<close>, which is also what \<open>f"{v}"\<close> inserts.\<close>

fun py_str :: "pylib \<Rightarrow> json \<Rightarrow> string" where
  "py_str L JNull = ''None''"
| "py_str L (JBool b) = (if b then ''True'' else ''False'')"
| "py_str L (JInt n) = show_int n"
| "py_str L (JStr s) = s"
| "py_str L (JList xs) = repr L (JList xs)"
| "py_str L (JObj kvs) = repr L (JObj kvs)"

text \<open>
  A library instance for evaluating the model on concrete inputs. Its digest and its
  \<open>repr\<close> are placeholders; it is used only on inputs where neither is called.
\<close>

definition lib0 :: pylib where
  "lib0 = \<lparr>md5_hexdigest = (\<lambda>s. replicate 32 (CHR ''0'')), repr = (\<lambda>v. ''<repr>'')\<rparr>"

section \<open>Identity key derivation\<close>

text \<open>\<open>compute_hash\<close>, the same function in Step 2 and Step 3.\<close>

definition compute_hash :: "pylib \<Rightarrow> json \<Rightarrow> string option" where
  "compute_hash L expression =
     (if \<not> truthy expression then Some ''empty''
      else (case expression of
              JStr s \<Rightarrow> Some (take 8 (md5_hexdigest L s))
            | _ \<Rightarrow> None))"

text \<open>\<open>get_column_name\<close> of Step_2_Fetch_Policy_Details.py (harvesting).\<close>

definition fetch_get_column_name :: "pylib \<Rightarrow> json \<Rightarrow> json option" where
  "fetch_get_column_name L item = do {
     measurement_type \<leftarrow> dict_get item ''measurementType'' (JStr '''');
     column_name \<leftarrow> dict_get item ''columnName'' (JStr '''');
     if measurement_type = JStr ''CUSTOM'' then do {
       rule_expression \<leftarrow> dict_get item ''ruleExpression'' (JStr '''');
       expr_hash \<leftarrow> compute_hash L rule_expression;
       Some (JStr (''CUSTOM-'' @ expr_hash)) }
     else if measurement_type = JStr ''SQL_METRIC'' then do {
       rule_expression \<leftarrow> dict_get item ''ruleExpression'' (JStr '''');
       expr_hash \<leftarrow> compute_hash L rule_expression;
       Some (JStr (''SQL_METRIC-'' @ expr_hash)) }
     else if measurement_type = JStr ''UDF_PREDICATE'' then do {
       val \<leftarrow> dict_get item ''value'' (JObj []);
       udf_id \<leftarrow> (if truthy val then dict_get val ''udfId'' (JStr ''unknown'')
                  else Some (JStr ''unknown''));
       Some (JStr (''UDF_PREDICATE-'' @ py_str L udf_id)) }
     else if measurement_type = JStr ''SIZE_CHECK'' then Some (JStr ''SIZE_CHECK'')
     else Some column_name }"

text \<open>\<open>get_column_name\<close> of Step_3_Sync_Policy_Labels.py (diff and reconciliation).\<close>

definition get_column_name :: "pylib \<Rightarrow> json \<Rightarrow> json option" where
  "get_column_name L item = do {
     measurement_type \<leftarrow> dict_get item ''measurementType'' (JStr '''');
     column_name \<leftarrow> dict_get item ''columnName'' (JStr '''');
     if measurement_type = JStr ''CUSTOM'' then do {
       rule_expression \<leftarrow> dict_get item ''ruleExpression'' (JStr '''');
       expr_hash \<leftarrow> compute_hash L rule_expression;
       Some (JStr (''CUSTOM-'' @ expr_hash)) }
     else if measurement_type = JStr ''SQL_METRIC'' then do {
       rule_expression \<leftarrow> dict_get item ''ruleExpression'' (JStr '''');
       expr_hash \<leftarrow> compute_hash L rule_expression;
       Some (JStr (''SQL_METRIC-'' @ expr_hash)) }
     else if measurement_type = JStr ''UDF_PREDICATE'' then do {
       val \<leftarrow> dict_get item ''value'' (JObj []);
       udf_id \<leftarrow> (if truthy val then dict_get val ''udfId'' (JStr ''unknown'')
                  else Some (JStr ''unknown''));
       Some (JStr (''UDF_PREDICATE-'' @ py_str L udf_id)) }
     else if measurement_type = JStr ''SIZE_CHECK'' then Some (JStr ''SIZE_CHECK'')
     else if truthy column_name \<and> truthy measurement_type then
       Some (JStr (py_str L measurement_type @ ''-'' @ py_str L column_name))
     else if truthy column_name then Some column_name
     else Some (py_or measurement_type (JStr ''UNKNOWN'')) }"

section \<open>Version diff engine (Step_3_Sync_Policy_Labels.py)\<close>

text \<open>
  The \<open>info\<close> dict of \<open>extract_items_info\<close>. Its \<open>items\<close> entry is the sequence the
  loop over \<open>details["items"]\<close> runs through.
\<close>

record items_info =
  column_names :: "pykey set"
  custom_expressions :: "pykey set"
  sql_metric_expressions :: "pykey set"
  udf_predicate_ids :: "pykey set"
  has_size_check :: bool
  items :: "json list"

text \<open>The body of the loop of \<open>extract_items_info\<close>, for one item.\<close>

definition extract_item :: "items_info \<Rightarrow> json \<Rightarrow> items_info option" where
  "extract_item info item = do {
     measurement_type \<leftarrow> dict_get item ''measurementType'' (JStr '''');
     column_name \<leftarrow> dict_get item ''columnName'' (JStr '''');
     rule_expression \<leftarrow> dict_get item ''ruleExpression'' (JStr '''');
     if measurement_type = JStr ''CUSTOM'' then
       (if truthy rule_expression then do {
          k \<leftarrow> hash_key rule_expression;
          Some (info\<lparr>custom_expressions := insert k (custom_expressions info)\<rparr>) }
        else Some info)
     else if measurement_type = JStr ''SQL_METRIC'' then
       (if truthy rule_expression then do {
          k \<leftarrow> hash_key rule_expression;
          Some (info\<lparr>sql_metric_expressions := insert k (sql_metric_expressions info)\<rparr>) }
        else Some info)
     else if measurement_type = JStr ''UDF_PREDICATE'' then do {
       val \<leftarrow> dict_get item ''value'' (JObj []);
       if truthy val then do {
         udf_id \<leftarrow> dict_get val ''udfId'' JNull;
         if truthy udf_id then do {
           k \<leftarrow> hash_key udf_id;
           Some (info\<lparr>udf_predicate_ids := insert k (udf_predicate_ids info)\<rparr>) }
         else Some info }
       else Some info }
     else if measurement_type = JStr ''SIZE_CHECK'' then
       Some (info\<lparr>has_size_check := True\<rparr>)
     else
       (if truthy column_name then do {
          k \<leftarrow> hash_key column_name;
          Some (info\<lparr>column_names := insert k (column_names info)\<rparr>) }
        else Some info) }"

fun extract_loop :: "items_info \<Rightarrow> json list \<Rightarrow> items_info option" where
  "extract_loop info [] = Some info"
| "extract_loop info (item # rest) = do {
     info' \<leftarrow> extract_item info item;
     extract_loop info' rest }"

definition extract_items_info :: "json \<Rightarrow> items_info option" where
  "extract_items_info data = do {
     details \<leftarrow> dict_get data ''details'' (JObj []);
     its \<leftarrow> dict_get details ''items'' (JList []);
     seq \<leftarrow> py_iter its;
     extract_loop
       \<lparr>column_names = {}, custom_expressions = {}, sql_metric_expressions = {},
        udf_predicate_ids = {}, has_size_check = False, items = seq\<rparr> seq }"

text \<open>A row of the ledger CSV, as \<open>find_new_rules\<close> builds it and \<open>csv.DictReader\<close> reads it.\<close>

record rule_row =
  Policy_ID :: json
  Policy_Name :: json
  Rule_ID :: json
  Rule_Type :: json
  Column_Name :: json

text \<open>
  The classification of one item of the latest version against the version 1 info:
  the \<open>is_new\<close> flag of the loop body of \<open>find_new_rules\<close>.
\<close>

definition is_new :: "items_info \<Rightarrow> json \<Rightarrow> bool option" where
  "is_new v1_info item = do {
     measurement_type \<leftarrow> dict_get item ''measurementType'' (JStr '''');
     column_name \<leftarrow> dict_get item ''columnName'' (JStr '''');
     rule_expression \<leftarrow> dict_get item ''ruleExpression'' (JStr '''');
     if measurement_type = JStr ''CUSTOM'' then
       (if truthy rule_expression then do {
          k \<leftarrow> hash_key rule_expression;
          if k \<notin> custom_expressions v1_info then Some True
          else if custom_expressions v1_info = {} \<and> truthy rule_expression then Some True
          else Some False }
        else if custom_expressions v1_info = {} \<and> truthy rule_expression then Some True
        else Some False)
     else if measurement_type = JStr ''SQL_METRIC'' then
       (if truthy rule_expression then do {
          k \<leftarrow> hash_key rule_expression;
          Some (k \<notin> sql_metric_expressions v1_info) }
        else Some False)
     else if measurement_type = JStr ''UDF_PREDICATE'' then do {
       val \<leftarrow> dict_get item ''value'' (JObj []);
       if truthy val then do {
         udf_id \<leftarrow> dict_get val ''udfId'' JNull;
         if truthy udf_id then do {
           k \<leftarrow> hash_key udf_id;
           Some (k \<notin> udf_predicate_ids v1_info) }
         else Some False }
       else Some False }
     else if measurement_type = JStr ''SIZE_CHECK'' then
       Some (\<not> has_size_check v1_info)
     else
       (if truthy column_name then do {
          k \<leftarrow> hash_key column_name;
          Some (k \<notin> column_names v1_info) }
        else Some False) }"

text \<open>The loop of \<open>find_new_rules\<close> over the items of the latest version.\<close>

fun new_rules_loop ::
  "pylib \<Rightarrow> items_info \<Rightarrow> json \<Rightarrow> json \<Rightarrow> json list \<Rightarrow> rule_row list option" where
  "new_rules_loop L v1_info pid pname [] = Some []"
| "new_rules_loop L v1_info pid pname (item # rest) = do {
     measurement_type \<leftarrow> dict_get item ''measurementType'' (JStr '''');
     rule_id \<leftarrow> dict_get item ''id'' JNull;
     new \<leftarrow> is_new v1_info item;
     row \<leftarrow> (if new then do {
                key \<leftarrow> get_column_name L item;
                Some [\<lparr>Policy_ID = pid, Policy_Name = pname, Rule_ID = rule_id,
                       Rule_Type = measurement_type, Column_Name = key\<rparr>] }
              else Some []);
     more \<leftarrow> new_rules_loop L v1_info pid pname rest;
     Some (row @ more) }"

definition find_new_rules ::
  "pylib \<Rightarrow> items_info \<Rightarrow> items_info \<Rightarrow> json \<Rightarrow> json \<Rightarrow> rule_row list option" where
  "find_new_rules L v1_info latest_info pid pname =
     new_rules_loop L v1_info pid pname (items latest_info)"

section \<open>Step 1 of \<open>main\<close>: version comparison and ledger update\<close>

text \<open>
  What the GET of one policy version does: it raises, or it answers with a status and a
  body (\<open>None\<close> when \<open>response.json()\<close> raises). \<open>fetch_policy_version\<close> catches every
  exception and returns Python's \<open>None\<close> for it and for a status other than 200.
\<close>

datatype http_outcome = HttpRaised | HttpResponse nat "json option"

type_synonym transport = "json \<Rightarrow> json \<Rightarrow> http_outcome"

definition fetch_policy_version :: "transport \<Rightarrow> json \<Rightarrow> json \<Rightarrow> json" where
  "fetch_policy_version net pid ver =
     (case net pid ver of
        HttpRaised \<Rightarrow> JNull
      | HttpResponse status body \<Rightarrow>
          (if status = 200 then (case body of Some data \<Rightarrow> data | None \<Rightarrow> JNull)
           else JNull))"

text \<open>
  The state the loops of \<open>main\<close> update: the rows to append to the CSV, the rule ids
  already in the ledger, and \<open>policy_labels\<close>, the \<open>defaultdict(dict)\<close> from policy id
  and identity key to the id the label will carry.
\<close>

record sync_state =
  new_rules_added :: "rule_row list"
  existing_rule_ids :: "string set"
  policy_labels :: "pykey \<rightharpoonup> (pykey \<rightharpoonup> json)"

text \<open>\<open>policy_labels[pid]\<close> on the \<open>defaultdict\<close>: a missing policy has the empty dict.\<close>

definition labels_of :: "(pykey \<rightharpoonup> (pykey \<rightharpoonup> json)) \<Rightarrow> pykey \<Rightarrow> (pykey \<rightharpoonup> json)" where
  "labels_of pl p = (case pl p of None \<Rightarrow> Map.empty | Some m \<Rightarrow> m)"

text \<open>\<open>read_existing_csv\<close>, from the rows \<open>csv.DictReader\<close> yields.\<close>

fun read_rows :: "pylib \<Rightarrow> rule_row list \<Rightarrow> sync_state \<Rightarrow> sync_state option" where
  "read_rows L [] st = Some st"
| "read_rows L (row # rest) st = do {
     st1 \<leftarrow> Some (if truthy (Rule_ID row)
                  then st\<lparr>existing_rule_ids := insert (py_str L (Rule_ID row)) (existing_rule_ids st)\<rparr>
                  else st);
     st2 \<leftarrow> (if truthy (Policy_ID row) \<and> truthy (Column_Name row) \<and> truthy (Rule_ID row) then do {
                p \<leftarrow> hash_key (Policy_ID row);
                c \<leftarrow> hash_key (Column_Name row);
                Some (st1\<lparr>policy_labels := (policy_labels st1)
                        (p \<mapsto> (labels_of (policy_labels st1) p)(c \<mapsto> Rule_ID row))\<rparr>) }
              else Some st1);
     read_rows L rest st2 }"

definition read_existing_csv :: "pylib \<Rightarrow> rule_row list \<Rightarrow> sync_state option" where
  "read_existing_csv L rows =
     read_rows L rows \<lparr>new_rules_added = [], existing_rule_ids = {}, policy_labels = Map.empty\<rparr>"

text \<open>The loop \<open>for rule in new_rules\<close> of \<open>main\<close> (Step_3_Sync_Policy_Labels.py).\<close>

fun record_new_rules :: "pylib \<Rightarrow> json \<Rightarrow> rule_row list \<Rightarrow> sync_state \<Rightarrow> sync_state option" where
  "record_new_rules L pid [] st = Some st"
| "record_new_rules L pid (rule # rest) st =
     (if py_str L (Rule_ID rule) \<notin> existing_rule_ids st then do {
        p \<leftarrow> hash_key pid;
        c \<leftarrow> hash_key (Column_Name rule);
        record_new_rules L pid rest
          (st\<lparr>new_rules_added := new_rules_added st @ [rule],
              existing_rule_ids := insert (py_str L (Rule_ID rule)) (existing_rule_ids st),
              policy_labels := (policy_labels st)
                (p \<mapsto> (labels_of (policy_labels st) p)(c \<mapsto> Rule_ID rule))\<rparr>) }
      else record_new_rules L pid rest st)"

text \<open>An entry of \<open>policies_to_compare\<close>.\<close>

record policy_info =
  info_policy_id :: json
  info_version :: json
  info_name :: json

text \<open>The body of the loop over \<open>policies_to_compare\<close>, and the loop.\<close>

fun compare_policy ::
  "pylib \<Rightarrow> transport \<Rightarrow> sync_state \<Rightarrow> policy_info \<Rightarrow> sync_state option" where
  "compare_policy L net st pinfo =
     (let pid = info_policy_id pinfo;
          latest_version = info_version pinfo;
          pname = info_name pinfo;
          v1_data = fetch_policy_version net pid (JInt 1);
          latest_data = fetch_policy_version net pid latest_version
      in if \<not> truthy v1_data \<or> \<not> truthy latest_data then Some st
         else do {
           v1_info \<leftarrow> extract_items_info v1_data;
           latest_info \<leftarrow> extract_items_info latest_data;
           new_rules \<leftarrow> find_new_rules L v1_info latest_info pid pname;
           record_new_rules L pid new_rules st })"

fun compare_policies ::
  "pylib \<Rightarrow> transport \<Rightarrow> sync_state \<Rightarrow> policy_info list \<Rightarrow> sync_state option" where
  "compare_policies L net st [] = Some st"
| "compare_policies L net st (pinfo # rest) = do {
     st' \<leftarrow> compare_policy L net st pinfo;
     compare_policies L net st' rest }"

section \<open>Label reconciliation, quality rules (Step_3_Sync_Policy_Labels.py)\<close>

text \<open>\<open>{label.get("key") for label in existing_labels if label.get("key")}\<close>\<close>

fun label_keys :: "json list \<Rightarrow> pykey set option" where
  "label_keys [] = Some {}"
| "label_keys (label # rest) = do {
     k \<leftarrow> dict_get label ''key'' JNull;
     ks \<leftarrow> label_keys rest;
     if truthy k then do { h \<leftarrow> hash_key k; Some (insert h ks) } else Some ks }"

text \<open>\<open>[{"key": l.get("key"), "value": l.get("value")} for l in existing_labels]\<close>\<close>

fun label_pairs :: "json list \<Rightarrow> json list option" where
  "label_pairs [] = Some []"
| "label_pairs (l # rest) = do {
     k \<leftarrow> dict_get l ''key'' JNull;
     v \<leftarrow> dict_get l ''value'' JNull;
     more \<leftarrow> label_pairs rest;
     Some (JObj [(''key'', k), (''value'', v)] # more) }"

text \<open>
  The \<open>updated_item\<close> dict the loop builds from an item and its new list of labels;
  \<open>ruleExpression\<close> is set only when the item has a non-empty one.
\<close>

definition updated_item :: "(string \<times> json) list \<Rightarrow> json list \<Rightarrow> json" where
  "updated_item kvs out_labels =
     JObj ([(''measurementType'', get_or kvs ''measurementType'' JNull),
            (''columnName'', get_or kvs ''columnName'' (JStr '''')),
            (''executionOrder'', get_or kvs ''executionOrder'' JNull),
            (''weightage'', get_or kvs ''weightage'' JNull),
            (''businessExplanation'', get_or kvs ''businessExplanation'' (JStr '''')),
            (''labels'', JList out_labels),
            (''isWarning'', get_or kvs ''isWarning'' (JBool False)),
            (''associatedDQRecommendationId'', get_or kvs ''associatedDQRecommendationId'' JNull),
            (''bulkPolicyDqRuleId'', get_or kvs ''bulkPolicyDqRuleId'' JNull),
            (''thresholdConfig'', get_or kvs ''thresholdConfig'' JNull),
            (''value'', get_or kvs ''value'' JNull),
            (''id'', get_or kvs ''id'' JNull)]
           @ (if truthy (get_or kvs ''ruleExpression'' JNull)
              then [(''ruleExpression'', get_or kvs ''ruleExpression'' JNull)] else []))"

text \<open>
  The body of the loop over the items in \<open>build_update_payload\<close>: the updated item, and
  what the item adds to \<open>labels_added\<close> and \<open>labels_skipped\<close>. \<open>OVERRIDE_LABELS\<close> is the
  module's configuration flag. (In override mode the source also collects the removed
  keys in \<open>labels_removed\<close>, a list it never returns.)
\<close>

definition update_item ::
  "pylib \<Rightarrow> bool \<Rightarrow> (pykey \<rightharpoonup> json) \<Rightarrow> json \<Rightarrow> (json \<times> json list \<times> json list) option" where
  "update_item L OVERRIDE_LABELS label_mappings item = do {
     item_column_key \<leftarrow> get_column_name L item;
     kvs \<leftarrow> as_dict item;
     let existing_labels = get_or kvs ''labels'' (JList []);
     labs \<leftarrow> py_iter existing_labels;
     existing_label_keys \<leftarrow> label_keys labs;
     k \<leftarrow> hash_key item_column_key;
     (existing_labels', added, skipped) \<leftarrow>
       (if OVERRIDE_LABELS then
          (case label_mappings k of
             Some rule_id \<Rightarrow>
               Some (JList [JObj [(''key'', item_column_key), (''value'', JStr (py_str L rule_id))]],
                     [item_column_key], [])
           | None \<Rightarrow> Some (JList [], [], []))
        else
          (case label_mappings k of
             Some rule_id \<Rightarrow>
               if k \<in> existing_label_keys then Some (existing_labels, [], [item_column_key])
               else do {
                 appended \<leftarrow> py_append existing_labels
                   (JObj [(''key'', item_column_key), (''value'', JStr (py_str L rule_id))]);
                 Some (appended, [item_column_key], []) }
           | None \<Rightarrow> Some (existing_labels, [], [])));
     labs' \<leftarrow> py_iter existing_labels';
     out_labels \<leftarrow> label_pairs labs';
     Some (updated_item kvs out_labels, added, skipped) }"

fun update_items ::
  "pylib \<Rightarrow> bool \<Rightarrow> (pykey \<rightharpoonup> json) \<Rightarrow> json list \<Rightarrow> (json list \<times> json list \<times> json list) option" where
  "update_items L OVERRIDE_LABELS label_mappings [] = Some ([], [], [])"
| "update_items L OVERRIDE_LABELS label_mappings (item # rest) = do {
     (updated, added, skipped) \<leftarrow> update_item L OVERRIDE_LABELS label_mappings item;
     (updated_items, labels_added, labels_skipped) \<leftarrow> update_items L OVERRIDE_LABELS label_mappings rest;
     Some (updated # updated_items, added @ labels_added, skipped @ labels_skipped) }"

text \<open>The \<open>"rule"\<close> object of the PUT payload.\<close>

definition payload_rule ::
  "(string \<times> json) list \<Rightarrow> (string \<times> json) list \<Rightarrow> (string \<times> json) list \<Rightarrow> json" where
  "payload_rule rule backing_asset notification_channels =
     JObj [(''subType'', get_or rule ''subType'' (JStr ''ASSET'')),
           (''enabled'', get_or rule ''enabled'' (JBool True)),
           (''name'', get_or rule ''name'' JNull),
           (''description'', get_or rule ''description'' JNull),
           (''schedule'', get_or rule ''schedule'' (JStr '''')),
           (''executionTimeoutInMinutes'', get_or rule ''executionTimeoutInMinutes'' JNull),
           (''totalExecutionTimeoutInMinutes'', get_or rule ''totalExecutionTimeoutInMinutes'' JNull),
           (''analyticsPipelineId'', JNull),
           (''scheduleType'', JStr ''RECENT''),
           (''jobSchedule'', get_or rule ''jobSchedule'' JNull),
           (''segments'', get_or rule ''segments'' (JList [])),
           (''customSqlConfig'', get_or rule ''customSqlConfig'' JNull),
           (''policyScoreStrategy'', get_or rule ''policyScoreStrategy'' (JStr ''WEIGHTAGE'')),
           (''thresholdLevel'', get_or rule ''thresholdLevel''
              (JObj [(''success'', JInt 100), (''warning'', JInt 70)])),
           (''id'', get_or rule ''id'' JNull),
           (''includeInQualityScore'', get_or rule ''includeInQualityScore'' (JBool True)),
           (''type'', get_or rule ''type'' (JStr ''DATA_QUALITY'')),
           (''scheduled'', get_or rule ''scheduled'' (JBool False)),
           (''backingAsset'', JObj
              [(''tableAssetId'', get_or backing_asset ''tableAssetId'' JNull),
               (''id'', get_or backing_asset ''id'' JNull)]),
           (''notificationChannels'', JObj
              [(''configuredNotificationGroupIds'',
                  get_or notification_channels ''configuredNotificationGroupIds'' (JList [])),
               (''notifyOn'', get_or notification_channels ''notifyOn'' (JList [])),
               (''notifyOnSuccess'', get_or notification_channels ''notifyOnSuccess'' (JBool False)),
               (''severity'', get_or notification_channels ''severity'' (JStr ''CRITICAL'')),
               (''alertsEnabled'', get_or notification_channels ''alertsEnabled'' (JBool True)),
               (''reNotifyFactor'', get_or notification_channels ''reNotifyFactor'' (JInt 0)),
               (''notifyOnWarning'', get_or notification_channels ''notifyOnWarning'' (JBool False)),
               (''notificationEnabled'', JBool True)]),
           (''sparkResourceConfig'', get_or rule ''sparkResourceConfig'' JNull),
           (''policyGroups'', get_or rule ''policyGroups'' (JList [])),
           (''labels'', get_or rule ''labels'' (JList [])),
           (''tags'', get_or rule ''tags'' (JList [])),
           (''additionalPersistedColumns'', get_or rule ''additionalPersistedColumns'' (JList [])),
           (''filter'', get_or rule ''filter'' JNull),
           (''sparkSQLFilterType'', get_or rule ''sparkSQLFilterType'' (JStr ''STATIC''))]"

definition build_update_payload ::
  "pylib \<Rightarrow> bool \<Rightarrow> json \<Rightarrow> (pykey \<rightharpoonup> json) \<Rightarrow> (json \<times> json list \<times> json list) option" where
  "build_update_payload L OVERRIDE_LABELS policy_data label_mappings = do {
     pd \<leftarrow> as_dict policy_data;
     let rule = get_or pd ''rule'' (JObj []);
     let details = get_or pd ''details'' (JObj []);
     dt \<leftarrow> as_dict details;
     seq \<leftarrow> py_iter (get_or dt ''items'' (JList []));
     (updated_items, labels_added, labels_skipped) \<leftarrow>
        update_items L OVERRIDE_LABELS label_mappings seq;
     r \<leftarrow> as_dict rule;
     backing_asset \<leftarrow> as_dict (py_or (get_or r ''backingAsset'' JNull) (JObj []));
     notification_channels \<leftarrow> as_dict (py_or (get_or r ''notificationChannels'' JNull) (JObj []));
     Some (JObj [(''rule'', payload_rule r backing_asset notification_channels),
                 (''items'', JList updated_items),
                 (''transformUDFs'', get_or dt ''transformUDFs'' (JList [])),
                 (''engineType'', get_or r ''engineType'' (JStr ''JDBC_SQL''))],
           labels_added, labels_skipped) }"

section \<open>Label reconciliation, reconciliation policies (Step_3_Sync_Recon_Policy_Labels.py)\<close>

text \<open>\<open>get_column_key\<close>: \<open>f"{left_col}_{right_col}"\<close>.\<close>

definition get_column_key :: "pylib \<Rightarrow> json \<Rightarrow> json \<Rightarrow> string" where
  "get_column_key L left_col right_col = py_str L left_col @ ''_'' @ py_str L right_col"

text \<open>The \<open>updated_mapping\<close> dict the loop builds from a mapping and its new list of labels.\<close>

definition updated_mapping :: "(string \<times> json) list \<Rightarrow> json list \<Rightarrow> json" where
  "updated_mapping kvs out_labels =
     JObj [(''id'', get_or kvs ''id'' JNull),
           (''leftColumnName'', get_or kvs ''leftColumnName'' (JStr '''')),
           (''operation'', get_or kvs ''operation'' (JStr ''EQ'')),
           (''rightColumnName'', get_or kvs ''rightColumnName'' (JStr '''')),
           (''useForJoining'', get_or kvs ''useForJoining'' (JBool False)),
           (''reconciliationRuleId'', get_or kvs ''reconciliationRuleId'' JNull),
           (''isJoinColumnUsedForMeasure'', get_or kvs ''isJoinColumnUsedForMeasure'' (JBool False)),
           (''ignoreNullValues'', get_or kvs ''ignoreNullValues'' (JBool False)),
           (''weightage'', get_or kvs ''weightage'' (JInt 100)),
           (''ruleVersion'', get_or kvs ''ruleVersion'' JNull),
           (''businessExplanation'', get_or kvs ''businessExplanation'' (JStr '''')),
           (''isWarning'', get_or kvs ''isWarning'' (JBool False)),
           (''labels'', JList out_labels),
           (''isArchived'', get_or kvs ''isArchived'' (JBool False)),
           (''mappingType'', get_or kvs ''mappingType'' (JStr ''AUTO''))]"

text \<open>
  The body of the loop over the column mappings in the reconciliation script's
  \<open>build_update_payload\<close>. The script reads no override flag.
\<close>

definition update_mapping ::
  "pylib \<Rightarrow> (pykey \<rightharpoonup> json) \<Rightarrow> json \<Rightarrow> (json \<times> json list \<times> json list) option" where
  "update_mapping L label_mappings mapping = do {
     kvs \<leftarrow> as_dict mapping;
     let left_col = get_or kvs ''leftColumnName'' (JStr '''');
     let right_col = get_or kvs ''rightColumnName'' (JStr '''');
     let mapping_key = JStr (get_column_key L left_col right_col);
     let existing_labels = get_or kvs ''labels'' (JList []);
     labs \<leftarrow> py_iter existing_labels;
     existing_label_keys \<leftarrow> label_keys labs;
     k \<leftarrow> hash_key mapping_key;
     (existing_labels', added, skipped) \<leftarrow>
       (case label_mappings k of
          Some original_rule_id \<Rightarrow>
            if k \<in> existing_label_keys then Some (existing_labels, [], [mapping_key])
            else do {
              appended \<leftarrow> py_append existing_labels
                (JObj [(''key'', mapping_key), (''value'', JStr (py_str L original_rule_id))]);
              Some (appended, [mapping_key], []) }
        | None \<Rightarrow> Some (existing_labels, [], []));
     labs' \<leftarrow> py_iter existing_labels';
     out_labels \<leftarrow> label_pairs labs';
     Some (updated_mapping kvs out_labels, added, skipped) }"

fun update_mappings ::
  "pylib \<Rightarrow> (pykey \<rightharpoonup> json) \<Rightarrow> json list \<Rightarrow> (json list \<times> json list \<times> json list) option" where
  "update_mappings L label_mappings [] = Some ([], [], [])"
| "update_mappings L label_mappings (mapping # rest) = do {
     (updated, added, skipped) \<leftarrow> update_mapping L label_mappings mapping;
     (updated_mappings, labels_added, labels_skipped) \<leftarrow> update_mappings L label_mappings rest;
     Some (updated # updated_mappings, added @ labels_added, skipped @ labels_skipped) }"

text \<open>The loop that rebuilds the \<open>items\<close> array of a reconciliation policy.\<close>

fun recon_items :: "json list \<Rightarrow> json list option" where
  "recon_items [] = Some []"
| "recon_items (item # rest) = do {
     kvs \<leftarrow> as_dict item;
     more \<leftarrow> recon_items rest;
     Some (JObj [(''measurementType'', get_or kvs ''measurementType'' (JStr ''EQUALITY'')),
                 (''executionOrder'', get_or kvs ''executionOrder'' (JInt 1)),
                 (''id'', get_or kvs ''id'' JNull)] # more) }"

text \<open>The \<open>"rule"\<close> object of the reconciliation PUT payload.\<close>

definition recon_payload_rule ::
  "(string \<times> json) list \<Rightarrow> (string \<times> json) list \<Rightarrow> (string \<times> json) list \<Rightarrow>
   (string \<times> json) list \<Rightarrow> (string \<times> json) list \<Rightarrow> json" where
  "recon_payload_rule rule left_backing_asset right_backing_asset notification_channels
       spark_resource_config =
     JObj [(''subType'', get_or rule ''subType'' (JStr ''ASSET'')),
           (''enabled'', get_or rule ''enabled'' (JBool True)),
           (''name'', get_or rule ''name'' JNull),
           (''description'', get_or rule ''description'' JNull),
           (''executionTimeoutInMinutes'', get_or rule ''executionTimeoutInMinutes'' JNull),
           (''totalExecutionTimeoutInMinutes'', get_or rule ''totalExecutionTimeoutInMinutes'' JNull),
           (''analyticsPipelineId'', get_or rule ''analyticsPipelineId'' JNull),
           (''scheduleType'', get_or rule ''scheduleType'' (JStr ''FULL'')),
           (''jobSchedule'', get_or rule ''jobSchedule'' JNull),
           (''segments'', get_or rule ''segments'' (JList [])),
           (''customSqlConfig'', get_or rule ''customSqlConfig'' JNull),
           (''policyScoreStrategy'', get_or rule ''policyScoreStrategy'' (JStr ''WEIGHTAGE'')),
           (''thresholdLevel'', get_or rule ''thresholdLevel''
              (JObj [(''success'', JInt 100), (''warning'', JInt 70)])),
           (''leftFilter'', get_or rule ''leftFilter'' (JStr '''')),
           (''leftSparkFilterSelectedColumns'', get_or rule ''leftSparkFilterSelectedColumns'' (JList [])),
           (''leftSparkSQLFilterType'', get_or rule ''leftSparkSQLFilterType'' (JStr ''STATIC'')),
           (''rightFilter'', get_or rule ''rightFilter'' (JStr '''')),
           (''rightSparkFilterSelectedColumns'', get_or rule ''rightSparkFilterSelectedColumns'' (JList [])),
           (''rightSparkSQLFilterType'', get_or rule ''rightSparkSQLFilterType'' (JStr ''STATIC'')),
           (''delayInMinutes'', get_or rule ''delayInMinutes'' JNull),
           (''engineType'', get_or rule ''engineType'' (JStr ''SPARK'')),
           (''leftEngineType'', get_or rule ''leftEngineType'' (JStr ''SPARK'')),
           (''rightEngineType'', get_or rule ''rightEngineType'' (JStr ''SPARK'')),
           (''joinType'', get_or rule ''joinType'' (JStr ''LEFT'')),
           (''leftSparkSQLDynamicFilterVariableMapping'',
              get_or rule ''leftSparkSQLDynamicFilterVariableMapping''
                (JObj [(''ruleName'', get_or rule ''name'' JNull), (''mapping'', JList [])])),
           (''rightSparkSQLDynamicFilterVariableMapping'',
              get_or rule ''rightSparkSQLDynamicFilterVariableMapping''
                (JObj [(''ruleName'', get_or rule ''name'' JNull), (''mapping'', JList [])])),
           (''id'', get_or rule ''id'' JNull),
           (''includeInQualityScore'', get_or rule ''includeInQualityScore'' (JBool True)),
           (''type'', get_or rule ''type'' (JStr ''EQUALITY'')),
           (''scheduled'', get_or rule ''scheduled'' (JBool False)),
           (''leftBackingAsset'', JObj
              [(''tableAssetId'', get_or left_backing_asset ''tableAssetId'' JNull),
               (''id'', get_or left_backing_asset ''id'' JNull)]),
           (''rightBackingAsset'', JObj
              [(''tableAssetId'', get_or right_backing_asset ''tableAssetId'' JNull),
               (''marker'', get_or right_backing_asset ''marker'' JNull),
               (''id'', get_or right_backing_asset ''id'' JNull)]),
           (''timeSecondsOffset'', get_or rule ''timeSecondsOffset'' (JInt 30)),
           (''notificationChannels'', JObj
              [(''configuredNotificationGroupIds'',
                  get_or notification_channels ''configuredNotificationGroupIds'' (JList [])),
               (''notifyOn'', get_or notification_channels ''notifyOn'' (JList [])),
               (''notifyOnSuccess'', get_or notification_channels ''notifyOnSuccess'' (JBool False)),
               (''severity'', get_or notification_channels ''severity'' (JStr ''CRITICAL'')),
               (''alertsEnabled'', get_or notification_channels ''alertsEnabled'' (JBool True)),
               (''reNotifyFactor'', get_or notification_channels ''reNotifyFactor'' (JInt 0)),
               (''notifyOnWarning'', get_or notification_channels ''notifyOnWarning'' (JBool False)),
               (''notificationEnabled'', get_or notification_channels ''notificationEnabled'' (JBool False))]),
           (''sparkResourceConfig'', JObj
              [(''additionalConfiguration'',
                  get_or spark_resource_config ''additionalConfiguration'' (JObj [])),
               (''yunikorn'', get_or spark_resource_config ''yunikorn'' JNull)]),
           (''resourceStrategyType'', get_or rule ''resourceStrategyType'' (JStr ''INVENTORY'')),
           (''selectedResourceInventory'', get_or rule ''selectedResourceInventory'' (JStr ''Medium'')),
           (''autoRetryEnabled'', get_or rule ''autoRetryEnabled'' (JBool False)),
           (''policyGroups'', get_or rule ''policyGroups'' (JList [])),
           (''labels'', get_or rule ''labels'' (JList [])),
           (''tags'', get_or rule ''tags'' (JList []))]"

definition recon_build_update_payload ::
  "pylib \<Rightarrow> json \<Rightarrow> (pykey \<rightharpoonup> json) \<Rightarrow> (json \<times> json list \<times> json list) option" where
  "recon_build_update_payload L policy_data label_mappings = do {
     pd \<leftarrow> as_dict policy_data;
     let rule = get_or pd ''rule'' (JObj []);
     let details = get_or pd ''details'' (JObj []);
     dt \<leftarrow> as_dict details;
     column_mappings \<leftarrow> py_iter (get_or dt ''columnMappings'' (JList []));
     (updated_mappings, labels_added, labels_skipped) \<leftarrow>
        update_mappings L label_mappings column_mappings;
     its \<leftarrow> py_iter (get_or dt ''items'' (JList []));
     updated_items \<leftarrow> recon_items its;
     r \<leftarrow> as_dict rule;
     left_backing_asset \<leftarrow> as_dict (py_or (get_or r ''leftBackingAsset'' JNull) (JObj []));
     right_backing_asset \<leftarrow> as_dict (py_or (get_or r ''rightBackingAsset'' JNull) (JObj []));
     notification_channels \<leftarrow> as_dict (py_or (get_or r ''notificationChannels'' JNull) (JObj []));
     spark_resource_config \<leftarrow> as_dict (py_or (get_or r ''sparkResourceConfig'' JNull) (JObj []));
     Some (JObj [(''rule'', recon_payload_rule r left_backing_asset right_backing_asset
                    notification_channels spark_resource_config),
                 (''items'', JList updated_items),
                 (''mappings'', JList updated_mappings),
                 (''cloningDetails'', JNull),
                 (''analyticsPipelineId'', get_or r ''analyticsPipelineId'' JNull)],
           labels_added, labels_skipped) }"

section \<open>Step 1 of \<open>main\<close>, reconciliation policies (Step_3_Sync_Recon_Policy_Labels.py)\<close>

text \<open>The \<open>info\<close> dict of \<open>extract_mappings_info\<close>, the body of its loop, and the function.\<close>

record mappings_info =
  mapping_keys :: "string set"
  mappings :: "json list"
  recon_type :: json

definition extract_mapping :: "pylib \<Rightarrow> mappings_info \<Rightarrow> json \<Rightarrow> mappings_info option" where
  "extract_mapping L info mapping = do {
     left_col \<leftarrow> dict_get mapping ''leftColumnName'' (JStr '''');
     right_col \<leftarrow> dict_get mapping ''rightColumnName'' (JStr '''');
     if truthy left_col \<and> truthy right_col
     then Some (info\<lparr>mapping_keys := insert (get_column_key L left_col right_col) (mapping_keys info)\<rparr>)
     else Some info }"

fun extract_mappings_loop :: "pylib \<Rightarrow> mappings_info \<Rightarrow> json list \<Rightarrow> mappings_info option" where
  "extract_mappings_loop L info [] = Some info"
| "extract_mappings_loop L info (mapping # rest) = do {
     info' \<leftarrow> extract_mapping L info mapping;
     extract_mappings_loop L info' rest }"

definition extract_mappings_info :: "pylib \<Rightarrow> json \<Rightarrow> mappings_info option" where
  "extract_mappings_info L data = do {
     details \<leftarrow> dict_get data ''details'' (JObj []);
     column_mappings \<leftarrow> dict_get details ''columnMappings'' (JList []);
     its \<leftarrow> dict_get details ''items'' (JList []);
     rtype \<leftarrow> (if truthy its
                then (case its of
                        JList (first # others) \<Rightarrow> dict_get first ''measurementType'' (JStr '''')
                      | _ \<Rightarrow> None)
                else Some (JStr ''EQUALITY''));
     seq \<leftarrow> py_iter column_mappings;
     extract_mappings_loop L \<lparr>mapping_keys = {}, mappings = seq, recon_type = rtype\<rparr> seq }"

text \<open>A row of the reconciliation ledger CSV, and \<open>find_new_mappings\<close>.\<close>

record recon_row =
  Recon_Policy_ID :: json
  Recon_Policy_Name :: json
  Recon_Rule_ID :: json
  Recon_Type :: json
  Left_Column_Name :: json
  Right_Column_Name :: json

fun new_mappings_loop ::
  "pylib \<Rightarrow> mappings_info \<Rightarrow> json \<Rightarrow> json \<Rightarrow> json \<Rightarrow> json list \<Rightarrow> recon_row list option" where
  "new_mappings_loop L v1_info rtype pid pname [] = Some []"
| "new_mappings_loop L v1_info rtype pid pname (mapping # rest) = do {
     left_col \<leftarrow> dict_get mapping ''leftColumnName'' (JStr '''');
     right_col \<leftarrow> dict_get mapping ''rightColumnName'' (JStr '''');
     mapping_id \<leftarrow> dict_get mapping ''id'' JNull;
     more \<leftarrow> new_mappings_loop L v1_info rtype pid pname rest;
     Some ((if truthy left_col \<and> truthy right_col
               \<and> get_column_key L left_col right_col \<notin> mapping_keys v1_info
            then [\<lparr>Recon_Policy_ID = pid, Recon_Policy_Name = pname, Recon_Rule_ID = mapping_id,
                    Recon_Type = rtype, Left_Column_Name = left_col,
                    Right_Column_Name = right_col\<rparr>]
            else []) @ more) }"

definition find_new_mappings ::
  "pylib \<Rightarrow> mappings_info \<Rightarrow> mappings_info \<Rightarrow> json \<Rightarrow> json \<Rightarrow> recon_row list option" where
  "find_new_mappings L v1_info latest_info pid pname =
     new_mappings_loop L v1_info (recon_type latest_info) pid pname (mappings latest_info)"

text \<open>
  The state the loops of the reconciliation \<open>main\<close> update, \<open>read_existing_csv\<close>, the loop
  \<open>for mapping in new_mappings\<close>, and the body of the loop over \<open>policies_to_compare\<close>.
\<close>

record recon_state =
  new_mappings_added :: "recon_row list"
  existing_mapping_keys :: "string set"
  recon_policy_labels :: "pykey \<rightharpoonup> (pykey \<rightharpoonup> json)"

fun recon_read_rows :: "pylib \<Rightarrow> recon_row list \<Rightarrow> recon_state \<Rightarrow> recon_state option" where
  "recon_read_rows L [] st = Some st"
| "recon_read_rows L (row # rest) st =
     (if truthy (Recon_Policy_ID row) \<and> truthy (Left_Column_Name row)
         \<and> truthy (Right_Column_Name row)
      then do {
        let mapping_key = get_column_key L (Left_Column_Name row) (Right_Column_Name row);
        let st1 = st\<lparr>existing_mapping_keys :=
                     insert (py_str L (Recon_Policy_ID row) @ ''_'' @ mapping_key)
                       (existing_mapping_keys st)\<rparr>;
        st2 \<leftarrow> (if truthy (Recon_Rule_ID row) then do {
                   p \<leftarrow> hash_key (Recon_Policy_ID row);
                   Some (st1\<lparr>recon_policy_labels := (recon_policy_labels st1)
                           (p \<mapsto> (labels_of (recon_policy_labels st1) p)
                                  (KStr mapping_key \<mapsto> Recon_Rule_ID row))\<rparr>) }
                 else Some st1);
        recon_read_rows L rest st2 }
      else recon_read_rows L rest st)"

definition recon_read_existing_csv :: "pylib \<Rightarrow> recon_row list \<Rightarrow> recon_state option" where
  "recon_read_existing_csv L rows =
     recon_read_rows L rows
       \<lparr>new_mappings_added = [], existing_mapping_keys = {}, recon_policy_labels = Map.empty\<rparr>"

fun record_new_mappings ::
  "pylib \<Rightarrow> json \<Rightarrow> recon_row list \<Rightarrow> recon_state \<Rightarrow> recon_state option" where
  "record_new_mappings L pid [] st = Some st"
| "record_new_mappings L pid (mapping # rest) st =
     (let mapping_key = get_column_key L (Left_Column_Name mapping) (Right_Column_Name mapping);
          full_key = py_str L pid @ ''_'' @ mapping_key
      in if full_key \<notin> existing_mapping_keys st then do {
           p \<leftarrow> hash_key pid;
           record_new_mappings L pid rest
             (st\<lparr>new_mappings_added := new_mappings_added st @ [mapping],
                 existing_mapping_keys := insert full_key (existing_mapping_keys st),
                 recon_policy_labels := (recon_policy_labels st)
                   (p \<mapsto> (labels_of (recon_policy_labels st) p)
                          (KStr mapping_key \<mapsto> Recon_Rule_ID mapping))\<rparr>) }
         else record_new_mappings L pid rest st)"

fun recon_compare_policy ::
  "pylib \<Rightarrow> transport \<Rightarrow> recon_state \<Rightarrow> policy_info \<Rightarrow> recon_state option" where
  "recon_compare_policy L net st pinfo =
     (let pid = info_policy_id pinfo;
          latest_version = info_version pinfo;
          pname = info_name pinfo;
          v1_data = fetch_policy_version net pid (JInt 1);
          latest_data = fetch_policy_version net pid latest_version
      in if \<not> truthy v1_data \<or> \<not> truthy latest_data then Some st
         else do {
           v1_info \<leftarrow> extract_mappings_info L v1_data;
           latest_info \<leftarrow> extract_mappings_info L latest_data;
           new_mappings \<leftarrow> find_new_mappings L v1_info latest_info pid pname;
           record_new_mappings L pid new_mappings st })"

section \<open>Notions used in the statements\<close>

text \<open>The \<open>id\<close> of an item, as \<open>item.get("id")\<close> reads it.\<close>

definition item_id :: "json \<Rightarrow> json" where
  "item_id item = (case item of JObj kvs \<Rightarrow> get_or kvs ''id'' JNull | _ \<Rightarrow> JNull)"

text \<open>
  An item carries the field its kind is compared on: a non-empty \<open>ruleExpression\<close> for
  CUSTOM and SQL_METRIC, a non-empty \<open>value.udfId\<close> for UDF_PREDICATE, nothing for
  SIZE_CHECK, a non-empty \<open>columnName\<close> for every other kind.
\<close>

definition carries_compared_field :: "json \<Rightarrow> bool" where
  "carries_compared_field item =
     (case item of
        JObj kvs \<Rightarrow>
          (let mt = get_or kvs ''measurementType'' (JStr '''')
           in if mt = JStr ''CUSTOM'' \<or> mt = JStr ''SQL_METRIC''
              then truthy (get_or kvs ''ruleExpression'' (JStr ''''))
              else if mt = JStr ''UDF_PREDICATE''
              then (case get_or kvs ''value'' (JObj []) of
                      JObj vk \<Rightarrow> vk \<noteq> [] \<and> truthy (get_or vk ''udfId'' JNull)
                    | _ \<Rightarrow> False)
              else if mt = JStr ''SIZE_CHECK'' then True
              else truthy (get_or kvs ''columnName'' (JStr '''')))
      | _ \<Rightarrow> False)"

text \<open>The info of a snapshot in which no item has been recorded yet.\<close>

definition empty_info :: "json list \<Rightarrow> items_info" where
  "empty_info seq =
     \<lparr>column_names = {}, custom_expressions = {}, sql_metric_expressions = {},
      udf_predicate_ids = {}, has_size_check = False, items = seq\<rparr>"

text \<open>A policy detail response with the given items.\<close>

definition snapshot :: "json list \<Rightarrow> json" where
  "snapshot its = JObj [(''details'', JObj [(''items'', JList its)])]"

text \<open>A fetch fails: the GET raises, answers with a status other than 200, or its body does not parse.\<close>

fun fetch_failed :: "http_outcome \<Rightarrow> bool" where
  "fetch_failed HttpRaised = True"
| "fetch_failed (HttpResponse status body) = (status \<noteq> 200 \<or> body = None)"

text \<open>A transport on which version 1 of every policy answers 500 and any other version has one check.\<close>

definition net_v1_down :: transport where
  "net_v1_down pid ver =
     (if ver = JInt 1 then HttpResponse 500 None
      else HttpResponse 200 (Some (snapshot
        [JObj [(''id'', JInt 31), (''measurementType'', JStr ''NOT_NULL''),
               (''columnName'', JStr ''currency'')]])))"

text \<open>
  A ledger after an earlier run, and a transport for the policy it names: version 1 has
  the check on \<open>amount\<close>; the latest version has the checks on \<open>amount\<close> and \<open>currency\<close>,
  under the ids the service gave them at the last edit.
\<close>

definition ledger_rows :: "rule_row list" where
  "ledger_rows =
     [\<lparr>Policy_ID = JStr ''P1'', Policy_Name = JStr ''orders'', Rule_ID = JStr ''1'',
        Rule_Type = JStr ''NOT_NULL'', Column_Name = JStr ''NOT_NULL-amount''\<rparr>,
      \<lparr>Policy_ID = JStr ''P1'', Policy_Name = JStr ''orders'', Rule_ID = JStr ''21'',
        Rule_Type = JStr ''NOT_NULL'', Column_Name = JStr ''NOT_NULL-currency''\<rparr>]"

definition net_versions :: transport where
  "net_versions pid ver =
     (if ver = JInt 1
      then HttpResponse 200 (Some (snapshot
        [JObj [(''id'', JInt 1), (''measurementType'', JStr ''NOT_NULL''),
               (''columnName'', JStr ''amount'')]]))
      else HttpResponse 200 (Some (snapshot
        [JObj [(''id'', JInt 30), (''measurementType'', JStr ''NOT_NULL''),
               (''columnName'', JStr ''amount'')],
         JObj [(''id'', JInt 31), (''measurementType'', JStr ''NOT_NULL''),
               (''columnName'', JStr ''currency'')]])))"

text \<open>The \<open>{"key": l.get("key"), "value": l.get("value")}\<close> the payload holds for a label \<open>l\<close>.\<close>

definition label_kv :: "json \<Rightarrow> json" where
  "label_kv l = (case l of JObj kvs \<Rightarrow> JObj [(''key'', get_or kvs ''key'' JNull), (''value'', get_or kvs ''value'' JNull)]
                 | _ \<Rightarrow> JNull)"

text \<open>The label reconciliation adds for an identity key: its value is \<open>str\<close> of the id the ledger holds.\<close>

definition ledger_label :: "pylib \<Rightarrow> json \<Rightarrow> json \<Rightarrow> json" where
  "ledger_label L key original_id = JObj [(''key'', key), (''value'', JStr (py_str L original_id))]"

text \<open>The items and column mappings of a fetched definition and of a payload, and the labels of one of them.\<close>

definition policy_items :: "json \<Rightarrow> json list option" where
  "policy_items policy_data = do {
     pd \<leftarrow> as_dict policy_data;
     dt \<leftarrow> as_dict (get_or pd ''details'' (JObj []));
     py_iter (get_or dt ''items'' (JList [])) }"

definition payload_items :: "json \<Rightarrow> json list option" where
  "payload_items payload = do { p \<leftarrow> as_dict payload; py_iter (get_or p ''items'' (JList [])) }"

definition policy_mappings :: "json \<Rightarrow> json list option" where
  "policy_mappings policy_data = do {
     pd \<leftarrow> as_dict policy_data;
     dt \<leftarrow> as_dict (get_or pd ''details'' (JObj []));
     py_iter (get_or dt ''columnMappings'' (JList [])) }"

definition payload_mappings :: "json \<Rightarrow> json list option" where
  "payload_mappings payload = do { p \<leftarrow> as_dict payload; py_iter (get_or p ''mappings'' (JList [])) }"

definition existing_labels_of :: "json \<Rightarrow> json list option" where
  "existing_labels_of item = do { kvs \<leftarrow> as_dict item; py_iter (get_or kvs ''labels'' (JList [])) }"

text \<open>The identity key of an item, in a list, when the ledger has an entry for it.\<close>

definition matched_key :: "pylib \<Rightarrow> (pykey \<rightharpoonup> json) \<Rightarrow> json \<Rightarrow> json list" where
  "matched_key L lm item =
     (case get_column_name L item of
        None \<Rightarrow> []
      | Some key \<Rightarrow>
          (case hash_key key of
             None \<Rightarrow> []
           | Some k \<Rightarrow> (case lm k of None \<Rightarrow> [] | Some v \<Rightarrow> [key])))"

text \<open>The key \<open>get_column_name\<close> derives, as a function of the four fields it reads.\<close>

definition key_from :: "pylib \<Rightarrow> json \<Rightarrow> json \<Rightarrow> json \<Rightarrow> json \<Rightarrow> json option" where
  "key_from L measurement_type column_name rule_expression val =
    (if measurement_type = JStr ''CUSTOM'' then do {
       expr_hash \<leftarrow> compute_hash L rule_expression;
       Some (JStr (''CUSTOM-'' @ expr_hash)) }
     else if measurement_type = JStr ''SQL_METRIC'' then do {
       expr_hash \<leftarrow> compute_hash L rule_expression;
       Some (JStr (''SQL_METRIC-'' @ expr_hash)) }
     else if measurement_type = JStr ''UDF_PREDICATE'' then do {
       udf_id \<leftarrow> (if truthy val then dict_get val ''udfId'' (JStr ''unknown'')
                  else Some (JStr ''unknown''));
       Some (JStr (''UDF_PREDICATE-'' @ py_str L udf_id)) }
     else if measurement_type = JStr ''SIZE_CHECK'' then Some (JStr ''SIZE_CHECK'')
     else if truthy column_name \<and> truthy measurement_type then
       Some (JStr (py_str L measurement_type @ ''-'' @ py_str L column_name))
     else if truthy column_name then Some column_name
     else Some (py_or measurement_type (JStr ''UNKNOWN'')))"

text \<open>The identity key of a column mapping, and the same in a list when the ledger has an entry for it.\<close>

definition mapping_key_of :: "pylib \<Rightarrow> json \<Rightarrow> json" where
  "mapping_key_of L mapping =
     (case mapping of
        JObj kvs \<Rightarrow> JStr (get_column_key L (get_or kvs ''leftColumnName'' (JStr []))
                                          (get_or kvs ''rightColumnName'' (JStr [])))
      | _ \<Rightarrow> JNull)"

definition matched_mapping_key :: "pylib \<Rightarrow> (pykey \<rightharpoonup> json) \<Rightarrow> json \<Rightarrow> json list" where
  "matched_mapping_key L lm mapping =
     (case hash_key (mapping_key_of L mapping) of
        None \<Rightarrow> []
      | Some k \<Rightarrow> (case lm k of None \<Rightarrow> [] | Some v \<Rightarrow> [mapping_key_of L mapping]))"

text \<open>The labels an item keeps: none in override mode, its existing labels otherwise.\<close>

definition kept_labels :: "bool \<Rightarrow> json \<Rightarrow> json list" where
  "kept_labels OVERRIDE_LABELS item =
     (if OVERRIDE_LABELS then []
      else (case existing_labels_of item of None \<Rightarrow> [] | Some labs \<Rightarrow> map label_kv labs))"

text \<open>
  A quality policy whose two checks carry labels of their own, a reconciliation policy
  with two column mappings, and a ledger for each.
\<close>

definition amount_check :: "(string \<times> json) list" where
  "amount_check =
     [(''id'', JInt 30), (''measurementType'', JStr ''NOT_NULL''), (''columnName'', JStr ''amount''),
      (''labels'', JList [JObj [(''key'', JStr ''team''), (''value'', JStr ''finance'')]])]"

definition currency_check :: "(string \<times> json) list" where
  "currency_check =
     [(''id'', JInt 31), (''measurementType'', JStr ''NOT_NULL''), (''columnName'', JStr ''currency''),
      (''labels'', JList [JObj [(''key'', JStr ''owner''), (''value'', JStr ''ops'')]])]"

definition labelled_policy :: json where
  "labelled_policy =
     JObj [(''rule'', JObj [(''id'', JInt 7), (''name'', JStr ''orders''), (''version'', JInt 3)]),
           (''details'', JObj [(''items'', JList [JObj amount_check, JObj currency_check])])]"

definition ledger_map :: "pykey \<rightharpoonup> json" where
  "ledger_map = [KStr ''NOT_NULL-amount'' \<mapsto> JStr ''1'']"

definition id_mapping :: "(string \<times> json) list" where
  "id_mapping =
     [(''id'', JInt 40), (''leftColumnName'', JStr ''id''), (''rightColumnName'', JStr ''id''),
      (''labels'', JList [JObj [(''key'', JStr ''team''), (''value'', JStr ''finance'')]])]"

definition total_mapping :: "(string \<times> json) list" where
  "total_mapping =
     [(''id'', JInt 41), (''leftColumnName'', JStr ''total''), (''rightColumnName'', JStr ''amount'')]"

definition labelled_recon_policy :: json where
  "labelled_recon_policy =
     JObj [(''rule'', JObj [(''id'', JInt 8), (''name'', JStr ''orders_vs_ledger'')]),
           (''details'', JObj
              [(''items'', JList [JObj [(''id'', JInt 80), (''measurementType'', JStr ''EQUALITY'')]]),
               (''columnMappings'', JList [JObj id_mapping, JObj total_mapping])])]"

definition recon_ledger_map :: "pykey \<rightharpoonup> json" where
  "recon_ledger_map = [KStr ''id_id'' \<mapsto> JStr ''12'']"

text \<open>
  The definition that is fed to a second pass: the rule of the fetched definition with
  the items, or the column mappings, of the payload the first pass produced.
\<close>

definition with_items :: "json \<Rightarrow> json list \<Rightarrow> json" where
  "with_items policy_data ups =
     (case policy_data of
        JObj pd \<Rightarrow> JObj [(''rule'', get_or pd ''rule'' (JObj [])),
                          (''details'', JObj [(''items'', JList ups)])]
      | _ \<Rightarrow> JNull)"

definition with_mappings :: "json \<Rightarrow> json list \<Rightarrow> json" where
  "with_mappings policy_data ups =
     (case policy_data of
        JObj pd \<Rightarrow>
          JObj [(''rule'', get_or pd ''rule'' (JObj [])),
                (''details'', JObj
                   [(''columnMappings'', JList ups),
                    (''items'', (case get_or pd ''details'' (JObj []) of
                                   JObj dt \<Rightarrow> get_or dt ''items'' (JList [])
                                 | _ \<Rightarrow> JList []))])]
      | _ \<Rightarrow> JNull)"

text \<open>The entry of a dict under a key, when it has one, and the \<open>rule\<close> object of a definition or payload.\<close>

definition entry :: "json \<Rightarrow> string \<Rightarrow> json option" where
  "entry d k = (case d of JObj kvs \<Rightarrow> map_of kvs k | _ \<Rightarrow> None)"

definition rule_part :: "json \<Rightarrow> json" where
  "rule_part d = (case d of JObj kvs \<Rightarrow> get_or kvs ''rule'' (JObj []) | _ \<Rightarrow> JNull)"

text \<open>Every listed field that the source dict has is in the target dict with the same value.\<close>

definition carried :: "string list \<Rightarrow> json \<Rightarrow> json \<Rightarrow> bool" where
  "carried ks src dst = (\<forall>k\<in>set ks. \<forall>v. entry src k = Some v \<longrightarrow> entry dst k = Some v)"

text \<open>
  The fields the payload builders copy with \<open>.get\<close> from the fetched rule into the
  payload's rule, and from an item and a column mapping into its counterpart: for quality
  rules, then for reconciliation policies.
\<close>

definition rule_fields :: "string list" where
  "rule_fields =
     [''subType'', ''enabled'', ''name'', ''description'', ''schedule'',
      ''executionTimeoutInMinutes'', ''totalExecutionTimeoutInMinutes'', ''jobSchedule'',
      ''segments'', ''customSqlConfig'', ''policyScoreStrategy'', ''thresholdLevel'', ''id'',
      ''includeInQualityScore'', ''type'', ''scheduled'', ''sparkResourceConfig'',
      ''policyGroups'', ''labels'', ''tags'', ''additionalPersistedColumns'', ''filter'',
      ''sparkSQLFilterType'']"

definition item_fields :: "string list" where
  "item_fields =
     [''measurementType'', ''columnName'', ''executionOrder'', ''weightage'',
      ''businessExplanation'', ''isWarning'', ''associatedDQRecommendationId'',
      ''bulkPolicyDqRuleId'', ''thresholdConfig'', ''value'', ''id'']"

definition recon_rule_fields :: "string list" where
  "recon_rule_fields =
     [''subType'', ''enabled'', ''name'', ''description'', ''executionTimeoutInMinutes'',
      ''totalExecutionTimeoutInMinutes'', ''analyticsPipelineId'', ''scheduleType'',
      ''jobSchedule'', ''segments'', ''customSqlConfig'', ''policyScoreStrategy'',
      ''thresholdLevel'', ''leftFilter'', ''leftSparkFilterSelectedColumns'',
      ''leftSparkSQLFilterType'', ''rightFilter'', ''rightSparkFilterSelectedColumns'',
      ''rightSparkSQLFilterType'', ''delayInMinutes'', ''engineType'', ''leftEngineType'',
      ''rightEngineType'', ''joinType'', ''leftSparkSQLDynamicFilterVariableMapping'',
      ''rightSparkSQLDynamicFilterVariableMapping'', ''id'', ''includeInQualityScore'',
      ''type'', ''scheduled'', ''timeSecondsOffset'', ''resourceStrategyType'',
      ''selectedResourceInventory'', ''autoRetryEnabled'', ''policyGroups'', ''labels'',
      ''tags'']"

definition mapping_fields :: "string list" where
  "mapping_fields =
     [''id'', ''leftColumnName'', ''operation'', ''rightColumnName'', ''useForJoining'',
      ''reconciliationRuleId'', ''isJoinColumnUsedForMeasure'', ''ignoreNullValues'',
      ''weightage'', ''ruleVersion'', ''businessExplanation'', ''isWarning'', ''isArchived'',
      ''mappingType'']"

definition recon_item_fields :: "string list" where
  "recon_item_fields = [''measurementType'', ''executionOrder'', ''id'']"

text \<open>
  The \<open>details\<close> object of a definition, and the object a dict holds under a key
  (\<open>None\<close> when it has none).
\<close>

definition details_part :: "json \<Rightarrow> json" where
  "details_part d = (case d of JObj kvs \<Rightarrow> get_or kvs ''details'' (JObj []) | _ \<Rightarrow> JNull)"

definition sub_object :: "json \<Rightarrow> string \<Rightarrow> json" where
  "sub_object d k = (case entry d k of None \<Rightarrow> JNull | Some v \<Rightarrow> v)"

text \<open>
  The fields the payload builders copy with \<open>.get\<close> from the objects nested in the
  fetched rule: a backing asset, the right backing asset of a reconciliation policy, the
  notification channels of a quality rule and of a reconciliation policy, and the Spark
  resource configuration of a reconciliation policy.
\<close>

definition backing_asset_fields :: "string list" where
  "backing_asset_fields = [''tableAssetId'', ''id'']"

definition right_backing_asset_fields :: "string list" where
  "right_backing_asset_fields = [''tableAssetId'', ''marker'', ''id'']"

definition notification_fields :: "string list" where
  "notification_fields =
     [''configuredNotificationGroupIds'', ''notifyOn'', ''notifyOnSuccess'', ''severity'',
      ''alertsEnabled'', ''reNotifyFactor'', ''notifyOnWarning'']"

definition recon_notification_fields :: "string list" where
  "recon_notification_fields =
     [''configuredNotificationGroupIds'', ''notifyOn'', ''notifyOnSuccess'', ''severity'',
      ''alertsEnabled'', ''reNotifyFactor'', ''notifyOnWarning'', ''notificationEnabled'']"

definition spark_resource_fields :: "string list" where
  "spark_resource_fields = [''additionalConfiguration'', ''yunikorn'']"

text \<open>
  A quality policy and a reconciliation policy whose rules hold nested objects, an engine
  type and a pipeline id.
\<close>

definition asset_policy :: json where
  "asset_policy =
     JObj [(''rule'', JObj [(''id'', JInt 7), (''name'', JStr ''orders''), (''version'', JInt 3),
                            (''engineType'', JStr ''SPARK''),
                            (''backingAsset'', JObj [(''tableAssetId'', JInt 9), (''id'', JInt 2),
                                                     (''assetName'', JStr ''orders'')]),
                            (''notificationChannels'', JObj [(''severity'', JStr ''LOW'')])]),
           (''details'', JObj [(''items'', JList [JObj amount_check, JObj currency_check]),
                               (''transformUDFs'', JList [JStr ''trim''])])]"

definition asset_recon_policy :: json where
  "asset_recon_policy =
     JObj [(''rule'', JObj [(''id'', JInt 8), (''name'', JStr ''orders_vs_ledger''),
                            (''analyticsPipelineId'', JInt 5),
                            (''leftBackingAsset'', JObj [(''tableAssetId'', JInt 11), (''id'', JInt 3)]),
                            (''rightBackingAsset'', JObj [(''tableAssetId'', JInt 12),
                                                          (''marker'', JStr ''m''), (''id'', JInt 4)]),
                            (''notificationChannels'', JObj [(''notificationEnabled'', JBool True)]),
                            (''sparkResourceConfig'', JObj [(''yunikorn'', JStr ''queue-a'')])]),
           (''details'', JObj
              [(''items'', JList [JObj [(''id'', JInt 80), (''measurementType'', JStr ''EQUALITY'')]]),
               (''columnMappings'', JList [JObj id_mapping, JObj total_mapping])])]"

text \<open>
  A reconciliation ledger after an earlier run, and a transport for the policy it names:
  the mapping of \<open>total\<close> to \<open>amount\<close> is new against version 1 and is in the ledger.
\<close>

definition recon_ledger_rows :: "recon_row list" where
  "recon_ledger_rows =
     [\<lparr>Recon_Policy_ID = JStr ''P2'', Recon_Policy_Name = JStr ''orders_vs_ledger'',
        Recon_Rule_ID = JStr ''40'', Recon_Type = JStr ''EQUALITY'',
        Left_Column_Name = JStr ''id'', Right_Column_Name = JStr ''id''\<rparr>,
      \<lparr>Recon_Policy_ID = JStr ''P2'', Recon_Policy_Name = JStr ''orders_vs_ledger'',
        Recon_Rule_ID = JStr ''45'', Recon_Type = JStr ''EQUALITY'',
        Left_Column_Name = JStr ''total'', Right_Column_Name = JStr ''amount''\<rparr>]"

definition recon_snapshot :: "json list \<Rightarrow> json" where
  "recon_snapshot ms = JObj [(''details'', JObj [(''columnMappings'', JList ms)])]"

definition recon_net_versions :: transport where
  "recon_net_versions pid ver =
     (if ver = JInt 1
      then HttpResponse 200 (Some (recon_snapshot
        [JObj [(''id'', JInt 40), (''leftColumnName'', JStr ''id''),
               (''rightColumnName'', JStr ''id'')]]))
      else HttpResponse 200 (Some (recon_snapshot
        [JObj [(''id'', JInt 50), (''leftColumnName'', JStr ''id''),
               (''rightColumnName'', JStr ''id'')],
         JObj [(''id'', JInt 51), (''leftColumnName'', JStr ''total''),
               (''rightColumnName'', JStr ''amount'')]])))"

section \<open>Properties\<close>

subsection \<open>Basic facts\<close>

lemma dict_get_JObj [simp]: "dict_get (JObj kvs) k dflt = Some (get_or kvs k dflt)"
  by (simp add: dict_get_def)

lemma show_int_31: "show_int 31 = ''31''"
  by (simp add: show_int_def show_nat.simps)

subsection \<open>Identity keys\<close>

text \<open>
  C9. A CUSTOM or SQL_METRIC check whose \<open>ruleExpression\<close> is absent or the empty string
  gets the key \<open>CUSTOM-empty\<close> or \<open>SQL_METRIC-empty\<close>, in the harvesting script and in the
  sync script alike: \<open>compute_hash\<close> returns the literal \<open>empty\<close> for it, not a digest.
  The key does not depend on any other field, so all such checks of one kind share it.
\<close>

theorem empty_expression_key:
  assumes kind: "kind = ''CUSTOM'' \<or> kind = ''SQL_METRIC''"
    and mt: "map_of kvs ''measurementType'' = Some (JStr kind)"
    and re: "map_of kvs ''ruleExpression'' = None \<or> map_of kvs ''ruleExpression'' = Some (JStr [])"
  shows "compute_hash L (get_or kvs ''ruleExpression'' (JStr [])) = Some ''empty''
       \<and> get_column_name L (JObj kvs) = Some (JStr (kind @ ''-empty''))
       \<and> fetch_get_column_name L (JObj kvs) = Some (JStr (kind @ ''-empty''))"
proof -
  have e: "get_or kvs ''ruleExpression'' (JStr []) = JStr []"
    using re by (auto simp: get_or_def)
  have m: "get_or kvs ''measurementType'' (JStr []) = JStr kind"
    using mt by (simp add: get_or_def)
  have h: "compute_hash L (JStr []) = Some ''empty''"
    by (simp add: compute_hash_def)
  show ?thesis
    using kind by (auto simp: get_column_name_def fetch_get_column_name_def e m h)
qed

theorem empty_expression_key_witness:
  "get_column_name lib0 (JObj [(''id'', JInt 7), (''measurementType'', JStr ''SQL_METRIC'')])
     = Some (JStr ''SQL_METRIC-empty'')
   \<and> fetch_get_column_name lib0 (JObj [(''id'', JInt 7), (''measurementType'', JStr ''SQL_METRIC'')])
     = Some (JStr ''SQL_METRIC-empty'')"
  using empty_expression_key [of "''SQL_METRIC''"
      "[(''id'', JInt 7), (''measurementType'', JStr ''SQL_METRIC'')]" lib0]
  by simp

text \<open>
  C3. The harvesting script and the sync script do not derive the same key for a check of
  a column kind that has both a \<open>measurementType\<close> and a \<open>columnName\<close>: harvesting writes
  the bare column name to the ledger, the sync script looks the check up under
  \<open>measurementType-columnName\<close>.
\<close>

theorem key_derivations_differ:
  "fetch_get_column_name L
     (JObj [(''id'', JInt 5), (''measurementType'', JStr ''NOT_NULL''),
            (''columnName'', JStr ''amount'')])
     = Some (JStr ''amount'')
   \<and> get_column_name L
     (JObj [(''id'', JInt 5), (''measurementType'', JStr ''NOT_NULL''),
            (''columnName'', JStr ''amount'')])
     = Some (JStr ''NOT_NULL-amount'')"
  by (simp add: fetch_get_column_name_def get_column_name_def get_or_def)

subsection \<open>Version diff\<close>

lemma extract_item_items: "extract_item info item = Some info' \<Longrightarrow> items info' = items info"
  by (auto simp: extract_item_def split: if_splits bind_splits)

lemma extract_loop_items: "extract_loop info xs = Some info' \<Longrightarrow> items info' = items info"
proof (induction xs arbitrary: info)
  case Nil
  then show ?case by simp
next
  case (Cons x xs)
  then show ?case by (auto split: bind_splits dest: extract_item_items)
qed

lemma extract_items_info_no_items:
  assumes "extract_items_info v1_data = Some v1_info" and "items v1_info = []"
  shows "v1_info = empty_info []"
proof -
  from assms(1) obtain seq where l: "extract_loop (empty_info seq) seq = Some v1_info"
    by (auto simp: extract_items_info_def empty_info_def split: bind_splits)
  from extract_loop_items [OF l] assms(2) have "seq = []" by (simp add: empty_info_def)
  with l show ?thesis by simp
qed

lemma is_new_empty_info:
  assumes "is_new (empty_info []) item = Some b"
  shows "b = carries_compared_field item"
proof (cases item)
  case (JObj kvs)
  note item = this
  show ?thesis
  proof (cases "get_or kvs ''value'' (JObj [])")
    case (JObj vk)
    with assms item show ?thesis
      by (auto simp: is_new_def carries_compared_field_def empty_info_def Let_def
          split: if_splits bind_splits)
  qed (use assms item in \<open>auto simp: is_new_def carries_compared_field_def empty_info_def
          Let_def dict_get_def split: if_splits bind_splits\<close>)
qed (use assms in \<open>auto simp: is_new_def dict_get_def\<close>)

lemma dict_get_id: "dict_get item ''id'' JNull = Some r \<Longrightarrow> r = item_id item"
  by (cases item) (auto simp: dict_get_def item_id_def)

lemma new_rules_loop_empty_info:
  assumes "new_rules_loop L (empty_info []) pid pname xs = Some rows"
  shows "map Rule_ID rows = map item_id (filter carries_compared_field xs)
       \<and> (\<forall>x\<in>set xs. is_new (empty_info []) x = Some (carries_compared_field x))"
  using assms
proof (induction xs arbitrary: rows)
  case Nil
  then show ?case by simp
next
  case (Cons x xs)
  from Cons.prems obtain mt rid new row more where
    rid: "dict_get x ''id'' JNull = Some rid"
    and new: "is_new (empty_info []) x = Some new"
    and row: "(if new then do {
                key \<leftarrow> get_column_name L x;
                Some [\<lparr>Policy_ID = pid, Policy_Name = pname, Rule_ID = rid,
                       Rule_Type = mt, Column_Name = key\<rparr>] }
              else Some []) = Some row"
    and more: "new_rules_loop L (empty_info []) pid pname xs = Some more"
    and rows: "rows = row @ more"
    unfolding new_rules_loop.simps bind_eq_Some_conv by blast
  from new have n: "new = carries_compared_field x" by (rule is_new_empty_info)
  from rid have r: "rid = item_id x" by (rule dict_get_id)
  from row have "map Rule_ID row = (if new then [rid] else [])"
    by (auto split: if_splits bind_splits)
  with Cons.IH [OF more] rows n r new show ?case by auto
qed

text \<open>
  C4, as the code has it. Against a baseline with no items, \<open>find_new_rules\<close> reports
  exactly the items of the latest version that carry the field their kind is compared
  on, in order: an item is classified as new if and only if it carries that field.
\<close>

theorem empty_baseline_classification:
  assumes "extract_items_info v1_data = Some v1_info" and "items v1_info = []"
    and "find_new_rules L v1_info latest_info pid pname = Some rows"
  shows "map Rule_ID rows = map item_id (filter carries_compared_field (items latest_info))
       \<and> (\<forall>item\<in>set (items latest_info).
             is_new v1_info item = Some (carries_compared_field item))"
proof -
  have "v1_info = empty_info []" using assms(1,2) by (rule extract_items_info_no_items)
  with assms(3) show ?thesis
    using new_rules_loop_empty_info [of L pid pname "items latest_info" rows]
    by (simp add: find_new_rules_def)
qed

theorem empty_baseline_classification_witness:
  "extract_items_info (snapshot []) = Some (empty_info [])
   \<and> find_new_rules lib0 (empty_info [])
        (empty_info [JObj [(''id'', JInt 9), (''measurementType'', JStr ''CUSTOM'')],
                     JObj [(''id'', JInt 31), (''measurementType'', JStr ''NOT_NULL''),
                           (''columnName'', JStr ''currency'')]])
        (JStr ''P1'') (JStr ''orders'')
      = Some [\<lparr>Policy_ID = JStr ''P1'', Policy_Name = JStr ''orders'', Rule_ID = JInt 31,
                Rule_Type = JStr ''NOT_NULL'', Column_Name = JStr ''NOT_NULL-currency''\<rparr>]
   \<and> map item_id (filter carries_compared_field
        [JObj [(''id'', JInt 9), (''measurementType'', JStr ''CUSTOM'')],
         JObj [(''id'', JInt 31), (''measurementType'', JStr ''NOT_NULL''),
               (''columnName'', JStr ''currency'')]]) = [JInt 31]"
  using empty_baseline_classification [of "snapshot []" "empty_info []" lib0
      "empty_info [JObj [(''id'', JInt 9), (''measurementType'', JStr ''CUSTOM'')],
                   JObj [(''id'', JInt 31), (''measurementType'', JStr ''NOT_NULL''),
                         (''columnName'', JStr ''currency'')]]"
      "JStr ''P1''" "JStr ''orders''"
      "[\<lparr>Policy_ID = JStr ''P1'', Policy_Name = JStr ''orders'', Rule_ID = JInt 31,
                Rule_Type = JStr ''NOT_NULL'', Column_Name = JStr ''NOT_NULL-currency''\<rparr>]"]
  by (simp add: snapshot_def extract_items_info_def empty_info_def find_new_rules_def
      is_new_def get_column_name_def get_or_def carries_compared_field_def item_id_def)

text \<open>
  C4, as stated, fails: against an empty baseline, a CUSTOM check without a
  \<open>ruleExpression\<close> is in the latest version and is not reported as new.
\<close>

theorem empty_baseline_not_all_new:
  "map_option items (extract_items_info (snapshot [])) = Some []
   \<and> map_option items (extract_items_info
        (snapshot [JObj [(''id'', JInt 9), (''measurementType'', JStr ''CUSTOM'')]]))
       = Some [JObj [(''id'', JInt 9), (''measurementType'', JStr ''CUSTOM'')]]
   \<and> do { v1_info \<leftarrow> extract_items_info (snapshot []);
          latest_info \<leftarrow> extract_items_info
            (snapshot [JObj [(''id'', JInt 9), (''measurementType'', JStr ''CUSTOM'')]]);
          find_new_rules lib0 v1_info latest_info (JStr ''P1'') (JStr ''orders'') } = Some []"
  by (simp add: snapshot_def extract_items_info_def extract_item_def find_new_rules_def
      is_new_def get_or_def)

subsection \<open>Ledger update\<close>

lemma fetch_policy_version_failed:
  "fetch_failed (net pid ver) \<Longrightarrow> fetch_policy_version net pid ver = JNull"
  by (cases "net pid ver") (auto simp: fetch_policy_version_def)

text \<open>
  C8. When the fetch of version 1 or of the latest version of a candidate policy fails,
  \<open>fetch_policy_version\<close> returns \<open>None\<close>, the comparison of that policy returns
  normally and leaves the state as it was (no row appended, no label recorded), and the
  loop goes on with the remaining policies.
\<close>

theorem failed_fetch_skips_policy:
  assumes "fetch_failed (net (info_policy_id p) (JInt 1))
         \<or> fetch_failed (net (info_policy_id p) (info_version p))"
  shows "compare_policy L net st p = Some st
       \<and> compare_policies L net st (p # rest) = compare_policies L net st rest"
proof -
  have "\<not> truthy (fetch_policy_version net (info_policy_id p) (JInt 1))
      \<or> \<not> truthy (fetch_policy_version net (info_policy_id p) (info_version p))"
    using assms by (auto simp: fetch_policy_version_failed)
  then have "compare_policy L net st p = Some st"
    by (auto simp: Let_def)
  then show ?thesis by simp
qed

theorem failed_fetch_skips_policy_witness:
  "fetch_failed (net_v1_down (JStr ''P1'') (JInt 1))
   \<and> compare_policy lib0 net_v1_down
        \<lparr>new_rules_added = [], existing_rule_ids = {}, policy_labels = Map.empty\<rparr>
        \<lparr>info_policy_id = JStr ''P1'', info_version = JInt 3, info_name = JStr ''orders''\<rparr>
      = Some \<lparr>new_rules_added = [], existing_rule_ids = {}, policy_labels = Map.empty\<rparr>"
  using failed_fetch_skips_policy [of net_v1_down
      "\<lparr>info_policy_id = JStr ''P1'', info_version = JInt 3, info_name = JStr ''orders''\<rparr>"
      lib0 "\<lparr>new_rules_added = [], existing_rule_ids = {}, policy_labels = Map.empty\<rparr>" "[]"]
  by (simp add: net_v1_down_def)

text \<open>
  C1. The quality-rule script appends a ledger row whenever the rule id is new, not when
  the pair of policy and identity key is new. The ledger holds
  \<open>(P1, NOT_NULL-currency)\<close> with original id 21; the service has since given the check
  the id 31. The run appends a second row for the same pair and replaces the id that
  \<open>policy_labels\<close> holds for it.
\<close>

theorem rule_id_dedup_replaces_original_id:
  "do { st \<leftarrow> read_existing_csv lib0 ledger_rows;
        st' \<leftarrow> compare_policy lib0 net_versions st
                 \<lparr>info_policy_id = JStr ''P1'', info_version = JInt 3, info_name = JStr ''orders''\<rparr>;
        Some (labels_of (policy_labels st) (KStr ''P1'') (KStr ''NOT_NULL-currency''),
              new_rules_added st',
              labels_of (policy_labels st') (KStr ''P1'') (KStr ''NOT_NULL-currency'')) }
   = Some (Some (JStr ''21''),
           [\<lparr>Policy_ID = JStr ''P1'', Policy_Name = JStr ''orders'', Rule_ID = JInt 31,
              Rule_Type = JStr ''NOT_NULL'', Column_Name = JStr ''NOT_NULL-currency''\<rparr>],
           Some (JInt 31))"
  by (simp add: read_existing_csv_def ledger_rows_def net_versions_def snapshot_def
      fetch_policy_version_def extract_items_info_def extract_item_def find_new_rules_def
      is_new_def get_column_name_def get_or_def labels_of_def show_int_31 Let_def)

subsection \<open>Label reconciliation\<close>

lemma as_dict_Some: "as_dict d = Some kvs \<longleftrightarrow> d = JObj kvs"
  by (cases d) auto

lemma dict_get_Some: "dict_get d k dflt = Some v \<longleftrightarrow> (\<exists>kvs. d = JObj kvs \<and> v = get_or kvs k dflt)"
  by (cases d) (auto simp: dict_get_def)

lemma label_pairs_map: "label_pairs xs = Some ys \<Longrightarrow> ys = map label_kv xs"
proof (induction xs arbitrary: ys)
  case Nil
  then show ?case by simp
next
  case (Cons x xs)
  then show ?case
    by (auto simp: bind_eq_Some_conv dict_get_Some label_kv_def)
qed

lemma py_append_Some: "py_append v x = Some w \<longleftrightarrow> (\<exists>xs. v = JList xs \<and> w = JList (xs @ [x]))"
  by (cases v) auto

lemma update_item_normal:
  assumes "update_item L False lm item = Some (u, a, s)"
  shows "\<exists>kvs key k labs S new. item = JObj kvs \<and> get_column_name L item = Some key
      \<and> hash_key key = Some k
      \<and> py_iter (get_or kvs ''labels'' (JList [])) = Some labs
      \<and> label_keys labs = Some S
      \<and> u = updated_item kvs (map label_kv labs @ new)
      \<and> (case lm k of None \<Rightarrow> new = [] \<and> a = [] \<and> s = []
          | Some v \<Rightarrow> if k \<in> S then new = [] \<and> a = [] \<and> s = [key]
                      else new = [ledger_label L key v] \<and> a = [key] \<and> s = [])"
proof -
  from assms obtain kvs key k labs S el' labs' out where
    item: "item = JObj kvs" and key: "get_column_name L item = Some key"
    and labs: "py_iter (get_or kvs ''labels'' (JList [])) = Some labs"
    and S: "label_keys labs = Some S" and k: "hash_key key = Some k"
    and br: "(case lm k of
             Some rule_id \<Rightarrow>
               if k \<in> S then Some (get_or kvs ''labels'' (JList []), [], [key])
               else do {
                 appended \<leftarrow> py_append (get_or kvs ''labels'' (JList []))
                   (JObj [(''key'', key), (''value'', JStr (py_str L rule_id))]);
                 Some (appended, [key], []) }
           | None \<Rightarrow> Some (get_or kvs ''labels'' (JList []), [], [])) = Some (el', a, s)"
    and labs': "py_iter el' = Some labs'" and out: "label_pairs labs' = Some out"
    and u: "u = updated_item kvs out"
    by (auto simp: update_item_def bind_eq_Some_conv Let_def as_dict_Some)
  show ?thesis
  proof (cases "lm k")
    case None
    with br labs labs' out have "out = map label_kv labs" "a = []" "s = []"
      by (auto dest: label_pairs_map)
    with item key labs S k u None show ?thesis by auto
  next
    case (Some v)
    show ?thesis
    proof (cases "k \<in> S")
      case True
      with br Some labs labs' out have "out = map label_kv labs" "a = []" "s = [key]"
        by (auto dest: label_pairs_map)
      with item key labs S k u Some True show ?thesis by auto
    next
      case False
      with br Some obtain xs where xs: "get_or kvs ''labels'' (JList []) = JList xs"
        and el: "el' = JList (xs @ [ledger_label L key v])" and as: "a = [key]" "s = []"
        by (auto simp: bind_eq_Some_conv py_append_Some ledger_label_def)
      from xs labs have "labs = xs" by simp
      with el labs' out have "out = map label_kv labs @ [ledger_label L key v]"
        by (auto dest!: label_pairs_map simp: label_kv_def ledger_label_def get_or_def)
      with item key labs S k u Some False as show ?thesis by auto
    qed
  qed
qed

lemma update_item_override:
  assumes "update_item L True lm item = Some (u, a, s)"
  shows "\<exists>kvs key k. item = JObj kvs \<and> get_column_name L item = Some key
      \<and> hash_key key = Some k
      \<and> (case lm k of
            None \<Rightarrow> u = updated_item kvs [] \<and> a = [] \<and> s = []
          | Some v \<Rightarrow> u = updated_item kvs [ledger_label L key v] \<and> a = [key] \<and> s = [])"
proof -
  from assms obtain kvs key k el' labs' out where
    item: "item = JObj kvs" and key: "get_column_name L item = Some key"
    and k: "hash_key key = Some k"
    and br: "(case lm k of
             Some rule_id \<Rightarrow>
               Some (JList [JObj [(''key'', key), (''value'', JStr (py_str L rule_id))]],
                     [key], [])
           | None \<Rightarrow> Some (JList [], [], [])) = Some (el', a, s)"
    and labs': "py_iter el' = Some labs'" and out: "label_pairs labs' = Some out"
    and u: "u = updated_item kvs out"
    by (auto simp: update_item_def bind_eq_Some_conv Let_def as_dict_Some)
  show ?thesis
  proof (cases "lm k")
    case None
    with br labs' out have "out = []" "a = []" "s = []" by auto
    with item key k u None show ?thesis by auto
  next
    case (Some v)
    with br labs' out have "out = [ledger_label L key v]" "a = [key]" "s = []"
      by (auto simp: ledger_label_def get_or_def)
    with item key k u Some show ?thesis by auto
  qed
qed

lemma update_mapping_normal:
  assumes "update_mapping L lm mapping = Some (u, a, s)"
  shows "\<exists>kvs key labs S new. mapping = JObj kvs
      \<and> key = get_column_key L (get_or kvs ''leftColumnName'' (JStr [])) (get_or kvs ''rightColumnName'' (JStr []))
      \<and> py_iter (get_or kvs ''labels'' (JList [])) = Some labs
      \<and> label_keys labs = Some S
      \<and> u = updated_mapping kvs (map label_kv labs @ new)
      \<and> (case lm (KStr key) of None \<Rightarrow> new = [] \<and> a = [] \<and> s = []
          | Some v \<Rightarrow> if KStr key \<in> S then new = [] \<and> a = [] \<and> s = [JStr key]
                      else new = [ledger_label L (JStr key) v] \<and> a = [JStr key] \<and> s = [])"
proof -
  from assms obtain kvs where item: "mapping = JObj kvs"
    by (auto simp: update_mapping_def bind_eq_Some_conv as_dict_Some)
  define key where "key = get_column_key L (get_or kvs ''leftColumnName'' (JStr []))
     (get_or kvs ''rightColumnName'' (JStr []))"
  note key = key_def
  from assms obtain labs S el' labs' out where
    labs: "py_iter (get_or kvs ''labels'' (JList [])) = Some labs"
    and S: "label_keys labs = Some S"
    and br: "(case lm (KStr key) of
             Some rule_id \<Rightarrow>
               if KStr key \<in> S then Some (get_or kvs ''labels'' (JList []), [], [JStr key])
               else do {
                 appended \<leftarrow> py_append (get_or kvs ''labels'' (JList []))
                   (JObj [(''key'', JStr key), (''value'', JStr (py_str L rule_id))]);
                 Some (appended, [JStr key], []) }
           | None \<Rightarrow> Some (get_or kvs ''labels'' (JList []), [], [])) = Some (el', a, s)"
    and labs': "py_iter el' = Some labs'" and out: "label_pairs labs' = Some out"
    and u: "u = updated_mapping kvs out"
    unfolding item key_def
    by (auto simp: update_mapping_def bind_eq_Some_conv Let_def)
  show ?thesis
  proof (cases "lm (KStr key)")
    case None
    with br labs labs' out have "out = map label_kv labs" "a = []" "s = []"
      by (auto dest: label_pairs_map)
    with item key labs S u None show ?thesis by auto
  next
    case (Some v)
    show ?thesis
    proof (cases "KStr key \<in> S")
      case True
      with br Some labs labs' out have "out = map label_kv labs" "a = []" "s = [JStr key]"
        by (auto dest: label_pairs_map)
      with item key labs S u Some True show ?thesis by auto
    next
      case False
      with br Some obtain xs where xs: "get_or kvs ''labels'' (JList []) = JList xs"
        and el: "el' = JList (xs @ [ledger_label L (JStr key) v])" and as: "a = [JStr key]" "s = []"
        by (auto simp: bind_eq_Some_conv py_append_Some ledger_label_def)
      from xs labs have "labs = xs" by simp
      with el labs' out have "out = map label_kv labs @ [ledger_label L (JStr key) v]"
        by (auto dest!: label_pairs_map simp: label_kv_def ledger_label_def get_or_def)
      with item key labs S u Some False as show ?thesis by auto
    qed
  qed
qed

lemma update_items_list_all2:
  assumes "update_items L ov lm its = Some (ups, added, skipped)"
  shows "\<exists>res. list_all2 (\<lambda>item r. update_item L ov lm item = Some r) its res
       \<and> ups = map fst res \<and> added = concat (map (\<lambda>r. fst (snd r)) res)
       \<and> skipped = concat (map (\<lambda>r. snd (snd r)) res)"
  using assms
proof (induction its arbitrary: ups added skipped)
  case Nil
  then show ?case by simp
next
  case (Cons x xs)
  from Cons.prems obtain u a s us as ss where
    x: "update_item L ov lm x = Some (u, a, s)"
    and xs: "update_items L ov lm xs = Some (us, as, ss)"
    and eq: "ups = u # us" "added = a @ as" "skipped = s @ ss"
    by (auto simp: bind_eq_Some_conv)
  from Cons.IH [OF xs] obtain res where
    "list_all2 (\<lambda>item r. update_item L ov lm item = Some r) xs res"
    "us = map fst res" "as = concat (map (\<lambda>r. fst (snd r)) res)"
    "ss = concat (map (\<lambda>r. snd (snd r)) res)" by blast
  with x eq show ?case
    by (intro exI [of _ "(u, a, s) # res"]) simp
qed

lemma update_mappings_list_all2:
  assumes "update_mappings L lm ms = Some (ups, added, skipped)"
  shows "\<exists>res. list_all2 (\<lambda>m r. update_mapping L lm m = Some r) ms res
       \<and> ups = map fst res \<and> added = concat (map (\<lambda>r. fst (snd r)) res)
       \<and> skipped = concat (map (\<lambda>r. snd (snd r)) res)"
  using assms
proof (induction ms arbitrary: ups added skipped)
  case Nil
  then show ?case by simp
next
  case (Cons x xs)
  from Cons.prems obtain u a s us as ss where
    x: "update_mapping L lm x = Some (u, a, s)"
    and xs: "update_mappings L lm xs = Some (us, as, ss)"
    and eq: "ups = u # us" "added = a @ as" "skipped = s @ ss"
    by (auto simp: bind_eq_Some_conv)
  from Cons.IH [OF xs] obtain res where
    "list_all2 (\<lambda>m r. update_mapping L lm m = Some r) xs res"
    "us = map fst res" "as = concat (map (\<lambda>r. fst (snd r)) res)"
    "ss = concat (map (\<lambda>r. snd (snd r)) res)" by blast
  with x eq show ?case
    by (intro exI [of _ "(u, a, s) # res"]) simp
qed

lemma build_update_payload_items:
  assumes "build_update_payload L ov policy_data lm = Some (payload, added, skipped)"
  shows "\<exists>its ups. policy_items policy_data = Some its \<and> payload_items payload = Some ups
       \<and> update_items L ov lm its = Some (ups, added, skipped)"
  using assms
  by (auto simp: build_update_payload_def policy_items_def payload_items_def
      bind_eq_Some_conv Let_def as_dict_Some get_or_def)

lemma recon_build_update_payload_mappings:
  assumes "recon_build_update_payload L policy_data lm = Some (payload, added, skipped)"
  shows "\<exists>ms ups. policy_mappings policy_data = Some ms \<and> payload_mappings payload = Some ups
       \<and> update_mappings L lm ms = Some (ups, added, skipped)"
  using assms
  by (auto simp: recon_build_update_payload_def policy_mappings_def payload_mappings_def
      bind_eq_Some_conv Let_def as_dict_Some get_or_def)

lemma get_or_Nil: "get_or [] k d = d"
  by (simp add: get_or_def)

lemma get_or_Cons: "get_or ((k', v) # rest) k d = (if k = k' then v else get_or rest k d)"
  by (simp add: get_or_def)

lemma labels_updated_item [simp]:
  "dict_get (updated_item kvs out) ''labels'' d = Some (JList out)"
  by (simp add: updated_item_def get_or_Cons get_or_Nil)

lemma labels_updated_mapping [simp]:
  "dict_get (updated_mapping kvs out) ''labels'' d = Some (JList out)"
  by (simp add: updated_mapping_def get_or_Cons)

lemma updated_item_again:
  assumes "updated_item kvs out = JObj f"
  shows "updated_item f out' = updated_item kvs out'"
proof (cases "truthy (get_or kvs ''ruleExpression'' JNull)")
  case True
  with assms have f: "f = [(''measurementType'', get_or kvs ''measurementType'' JNull),
            (''columnName'', get_or kvs ''columnName'' (JStr [])),
            (''executionOrder'', get_or kvs ''executionOrder'' JNull),
            (''weightage'', get_or kvs ''weightage'' JNull),
            (''businessExplanation'', get_or kvs ''businessExplanation'' (JStr [])),
            (''labels'', JList out),
            (''isWarning'', get_or kvs ''isWarning'' (JBool False)),
            (''associatedDQRecommendationId'', get_or kvs ''associatedDQRecommendationId'' JNull),
            (''bulkPolicyDqRuleId'', get_or kvs ''bulkPolicyDqRuleId'' JNull),
            (''thresholdConfig'', get_or kvs ''thresholdConfig'' JNull),
            (''value'', get_or kvs ''value'' JNull),
            (''id'', get_or kvs ''id'' JNull),
            (''ruleExpression'', get_or kvs ''ruleExpression'' JNull)]"
    by (simp add: updated_item_def)
  show ?thesis
    unfolding updated_item_def [of f] f
    by (simp add: get_or_Cons get_or_Nil True updated_item_def)
next
  case False
  with assms have f: "f = [(''measurementType'', get_or kvs ''measurementType'' JNull),
            (''columnName'', get_or kvs ''columnName'' (JStr [])),
            (''executionOrder'', get_or kvs ''executionOrder'' JNull),
            (''weightage'', get_or kvs ''weightage'' JNull),
            (''businessExplanation'', get_or kvs ''businessExplanation'' (JStr [])),
            (''labels'', JList out),
            (''isWarning'', get_or kvs ''isWarning'' (JBool False)),
            (''associatedDQRecommendationId'', get_or kvs ''associatedDQRecommendationId'' JNull),
            (''bulkPolicyDqRuleId'', get_or kvs ''bulkPolicyDqRuleId'' JNull),
            (''thresholdConfig'', get_or kvs ''thresholdConfig'' JNull),
            (''value'', get_or kvs ''value'' JNull),
            (''id'', get_or kvs ''id'' JNull)]"
    by (simp add: updated_item_def)
  show ?thesis
    unfolding updated_item_def [of f] f
    by (simp add: get_or_Cons get_or_Nil False updated_item_def)
qed

lemma get_column_name_key_from:
  "get_column_name L (JObj kvs) =
     key_from L (get_or kvs ''measurementType'' (JStr [])) (get_or kvs ''columnName'' (JStr []))
       (get_or kvs ''ruleExpression'' (JStr [])) (get_or kvs ''value'' (JObj []))"
  by (simp add: get_column_name_def key_from_def)

lemma key_from_no_type: "key_from L JNull cn re va = key_from L (JStr []) cn re va"
  by (simp add: key_from_def py_or_def)

lemma key_from_no_value: "key_from L mt cn re JNull = key_from L mt cn re (JObj [])"
  by (simp add: key_from_def)

lemma key_from_no_expression:
  "\<not> truthy re \<Longrightarrow> key_from L mt cn re va = key_from L mt cn (JStr []) va"
  by (simp add: key_from_def compute_hash_def)

lemma get_or_JNull_cases:
  "get_or kvs k JNull = get_or kvs k d \<or> (get_or kvs k JNull = JNull \<and> get_or kvs k d = d)"
  by (auto simp: get_or_def split: option.splits)

lemma key_from_type_default: "key_from L (get_or kvs ''measurementType'' JNull) cn re va
      = key_from L (get_or kvs ''measurementType'' (JStr [])) cn re va"
    using get_or_JNull_cases [of kvs "''measurementType''" "JStr []"]
    by (elim disjE conjE) (simp_all add: key_from_no_type)

lemma key_from_value_default: "key_from L mt cn re (get_or kvs ''value'' JNull)
      = key_from L mt cn re (get_or kvs ''value'' (JObj []))"
    using get_or_JNull_cases [of kvs "''value''" "JObj []"]
    by (elim disjE conjE) (simp_all add: key_from_no_value)

lemma key_from_expression_default: "key_from L mt cn (if truthy (get_or kvs ''ruleExpression'' JNull) then get_or kvs ''ruleExpression'' JNull else JStr []) va
      = key_from L mt cn (get_or kvs ''ruleExpression'' (JStr [])) va"
proof (cases "truthy (get_or kvs ''ruleExpression'' JNull)")
  case True
  with get_or_JNull_cases [of kvs "''ruleExpression''" "JStr []"]
  have "get_or kvs ''ruleExpression'' JNull = get_or kvs ''ruleExpression'' (JStr [])"
    by (elim disjE conjE) simp_all
  with True show ?thesis by simp
next
  case False
  with get_or_JNull_cases [of kvs "''ruleExpression''" "JStr []"]
  have "\<not> truthy (get_or kvs ''ruleExpression'' (JStr []))"
    by (elim disjE conjE) simp_all
  with False show ?thesis
    by (simp add: key_from_no_expression [of "get_or kvs ''ruleExpression'' (JStr [])"])
qed

lemma get_column_name_updated_item:
  "get_column_name L (updated_item kvs out) = get_column_name L (JObj kvs)"
proof -
  let ?re = "get_or kvs ''ruleExpression'' JNull"
  have "get_column_name L (updated_item kvs out) =
      key_from L (get_or kvs ''measurementType'' JNull) (get_or kvs ''columnName'' (JStr []))
        (if truthy ?re then ?re else JStr []) (get_or kvs ''value'' JNull)"
    by (cases "truthy ?re")
       (simp_all add: updated_item_def get_column_name_key_from get_or_Cons get_or_Nil)
  then show ?thesis
    by (simp only: key_from_type_default key_from_value_default key_from_expression_default get_column_name_key_from)
qed

lemma label_keys_label_kv:
  assumes "label_keys labs = Some S"
  shows "label_keys (map label_kv labs) = Some S
       \<and> label_pairs (map label_kv labs) = Some (map label_kv labs)"
  using assms
proof (induction labs arbitrary: S)
  case Nil
  then show ?case by simp
next
  case (Cons l labs)
  from Cons.prems obtain kvs S' where l: "l = JObj kvs" and S': "label_keys labs = Some S'"
    by (auto simp: bind_eq_Some_conv dict_get_Some)
  from Cons.IH [OF S'] Cons.prems l S' show ?case
    by (auto simp: label_kv_def get_or_Cons get_or_Nil bind_eq_Some_conv split: if_splits)
qed

lemma label_keys_snoc:
  assumes "label_keys xs = Some S"
  shows "label_keys (xs @ [l]) =
     do { k \<leftarrow> dict_get l ''key'' JNull;
          if truthy k then do { h \<leftarrow> hash_key k; Some (insert h S) } else Some S }"
  using assms
proof (induction xs arbitrary: S)
  case Nil
  then show ?case by (auto split: bind_splits)
next
  case (Cons x xs)
  from Cons.prems obtain kx S' where kx: "dict_get x ''key'' JNull = Some kx"
    and S': "label_keys xs = Some S'"
    and S: "(if truthy kx then do { h \<leftarrow> hash_key kx; Some (insert h S') } else Some S') = Some S"
    by (auto simp: bind_eq_Some_conv)
  show ?case
    using Cons.IH [OF S'] kx S
    by (cases "dict_get l ''key'' JNull")
       (auto simp: bind_eq_Some_conv split: if_splits bind_splits)
qed

lemma label_pairs_snoc:
  assumes "label_pairs xs = Some ys"
  shows "label_pairs (xs @ [l]) =
     do { k \<leftarrow> dict_get l ''key'' JNull; v \<leftarrow> dict_get l ''value'' JNull;
          Some (ys @ [JObj [(''key'', k), (''value'', v)]]) }"
  using assms
  by (induction xs arbitrary: ys) (auto simp: bind_eq_Some_conv split: bind_splits)

lemma key_from_truthy: "key_from L mt cn re va = Some key \<Longrightarrow> truthy key"
  by (auto simp: key_from_def py_or_def bind_eq_Some_conv split: if_splits)

lemma get_column_name_truthy:
  assumes "get_column_name L item = Some key"
  shows "truthy key"
proof (cases item)
  case (JObj kvs)
  with assms show ?thesis
    by (auto simp only: get_column_name_key_from dest: key_from_truthy)
qed (use assms in \<open>simp_all add: get_column_name_def dict_get_def\<close>)

lemma matched_key_eq:
  assumes "get_column_name L item = Some key" and "hash_key key = Some k"
  shows "matched_key L lm item = (case lm k of None \<Rightarrow> [] | Some v \<Rightarrow> [key])"
  using assms by (simp add: matched_key_def)

lemma update_item_idem:
  assumes "update_item L False lm item = Some (u, a, s)"
  shows "update_item L False lm u = Some (u, [], matched_key L lm item)
       \<and> get_column_name L u = get_column_name L item
       \<and> matched_key L lm item = a @ s"
proof -
  from update_item_normal [OF assms] obtain kvs key k labs S new where
    item: "item = JObj kvs" and key: "get_column_name L item = Some key"
    and k: "hash_key key = Some k"
    and labs: "py_iter (get_or kvs ''labels'' (JList [])) = Some labs"
    and S: "label_keys labs = Some S"
    and u: "u = updated_item kvs (map label_kv labs @ new)"
    and br: "(case lm k of None \<Rightarrow> new = [] \<and> a = [] \<and> s = []
          | Some v \<Rightarrow> if k \<in> S then new = [] \<and> a = [] \<and> s = [key]
                      else new = [ledger_label L key v] \<and> a = [key] \<and> s = [])"
    by blast
  define out where "out = map label_kv labs @ new"
  obtain f where f: "updated_item kvs out = JObj f"
    by (simp add: updated_item_def)
  have key_u: "get_column_name L u = Some key"
    using key by (simp add: u get_column_name_updated_item item)
  have tk: "truthy key" using key by (rule get_column_name_truthy)
  have lab_f: "get_or f ''labels'' (JList []) = JList out"
    using labels_updated_item [of kvs out "JList []"] by (simp add: f)
  note kv = label_keys_label_kv [OF S]
  have keys_out: "label_keys out = Some (case lm k of None \<Rightarrow> S | Some v \<Rightarrow> insert k S)"
    and pairs_out: "label_pairs out = Some out"
  proof -
    show "label_keys out = Some (case lm k of None \<Rightarrow> S | Some v \<Rightarrow> insert k S)"
    proof (cases "lm k")
      case None
      with br kv show ?thesis by (simp add: out_def)
    next
      case (Some v)
      show ?thesis
      proof (cases "k \<in> S")
        case True
        with br Some kv show ?thesis by (simp add: out_def insert_absorb)
      next
        case False
        with br Some have "new = [ledger_label L key v]" by simp
        with kv tk k Some show ?thesis
          by (simp add: out_def label_keys_snoc ledger_label_def get_or_Cons)
      qed
    qed
    show "label_pairs out = Some out"
    proof (cases "new = []")
      case True
      with kv show ?thesis by (simp add: out_def)
    next
      case False
      with br obtain v where "new = [ledger_label L key v]"
        by (auto split: option.splits if_splits)
      with kv show ?thesis
        by (simp add: out_def label_pairs_snoc ledger_label_def get_or_Cons get_or_Nil)
    qed
  qed
  have in_keys: "lm k = Some v \<Longrightarrow> k \<in> (case lm k of None \<Rightarrow> S | Some v \<Rightarrow> insert k S)" for v
    by simp
  have uf: "u = JObj f" by (simp add: u f [symmetric] out_def)
  have key_f: "get_column_name L (JObj f) = Some key" using key_u by (simp add: uf)
  have again: "updated_item f out = JObj f"
    using updated_item_again [OF f, of out] by (simp add: f)
  have "update_item L False lm (JObj f) = Some (JObj f, [], matched_key L lm item)"
  proof (cases "lm k")
    case None
    then show ?thesis
      by (simp add: update_item_def key_f k lab_f keys_out pairs_out again
          matched_key_eq [OF key k])
  next
    case (Some v)
    then show ?thesis
      by (simp add: update_item_def key_f k lab_f keys_out pairs_out again
          matched_key_eq [OF key k])
  qed
  then have "update_item L False lm u = Some (u, [], matched_key L lm item)"
    by (simp add: uf)
  moreover have "matched_key L lm item = a @ s"
    using br by (auto simp: matched_key_eq [OF key k] split: option.splits if_splits)
  ultimately show ?thesis using key key_u by simp
qed

lemma updated_mapping_again:
  assumes "updated_mapping kvs out = JObj f"
  shows "updated_mapping f out' = updated_mapping kvs out'"
proof -
  from assms have f: "f = [(''id'', get_or kvs ''id'' JNull),
           (''leftColumnName'', get_or kvs ''leftColumnName'' (JStr [])),
           (''operation'', get_or kvs ''operation'' (JStr ''EQ'')),
           (''rightColumnName'', get_or kvs ''rightColumnName'' (JStr [])),
           (''useForJoining'', get_or kvs ''useForJoining'' (JBool False)),
           (''reconciliationRuleId'', get_or kvs ''reconciliationRuleId'' JNull),
           (''isJoinColumnUsedForMeasure'', get_or kvs ''isJoinColumnUsedForMeasure'' (JBool False)),
           (''ignoreNullValues'', get_or kvs ''ignoreNullValues'' (JBool False)),
           (''weightage'', get_or kvs ''weightage'' (JInt 100)),
           (''ruleVersion'', get_or kvs ''ruleVersion'' JNull),
           (''businessExplanation'', get_or kvs ''businessExplanation'' (JStr [])),
           (''isWarning'', get_or kvs ''isWarning'' (JBool False)),
           (''labels'', JList out),
           (''isArchived'', get_or kvs ''isArchived'' (JBool False)),
           (''mappingType'', get_or kvs ''mappingType'' (JStr ''AUTO''))]"
    by (simp add: updated_mapping_def)
  show ?thesis
    unfolding updated_mapping_def [of f] f
    by (simp add: get_or_Cons get_or_Nil updated_mapping_def)
qed

lemma update_mapping_idem:
  assumes "update_mapping L lm mapping = Some (u, a, s)"
  shows "update_mapping L lm u = Some (u, [], matched_mapping_key L lm mapping)
       \<and> mapping_key_of L u = mapping_key_of L mapping
       \<and> matched_mapping_key L lm mapping = a @ s"
proof -
  from update_mapping_normal [OF assms] obtain kvs key labs S new where
    item: "mapping = JObj kvs"
    and key: "key = get_column_key L (get_or kvs ''leftColumnName'' (JStr []))
                (get_or kvs ''rightColumnName'' (JStr []))"
    and labs: "py_iter (get_or kvs ''labels'' (JList [])) = Some labs"
    and S: "label_keys labs = Some S"
    and u: "u = updated_mapping kvs (map label_kv labs @ new)"
    and br: "(case lm (KStr key) of None \<Rightarrow> new = [] \<and> a = [] \<and> s = []
          | Some v \<Rightarrow> if KStr key \<in> S then new = [] \<and> a = [] \<and> s = [JStr key]
                      else new = [ledger_label L (JStr key) v] \<and> a = [JStr key] \<and> s = [])"
    by blast
  define out where "out = map label_kv labs @ new"
  obtain f where f: "updated_mapping kvs out = JObj f"
    by (simp add: updated_mapping_def)
  have uf: "u = JObj f" by (simp add: u f [symmetric] out_def)
  have left: "get_or f ''leftColumnName'' (JStr []) = get_or kvs ''leftColumnName'' (JStr [])"
    and right: "get_or f ''rightColumnName'' (JStr []) = get_or kvs ''rightColumnName'' (JStr [])"
    and lab_f: "get_or f ''labels'' (JList []) = JList out"
    using f by (auto simp: updated_mapping_def get_or_Cons get_or_Nil)
  have mk: "mapping_key_of L mapping = JStr key" by (simp add: mapping_key_of_def item key)
  have mk_u: "mapping_key_of L u = JStr key" by (simp add: mapping_key_of_def uf key left right)
  have tk: "key \<noteq> []" by (simp add: key get_column_key_def)
  note kv = label_keys_label_kv [OF S]
  have keys_out: "label_keys out = Some (case lm (KStr key) of None \<Rightarrow> S | Some v \<Rightarrow> insert (KStr key) S)"
  proof (cases "lm (KStr key)")
    case None
    with br kv show ?thesis by (simp add: out_def)
  next
    case (Some v)
    show ?thesis
    proof (cases "KStr key \<in> S")
      case True
      with br Some kv show ?thesis by (simp add: out_def insert_absorb)
    next
      case False
      with br Some have "new = [ledger_label L (JStr key) v]" by simp
      with kv tk Some show ?thesis
        by (simp add: out_def label_keys_snoc ledger_label_def get_or_Cons)
    qed
  qed
  have pairs_out: "label_pairs out = Some out"
  proof (cases "new = []")
    case True
    with kv show ?thesis by (simp add: out_def)
  next
    case False
    with br obtain v where "new = [ledger_label L (JStr key) v]"
      by (auto split: option.splits if_splits)
    with kv show ?thesis
      by (simp add: out_def label_pairs_snoc ledger_label_def get_or_Cons get_or_Nil)
  qed
  have again: "updated_mapping f out = JObj f"
    using updated_mapping_again [OF f, of out] by (simp add: f)
  have matched: "matched_mapping_key L lm mapping = (case lm (KStr key) of None \<Rightarrow> [] | Some v \<Rightarrow> [JStr key])"
    by (simp add: matched_mapping_key_def mk split: option.splits)
  have "update_mapping L lm (JObj f) = Some (JObj f, [], matched_mapping_key L lm mapping)"
  proof (cases "lm (KStr key)")
    case None
    then show ?thesis
      by (simp add: update_mapping_def left right key [symmetric] lab_f keys_out pairs_out again matched)
  next
    case (Some v)
    then show ?thesis
      by (simp add: update_mapping_def left right key [symmetric] lab_f keys_out pairs_out again matched)
  qed
  then have "update_mapping L lm u = Some (u, [], matched_mapping_key L lm mapping)"
    by (simp add: uf)
  moreover have "matched_mapping_key L lm mapping = a @ s"
    using br by (auto simp: matched split: option.splits if_splits)
  ultimately show ?thesis using mk mk_u by simp
qed

lemma build_update_payload_pairs:
  assumes "build_update_payload L ov policy_data lm = Some (payload, added, skipped)"
  shows "\<exists>its res. policy_items policy_data = Some its
       \<and> payload_items payload = Some (map fst res)
       \<and> list_all2 (\<lambda>item r. update_item L ov lm item = Some r) its res
       \<and> added = concat (map (\<lambda>r. fst (snd r)) res)
       \<and> skipped = concat (map (\<lambda>r. snd (snd r)) res)"
proof -
  from build_update_payload_items [OF assms] obtain its ups where
    "policy_items policy_data = Some its" "payload_items payload = Some ups"
    "update_items L ov lm its = Some (ups, added, skipped)" by blast
  with update_items_list_all2 [of L ov lm its ups added skipped] show ?thesis by blast
qed

lemma recon_build_update_payload_pairs:
  assumes "recon_build_update_payload L policy_data lm = Some (payload, added, skipped)"
  shows "\<exists>ms res. policy_mappings policy_data = Some ms
       \<and> payload_mappings payload = Some (map fst res)
       \<and> list_all2 (\<lambda>m r. update_mapping L lm m = Some r) ms res
       \<and> added = concat (map (\<lambda>r. fst (snd r)) res)
       \<and> skipped = concat (map (\<lambda>r. snd (snd r)) res)"
proof -
  from recon_build_update_payload_mappings [OF assms] obtain ms ups where
    "policy_mappings policy_data = Some ms" "payload_mappings payload = Some ups"
    "update_mappings L lm ms = Some (ups, added, skipped)" by blast
  with update_mappings_list_all2 [of L lm ms ups added skipped] show ?thesis by blast
qed

text \<open>
  C7. In override mode the payload holds, for every item of the current definition,
  exactly the label the ledger implies and nothing else: one label with the item's
  identity key and \<open>str\<close> of the ledger's id when the key is in the ledger map, no label
  otherwise. What the item carried before plays no part.
\<close>

theorem override_replaces_all_labels:
  assumes "build_update_payload L True policy_data lm = Some (payload, added, skipped)"
  shows "\<exists>its ups. policy_items policy_data = Some its \<and> payload_items payload = Some ups
     \<and> list_all2
          (\<lambda>item u. \<exists>key k. get_column_name L item = Some key \<and> hash_key key = Some k
             \<and> dict_get u ''labels'' JNull =
                 Some (JList (case lm k of None \<Rightarrow> []
                              | Some original_id \<Rightarrow> [ledger_label L key original_id])))
          its ups"
proof -
  from build_update_payload_pairs [OF assms] obtain its res where
    its: "policy_items policy_data = Some its" and ups: "payload_items payload = Some (map fst res)"
    and all: "list_all2 (\<lambda>item r. update_item L True lm item = Some r) its res" by blast
  have "list_all2
          (\<lambda>item r. \<exists>key k. get_column_name L item = Some key \<and> hash_key key = Some k
             \<and> dict_get (fst r) ''labels'' JNull =
                 Some (JList (case lm k of None \<Rightarrow> []
                              | Some original_id \<Rightarrow> [ledger_label L key original_id])))
          its res"
    using all
  proof (rule list_all2_mono)
    fix item r
    assume "update_item L True lm item = Some r"
    then have "update_item L True lm item = Some (fst r, fst (snd r), snd (snd r))" by simp
    from update_item_override [OF this]
    show "\<exists>key k. get_column_name L item = Some key \<and> hash_key key = Some k
             \<and> dict_get (fst r) ''labels'' JNull =
                 Some (JList (case lm k of None \<Rightarrow> []
                              | Some original_id \<Rightarrow> [ledger_label L key original_id]))"
      by (auto split: option.splits)
  qed
  then show ?thesis using its ups by (auto simp: list_all2_map2)
qed

text \<open>
  C10. The reconciliation script's payload builder has no override path (it takes no
  flag): for every column mapping, the labels in the payload start with the key and the
  value of every label the mapping had, in order; reconciliation only appends.
\<close>

theorem recon_keeps_existing_labels:
  assumes "recon_build_update_payload L policy_data lm = Some (payload, added, skipped)"
  shows "\<exists>ms ups. policy_mappings policy_data = Some ms \<and> payload_mappings payload = Some ups
     \<and> list_all2
          (\<lambda>m u. \<exists>labs new. existing_labels_of m = Some labs
             \<and> dict_get u ''labels'' JNull = Some (JList (map label_kv labs @ new)))
          ms ups"
proof -
  from recon_build_update_payload_pairs [OF assms] obtain ms res where
    ms: "policy_mappings policy_data = Some ms" and ups: "payload_mappings payload = Some (map fst res)"
    and all: "list_all2 (\<lambda>m r. update_mapping L lm m = Some r) ms res" by blast
  have "list_all2
          (\<lambda>m r. \<exists>labs new. existing_labels_of m = Some labs
             \<and> dict_get (fst r) ''labels'' JNull = Some (JList (map label_kv labs @ new)))
          ms res"
    using all
  proof (rule list_all2_mono)
    fix m r
    assume "update_mapping L lm m = Some r"
    then have "update_mapping L lm m = Some (fst r, fst (snd r), snd (snd r))" by simp
    from update_mapping_normal [OF this]
    show "\<exists>labs new. existing_labels_of m = Some labs
             \<and> dict_get (fst r) ''labels'' JNull = Some (JList (map label_kv labs @ new))"
      by (auto simp: existing_labels_of_def)
  qed
  then show ?thesis using ms ups by (auto simp: list_all2_map2)
qed

lemma policy_items_labelled_policy:
  "policy_items labelled_policy = Some [JObj amount_check, JObj currency_check]"
  by (simp add: policy_items_def labelled_policy_def get_or_Cons get_or_Nil)

lemma key_amount_check: "get_column_name L (JObj amount_check) = Some (JStr ''NOT_NULL-amount'')"
  by (simp add: get_column_name_def amount_check_def get_or_Cons get_or_Nil)

lemma key_currency_check: "get_column_name L (JObj currency_check) = Some (JStr ''NOT_NULL-currency'')"
  by (simp add: get_column_name_def currency_check_def get_or_Cons get_or_Nil)

lemma labels_amount_check:
  "get_or amount_check ''labels'' d = JList [JObj [(''key'', JStr ''team''), (''value'', JStr ''finance'')]]"
  by (simp add: amount_check_def get_or_Cons)

lemma labels_currency_check:
  "get_or currency_check ''labels'' d = JList [JObj [(''key'', JStr ''owner''), (''value'', JStr ''ops'')]]"
  by (simp add: currency_check_def get_or_Cons)

lemma labelled_policy_override:
  "\<exists>payload. build_update_payload lib0 True labelled_policy ledger_map
       = Some (payload, [JStr ''NOT_NULL-amount''], [])
     \<and> payload_items payload =
         Some [updated_item amount_check
                 [JObj [(''key'', JStr ''NOT_NULL-amount''), (''value'', JStr ''1'')]],
               updated_item currency_check []]"
  by (simp add: build_update_payload_def labelled_policy_def ledger_map_def update_item_def
      key_amount_check key_currency_check labels_amount_check labels_currency_check
      payload_items_def get_or_Cons get_or_Nil py_or_def)

theorem override_replaces_all_labels_witness:
  "\<exists>payload ups.
     build_update_payload lib0 True labelled_policy ledger_map
       = Some (payload, [JStr ''NOT_NULL-amount''], [])
     \<and> payload_items payload = Some ups
     \<and> map (\<lambda>u. dict_get u ''labels'' JNull) ups =
         [Some (JList [JObj [(''key'', JStr ''NOT_NULL-amount''), (''value'', JStr ''1'')]]),
          Some (JList [])]"
proof -
  from labelled_policy_override obtain payload where
    r: "build_update_payload lib0 True labelled_policy ledger_map
          = Some (payload, [JStr ''NOT_NULL-amount''], [])" by blast
  from override_replaces_all_labels [OF r] obtain ups where
    ups: "payload_items payload = Some ups"
    and all: "list_all2
          (\<lambda>item u. \<exists>key k. get_column_name lib0 item = Some key \<and> hash_key key = Some k
             \<and> dict_get u ''labels'' JNull =
                 Some (JList (case ledger_map k of None \<Rightarrow> []
                              | Some original_id \<Rightarrow> [ledger_label lib0 key original_id])))
          [JObj amount_check, JObj currency_check] ups"
    by (auto simp: policy_items_labelled_policy)
  from all obtain u1 u2 where u: "ups = [u1, u2]"
    by (auto simp: list_all2_Cons1)
  from all have labels: "map (\<lambda>u. dict_get u ''labels'' JNull) ups =
         [Some (JList [JObj [(''key'', JStr ''NOT_NULL-amount''), (''value'', JStr ''1'')]]),
          Some (JList [])]"
    unfolding u
    by (auto simp: key_amount_check key_currency_check ledger_map_def ledger_label_def)
  show ?thesis
    by (intro exI conjI) (rule r, rule ups, rule labels)
qed

lemma update_item_labels:
  assumes "update_item L ov lm item = Some (u, a, s)"
  shows "\<exists>key k new. get_column_name L item = Some key \<and> hash_key key = Some k
      \<and> dict_get u ''labels'' JNull = Some (JList (kept_labels ov item @ new))
      \<and> (new = [] \<or> (\<exists>original_id. lm k = Some original_id
                          \<and> new = [ledger_label L key original_id]))"
proof (cases ov)
  case True
  with assms have "update_item L True lm item = Some (u, a, s)" by simp
  from update_item_override [OF this] obtain kvs key k where
    "item = JObj kvs" "get_column_name L item = Some key" "hash_key key = Some k"
    "(case lm k of
            None \<Rightarrow> u = updated_item kvs [] \<and> a = [] \<and> s = []
          | Some v \<Rightarrow> u = updated_item kvs [ledger_label L key v] \<and> a = [key] \<and> s = [])"
    by blast
  then show ?thesis
    by (cases "lm k") (auto simp: kept_labels_def True)
next
  case False
  with assms have "update_item L False lm item = Some (u, a, s)" by simp
  from update_item_normal [OF this] obtain kvs key k labs S new where
    "item = JObj kvs" "get_column_name L item = Some key" "hash_key key = Some k"
    "py_iter (get_or kvs ''labels'' (JList [])) = Some labs"
    "u = updated_item kvs (map label_kv labs @ new)"
    "(case lm k of None \<Rightarrow> new = [] \<and> a = [] \<and> s = []
          | Some v \<Rightarrow> if k \<in> S then new = [] \<and> a = [] \<and> s = [key]
                      else new = [ledger_label L key v] \<and> a = [key] \<and> s = [])"
    by blast
  then show ?thesis
    by (cases "lm k"; cases "k \<in> S")
       (auto simp: kept_labels_def False existing_labels_of_def)
qed

lemma update_mapping_labels:
  assumes "update_mapping L lm m = Some (u, a, s)"
  shows "\<exists>k new. hash_key (mapping_key_of L m) = Some k
      \<and> dict_get u ''labels'' JNull = Some (JList (kept_labels False m @ new))
      \<and> (new = [] \<or> (\<exists>original_id. lm k = Some original_id
                          \<and> new = [ledger_label L (mapping_key_of L m) original_id]))"
proof -
  from update_mapping_normal [OF assms] obtain kvs key labs S new where
    "m = JObj kvs"
    "key = get_column_key L (get_or kvs ''leftColumnName'' (JStr [])) (get_or kvs ''rightColumnName'' (JStr []))"
    "py_iter (get_or kvs ''labels'' (JList [])) = Some labs"
    "u = updated_mapping kvs (map label_kv labs @ new)"
    "(case lm (KStr key) of None \<Rightarrow> new = [] \<and> a = [] \<and> s = []
          | Some v \<Rightarrow> if KStr key \<in> S then new = [] \<and> a = [] \<and> s = [JStr key]
                      else new = [ledger_label L (JStr key) v] \<and> a = [JStr key] \<and> s = [])"
    by blast
  then show ?thesis
    by (cases "lm (KStr key)"; cases "KStr key \<in> S")
       (auto simp: kept_labels_def existing_labels_of_def mapping_key_of_def)
qed

lemma get_column_name_ignores_id:
  "get_column_name L (JObj ((''id'', x) # kvs)) = get_column_name L (JObj kvs)"
  by (simp add: get_column_name_key_from get_or_Cons)

lemma mapping_key_of_ignores_id:
  "mapping_key_of L (JObj ((''id'', x) # kvs)) = mapping_key_of L (JObj kvs)"
  by (simp add: mapping_key_of_def get_or_Cons)

text \<open>
  C6. In both categories and both modes, the labels of an item in the payload are the
  labels it keeps followed by at most one new label, and the new label's value is
  \<open>str\<close> of the id the ledger map holds for the item's identity key. The identity key,
  and with it the label, does not depend on the item's own \<open>id\<close> field.
\<close>

theorem added_label_carries_ledger_id:
  "(build_update_payload L ov policy_data lm = Some (payload, added, skipped) \<longrightarrow>
      (\<exists>its ups. policy_items policy_data = Some its \<and> payload_items payload = Some ups
         \<and> list_all2
              (\<lambda>item u. \<exists>key k new. get_column_name L item = Some key \<and> hash_key key = Some k
                 \<and> dict_get u ''labels'' JNull = Some (JList (kept_labels ov item @ new))
                 \<and> (new = [] \<or> (\<exists>original_id. lm k = Some original_id
                                     \<and> new = [ledger_label L key original_id])))
              its ups))
   \<and> (recon_build_update_payload L rpolicy_data rlm = Some (rpayload, radded, rskipped) \<longrightarrow>
      (\<exists>ms ups. policy_mappings rpolicy_data = Some ms \<and> payload_mappings rpayload = Some ups
         \<and> list_all2
              (\<lambda>m u. \<exists>k new. hash_key (mapping_key_of L m) = Some k
                 \<and> dict_get u ''labels'' JNull = Some (JList (kept_labels False m @ new))
                 \<and> (new = [] \<or> (\<exists>original_id. rlm k = Some original_id
                                     \<and> new = [ledger_label L (mapping_key_of L m) original_id])))
              ms ups))
   \<and> get_column_name L (JObj ((''id'', x) # kvs)) = get_column_name L (JObj kvs)
   \<and> mapping_key_of L (JObj ((''id'', x) # kvs)) = mapping_key_of L (JObj kvs)"
proof (intro conjI impI)
  assume a: "build_update_payload L ov policy_data lm = Some (payload, added, skipped)"
  from build_update_payload_pairs [OF a] obtain its res where
    its: "policy_items policy_data = Some its" and ups: "payload_items payload = Some (map fst res)"
    and all: "list_all2 (\<lambda>item r. update_item L ov lm item = Some r) its res" by blast
  have "list_all2
          (\<lambda>item r. \<exists>key k new. get_column_name L item = Some key \<and> hash_key key = Some k
                 \<and> dict_get (fst r) ''labels'' JNull = Some (JList (kept_labels ov item @ new))
                 \<and> (new = [] \<or> (\<exists>original_id. lm k = Some original_id
                                     \<and> new = [ledger_label L key original_id])))
          its res"
    using all
  proof (rule list_all2_mono)
    fix item r
    assume "update_item L ov lm item = Some r"
    then have "update_item L ov lm item = Some (fst r, fst (snd r), snd (snd r))" by simp
    then show "\<exists>key k new. get_column_name L item = Some key \<and> hash_key key = Some k
                 \<and> dict_get (fst r) ''labels'' JNull = Some (JList (kept_labels ov item @ new))
                 \<and> (new = [] \<or> (\<exists>original_id. lm k = Some original_id
                                     \<and> new = [ledger_label L key original_id]))"
      by (rule update_item_labels)
  qed
  then show "\<exists>its ups. policy_items policy_data = Some its \<and> payload_items payload = Some ups
         \<and> list_all2
              (\<lambda>item u. \<exists>key k new. get_column_name L item = Some key \<and> hash_key key = Some k
                 \<and> dict_get u ''labels'' JNull = Some (JList (kept_labels ov item @ new))
                 \<and> (new = [] \<or> (\<exists>original_id. lm k = Some original_id
                                     \<and> new = [ledger_label L key original_id])))
              its ups"
    using its ups by (auto simp: list_all2_map2)
next
  assume a: "recon_build_update_payload L rpolicy_data rlm = Some (rpayload, radded, rskipped)"
  from recon_build_update_payload_pairs [OF a] obtain ms res where
    ms: "policy_mappings rpolicy_data = Some ms" and ups: "payload_mappings rpayload = Some (map fst res)"
    and all: "list_all2 (\<lambda>m r. update_mapping L rlm m = Some r) ms res" by blast
  have "list_all2
          (\<lambda>m r. \<exists>k new. hash_key (mapping_key_of L m) = Some k
                 \<and> dict_get (fst r) ''labels'' JNull = Some (JList (kept_labels False m @ new))
                 \<and> (new = [] \<or> (\<exists>original_id. rlm k = Some original_id
                                     \<and> new = [ledger_label L (mapping_key_of L m) original_id])))
          ms res"
    using all
  proof (rule list_all2_mono)
    fix m r
    assume "update_mapping L rlm m = Some r"
    then have "update_mapping L rlm m = Some (fst r, fst (snd r), snd (snd r))" by simp
    then show "\<exists>k new. hash_key (mapping_key_of L m) = Some k
                 \<and> dict_get (fst r) ''labels'' JNull = Some (JList (kept_labels False m @ new))
                 \<and> (new = [] \<or> (\<exists>original_id. rlm k = Some original_id
                                     \<and> new = [ledger_label L (mapping_key_of L m) original_id]))"
      by (rule update_mapping_labels)
  qed
  then show "\<exists>ms ups. policy_mappings rpolicy_data = Some ms \<and> payload_mappings rpayload = Some ups
         \<and> list_all2
              (\<lambda>m u. \<exists>k new. hash_key (mapping_key_of L m) = Some k
                 \<and> dict_get u ''labels'' JNull = Some (JList (kept_labels False m @ new))
                 \<and> (new = [] \<or> (\<exists>original_id. rlm k = Some original_id
                                     \<and> new = [ledger_label L (mapping_key_of L m) original_id])))
              ms ups"
    using ms ups by (auto simp: list_all2_map2)
qed (rule get_column_name_ignores_id, rule mapping_key_of_ignores_id)

lemma policy_mappings_labelled_recon_policy:
  "policy_mappings labelled_recon_policy = Some [JObj id_mapping, JObj total_mapping]"
  by (simp add: policy_mappings_def labelled_recon_policy_def get_or_Cons get_or_Nil)

lemma key_id_mapping: "mapping_key_of L (JObj id_mapping) = JStr ''id_id''"
  by (simp add: mapping_key_of_def id_mapping_def get_or_Cons get_column_key_def)

lemma key_total_mapping: "mapping_key_of L (JObj total_mapping) = JStr ''total_amount''"
  by (simp add: mapping_key_of_def total_mapping_def get_or_Cons get_column_key_def)

lemma labels_id_mapping:
  "get_or id_mapping ''labels'' d = JList [JObj [(''key'', JStr ''team''), (''value'', JStr ''finance'')]]"
  by (simp add: id_mapping_def get_or_Cons)

lemma labels_total_mapping: "get_or total_mapping ''labels'' d = d"
  by (simp add: total_mapping_def get_or_Cons get_or_Nil)

lemma labelled_recon_policy_payload:
  "\<exists>payload. recon_build_update_payload lib0 labelled_recon_policy recon_ledger_map
       = Some (payload, [JStr ''id_id''], [])
     \<and> payload_mappings payload =
         Some [updated_mapping id_mapping
                 [JObj [(''key'', JStr ''team''), (''value'', JStr ''finance'')],
                  JObj [(''key'', JStr ''id_id''), (''value'', JStr ''12'')]],
               updated_mapping total_mapping []]"
  using key_id_mapping [of lib0] key_total_mapping [of lib0]
  by (simp add: recon_build_update_payload_def labelled_recon_policy_def recon_ledger_map_def
      update_mapping_def mapping_key_of_def labels_id_mapping labels_total_mapping
      payload_mappings_def get_or_Cons get_or_Nil py_or_def Let_def)

theorem recon_keeps_existing_labels_witness:
  "\<exists>payload ups.
     recon_build_update_payload lib0 labelled_recon_policy recon_ledger_map
       = Some (payload, [JStr ''id_id''], [])
     \<and> payload_mappings payload = Some ups
     \<and> map (\<lambda>u. dict_get u ''labels'' JNull) ups =
         [Some (JList [JObj [(''key'', JStr ''team''), (''value'', JStr ''finance'')],
                       JObj [(''key'', JStr ''id_id''), (''value'', JStr ''12'')]]),
          Some (JList [])]"
proof -
  from labelled_recon_policy_payload obtain payload where
    r: "recon_build_update_payload lib0 labelled_recon_policy recon_ledger_map
          = Some (payload, [JStr ''id_id''], [])"
    and m: "payload_mappings payload =
         Some [updated_mapping id_mapping
                 [JObj [(''key'', JStr ''team''), (''value'', JStr ''finance'')],
                  JObj [(''key'', JStr ''id_id''), (''value'', JStr ''12'')]],
               updated_mapping total_mapping []]" by blast
  from recon_keeps_existing_labels [OF r] obtain ups where
    ups: "payload_mappings payload = Some ups"
    and all: "list_all2
          (\<lambda>m u. \<exists>labs new. existing_labels_of m = Some labs
             \<and> dict_get u ''labels'' JNull = Some (JList (map label_kv labs @ new)))
          [JObj id_mapping, JObj total_mapping] ups"
    by (auto simp: policy_mappings_labelled_recon_policy)
  from ups m have labels: "map (\<lambda>u. dict_get u ''labels'' JNull) ups =
         [Some (JList [JObj [(''key'', JStr ''team''), (''value'', JStr ''finance'')],
                       JObj [(''key'', JStr ''id_id''), (''value'', JStr ''12'')]]),
          Some (JList [])]"
    by auto
  show ?thesis
    by (intro exI conjI) (rule r, rule ups, rule labels)
qed

lemma labelled_policy_normal:
  "\<exists>payload. build_update_payload lib0 False labelled_policy ledger_map
       = Some (payload, [JStr ''NOT_NULL-amount''], [])
     \<and> payload_items payload =
         Some [updated_item amount_check
                 [JObj [(''key'', JStr ''team''), (''value'', JStr ''finance'')],
                  JObj [(''key'', JStr ''NOT_NULL-amount''), (''value'', JStr ''1'')]],
               updated_item currency_check
                 [JObj [(''key'', JStr ''owner''), (''value'', JStr ''ops'')]]]"
  by (simp add: build_update_payload_def labelled_policy_def ledger_map_def update_item_def
      key_amount_check key_currency_check labels_amount_check labels_currency_check
      payload_items_def get_or_Cons get_or_Nil py_or_def)

theorem added_label_carries_ledger_id_witness:
  "\<exists>payload ups rpayload rups.
     build_update_payload lib0 False labelled_policy ledger_map
       = Some (payload, [JStr ''NOT_NULL-amount''], [])
     \<and> payload_items payload = Some ups
     \<and> map (\<lambda>u. dict_get u ''labels'' JNull) ups =
         [Some (JList [JObj [(''key'', JStr ''team''), (''value'', JStr ''finance'')],
                       JObj [(''key'', JStr ''NOT_NULL-amount''), (''value'', JStr ''1'')]]),
          Some (JList [JObj [(''key'', JStr ''owner''), (''value'', JStr ''ops'')]])]
     \<and> recon_build_update_payload lib0 labelled_recon_policy recon_ledger_map
       = Some (rpayload, [JStr ''id_id''], [])
     \<and> payload_mappings rpayload = Some rups
     \<and> map (\<lambda>u. dict_get u ''labels'' JNull) rups =
         [Some (JList [JObj [(''key'', JStr ''team''), (''value'', JStr ''finance'')],
                       JObj [(''key'', JStr ''id_id''), (''value'', JStr ''12'')]]),
          Some (JList [])]"
proof -
  from labelled_policy_normal obtain payload where
    r: "build_update_payload lib0 False labelled_policy ledger_map
          = Some (payload, [JStr ''NOT_NULL-amount''], [])"
    and i: "payload_items payload =
         Some [updated_item amount_check
                 [JObj [(''key'', JStr ''team''), (''value'', JStr ''finance'')],
                  JObj [(''key'', JStr ''NOT_NULL-amount''), (''value'', JStr ''1'')]],
               updated_item currency_check
                 [JObj [(''key'', JStr ''owner''), (''value'', JStr ''ops'')]]]" by blast
  from labelled_recon_policy_payload obtain rpayload where
    rr: "recon_build_update_payload lib0 labelled_recon_policy recon_ledger_map
          = Some (rpayload, [JStr ''id_id''], [])"
    and m: "payload_mappings rpayload =
         Some [updated_mapping id_mapping
                 [JObj [(''key'', JStr ''team''), (''value'', JStr ''finance'')],
                  JObj [(''key'', JStr ''id_id''), (''value'', JStr ''12'')]],
               updated_mapping total_mapping []]" by blast
  from added_label_carries_ledger_id [of lib0 False labelled_policy ledger_map payload
      "[JStr ''NOT_NULL-amount'']" "[]" labelled_recon_policy recon_ledger_map rpayload
      "[JStr ''id_id'']" "[]" "JInt 0" "[]"] r rr
  obtain ups rups where ups: "payload_items payload = Some ups"
    and rups: "payload_mappings rpayload = Some rups"
    by blast
  from ups i have labels: "map (\<lambda>u. dict_get u ''labels'' JNull) ups =
         [Some (JList [JObj [(''key'', JStr ''team''), (''value'', JStr ''finance'')],
                       JObj [(''key'', JStr ''NOT_NULL-amount''), (''value'', JStr ''1'')]]),
          Some (JList [JObj [(''key'', JStr ''owner''), (''value'', JStr ''ops'')]])]"
    by auto
  from rups m have rlabels: "map (\<lambda>u. dict_get u ''labels'' JNull) rups =
         [Some (JList [JObj [(''key'', JStr ''team''), (''value'', JStr ''finance'')],
                       JObj [(''key'', JStr ''id_id''), (''value'', JStr ''12'')]]),
          Some (JList [])]"
    by auto
  show ?thesis
    by (intro exI conjI) (rule r, rule ups, rule labels, rule rr, rule rups, rule rlabels)
qed

subsection \<open>Idempotence\<close>

lemma update_items_idem:
  assumes "update_items L False lm its = Some (ups, added, skipped)"
  shows "update_items L False lm ups = Some (ups, [], concat (map (matched_key L lm) its))"
  using assms
proof (induction its arbitrary: ups added skipped)
  case Nil
  then show ?case by simp
next
  case (Cons x xs)
  from Cons.prems obtain u a s us as ss where
    x: "update_item L False lm x = Some (u, a, s)"
    and xs: "update_items L False lm xs = Some (us, as, ss)"
    and eq: "ups = u # us"
    by (auto simp: bind_eq_Some_conv)
  from update_item_idem [OF x] Cons.IH [OF xs] eq show ?case by simp
qed

lemma update_mappings_idem:
  assumes "update_mappings L lm ms = Some (ups, added, skipped)"
  shows "update_mappings L lm ups = Some (ups, [], concat (map (matched_mapping_key L lm) ms))"
  using assms
proof (induction ms arbitrary: ups added skipped)
  case Nil
  then show ?case by simp
next
  case (Cons x xs)
  from Cons.prems obtain u a s us as ss where
    x: "update_mapping L lm x = Some (u, a, s)"
    and xs: "update_mappings L lm xs = Some (us, as, ss)"
    and eq: "ups = u # us"
    by (auto simp: bind_eq_Some_conv)
  from update_mapping_idem [OF x] Cons.IH [OF xs] eq show ?case by simp
qed

lemma build_update_payload_rule_ok:
  assumes "build_update_payload L ov policy_data lm = Some r"
  shows "\<exists>pd rk ba nc. policy_data = JObj pd \<and> get_or pd ''rule'' (JObj []) = JObj rk
     \<and> py_or (get_or rk ''backingAsset'' JNull) (JObj []) = JObj ba
     \<and> py_or (get_or rk ''notificationChannels'' JNull) (JObj []) = JObj nc"
  using assms
  by (auto simp: build_update_payload_def bind_eq_Some_conv Let_def as_dict_Some)

lemma build_update_payload_with_items:
  assumes p1: "build_update_payload L ov policy_data lm = Some r"
    and loop: "update_items L ov' lm ups = Some (ups', added', skipped')"
  shows "\<exists>payload2. build_update_payload L ov' (with_items policy_data ups) lm
            = Some (payload2, added', skipped')
          \<and> payload_items payload2 = Some ups'"
proof -
  from build_update_payload_rule_ok [OF p1] obtain pd rk ba nc where
    "policy_data = JObj pd" "get_or pd ''rule'' (JObj []) = JObj rk"
    "py_or (get_or rk ''backingAsset'' JNull) (JObj []) = JObj ba"
    "py_or (get_or rk ''notificationChannels'' JNull) (JObj []) = JObj nc" by blast
  with loop show ?thesis
    by (simp add: build_update_payload_def with_items_def get_or_Cons get_or_Nil
        payload_items_def)
qed

lemma second_pass_items:
  assumes loop: "update_items L False lm ups = Some (ups, [], matched)"
    and its2: "policy_items pd2 = Some ups"
    and p2: "build_update_payload L False pd2 lm = Some (payload2, added2, skipped2)"
  shows "added2 = [] \<and> skipped2 = matched \<and> payload_items payload2 = Some ups"
proof -
  from build_update_payload_items [OF p2] obtain its' ups' where
    "policy_items pd2 = Some its'" "payload_items payload2 = Some ups'"
    "update_items L False lm its' = Some (ups', added2, skipped2)" by blast
  with its2 loop show ?thesis by simp
qed

lemma recon_build_update_payload_rule_ok:
  assumes "recon_build_update_payload L policy_data lm = Some r"
  shows "\<exists>pd dt its uits rk lba rba nc src. policy_data = JObj pd
     \<and> get_or pd ''details'' (JObj []) = JObj dt
     \<and> py_iter (get_or dt ''items'' (JList [])) = Some its \<and> recon_items its = Some uits
     \<and> get_or pd ''rule'' (JObj []) = JObj rk
     \<and> py_or (get_or rk ''leftBackingAsset'' JNull) (JObj []) = JObj lba
     \<and> py_or (get_or rk ''rightBackingAsset'' JNull) (JObj []) = JObj rba
     \<and> py_or (get_or rk ''notificationChannels'' JNull) (JObj []) = JObj nc
     \<and> py_or (get_or rk ''sparkResourceConfig'' JNull) (JObj []) = JObj src"
  using assms
  by (auto simp: recon_build_update_payload_def bind_eq_Some_conv Let_def as_dict_Some)

lemma recon_build_update_payload_with_mappings:
  assumes p1: "recon_build_update_payload L policy_data lm = Some r"
    and loop: "update_mappings L lm ups = Some (ups', added', skipped')"
  shows "\<exists>payload2. recon_build_update_payload L (with_mappings policy_data ups) lm
            = Some (payload2, added', skipped')
          \<and> payload_mappings payload2 = Some ups'"
proof -
  from recon_build_update_payload_rule_ok [OF p1] obtain pd dt its uits rk lba rba nc src where
    "policy_data = JObj pd" "get_or pd ''details'' (JObj []) = JObj dt"
    "py_iter (get_or dt ''items'' (JList [])) = Some its" "recon_items its = Some uits"
    "get_or pd ''rule'' (JObj []) = JObj rk"
    "py_or (get_or rk ''leftBackingAsset'' JNull) (JObj []) = JObj lba"
    "py_or (get_or rk ''rightBackingAsset'' JNull) (JObj []) = JObj rba"
    "py_or (get_or rk ''notificationChannels'' JNull) (JObj []) = JObj nc"
    "py_or (get_or rk ''sparkResourceConfig'' JNull) (JObj []) = JObj src" by blast
  with loop show ?thesis
    by (simp add: recon_build_update_payload_def with_mappings_def get_or_Cons get_or_Nil
        payload_mappings_def)
qed

lemma second_pass_mappings:
  assumes loop: "update_mappings L lm ups = Some (ups, [], matched)"
    and ms2: "policy_mappings pd2 = Some ups"
    and p2: "recon_build_update_payload L pd2 lm = Some (payload2, added2, skipped2)"
  shows "added2 = [] \<and> skipped2 = matched \<and> payload_mappings payload2 = Some ups"
proof -
  from recon_build_update_payload_mappings [OF p2] obtain ms' ups' where
    "policy_mappings pd2 = Some ms'" "payload_mappings payload2 = Some ups'"
    "update_mappings L lm ms' = Some (ups', added2, skipped2)" by blast
  with ms2 loop show ?thesis by simp
qed

lemma update_item_existing_key:
  assumes "update_item L False lm item = Some (u, a, s)"
    and "get_column_name L item = Some key" and "hash_key key = Some k"
    and "existing_labels_of item = Some labs" and "label_keys labs = Some S" and "k \<in> S"
  shows "dict_get u ''labels'' JNull = Some (JList (map label_kv labs)) \<and> a = []"
proof -
  from update_item_normal [OF assms(1)] obtain kvs key' k' labs' S' new where
    "item = JObj kvs" "get_column_name L item = Some key'" "hash_key key' = Some k'"
    "py_iter (get_or kvs ''labels'' (JList [])) = Some labs'" "label_keys labs' = Some S'"
    "u = updated_item kvs (map label_kv labs' @ new)"
    "(case lm k' of None \<Rightarrow> new = [] \<and> a = [] \<and> s = []
          | Some v \<Rightarrow> if k' \<in> S' then new = [] \<and> a = [] \<and> s = [key']
                      else new = [ledger_label L key' v] \<and> a = [key'] \<and> s = [])"
    by blast
  with assms(2-) show ?thesis
    by (cases "lm k'") (auto simp: existing_labels_of_def)
qed

lemma update_mapping_existing_key:
  assumes "update_mapping L lm m = Some (u, a, s)"
    and "hash_key (mapping_key_of L m) = Some k"
    and "existing_labels_of m = Some labs" and "label_keys labs = Some S" and "k \<in> S"
  shows "dict_get u ''labels'' JNull = Some (JList (map label_kv labs)) \<and> a = []"
proof -
  from update_mapping_normal [OF assms(1)] obtain kvs key labs' S' new where
    "m = JObj kvs"
    "key = get_column_key L (get_or kvs ''leftColumnName'' (JStr [])) (get_or kvs ''rightColumnName'' (JStr []))"
    "py_iter (get_or kvs ''labels'' (JList [])) = Some labs'" "label_keys labs' = Some S'"
    "u = updated_mapping kvs (map label_kv labs' @ new)"
    "(case lm (KStr key) of None \<Rightarrow> new = [] \<and> a = [] \<and> s = []
          | Some v \<Rightarrow> if KStr key \<in> S' then new = [] \<and> a = [] \<and> s = [JStr key]
                      else new = [ledger_label L (JStr key) v] \<and> a = [JStr key] \<and> s = [])"
    by blast
  with assms(2-) show ?thesis
    by (cases "lm (KStr key)") (auto simp: existing_labels_of_def mapping_key_of_def)
qed

lemma normal_mode_idempotent_items:
  assumes a: "build_update_payload L False policy_data lm = Some (payload, added, skipped)"
  shows "\<exists>its ups payload2.
          policy_items policy_data = Some its \<and> payload_items payload = Some ups
        \<and> build_update_payload L False (with_items policy_data ups) lm
            = Some (payload2, [], concat (map (matched_key L lm) its))
        \<and> payload_items payload2 = Some ups
        \<and> (\<forall>pd2 p2 a2 s2.
              policy_items pd2 = Some ups
              \<and> build_update_payload L False pd2 lm = Some (p2, a2, s2)
              \<longrightarrow> a2 = [] \<and> s2 = concat (map (matched_key L lm) its)
                  \<and> payload_items p2 = Some ups)
        \<and> list_all2
             (\<lambda>item u. \<forall>key k labs S.
                 get_column_name L item = Some key \<and> hash_key key = Some k
                 \<and> existing_labels_of item = Some labs \<and> label_keys labs = Some S \<and> k \<in> S
                 \<longrightarrow> dict_get u ''labels'' JNull = Some (JList (map label_kv labs)))
             its ups"
proof -
  from build_update_payload_items [OF a] obtain its ups where
    its: "policy_items policy_data = Some its" and ups: "payload_items payload = Some ups"
    and loop: "update_items L False lm its = Some (ups, added, skipped)" by blast
  note loop2 = update_items_idem [OF loop]
  from build_update_payload_with_items [OF a loop2] obtain payload2 where
    p2: "build_update_payload L False (with_items policy_data ups) lm
            = Some (payload2, [], concat (map (matched_key L lm) its))"
    and ups2: "payload_items payload2 = Some ups" by blast
  have any: "\<forall>pd2 p2 a2 s2.
              policy_items pd2 = Some ups
              \<and> build_update_payload L False pd2 lm = Some (p2, a2, s2)
              \<longrightarrow> a2 = [] \<and> s2 = concat (map (matched_key L lm) its)
                  \<and> payload_items p2 = Some ups"
    using second_pass_items [OF loop2] by blast
  from update_items_list_all2 [OF loop] obtain res where
    all: "list_all2 (\<lambda>item r. update_item L False lm item = Some r) its res"
    and res: "ups = map fst res" by blast
  have "list_all2
             (\<lambda>item r. \<forall>key k labs S.
                 get_column_name L item = Some key \<and> hash_key key = Some k
                 \<and> existing_labels_of item = Some labs \<and> label_keys labs = Some S \<and> k \<in> S
                 \<longrightarrow> dict_get (fst r) ''labels'' JNull = Some (JList (map label_kv labs)))
             its res"
    using all
  proof (rule list_all2_mono)
    fix item r
    assume "update_item L False lm item = Some r"
    then have "update_item L False lm item = Some (fst r, fst (snd r), snd (snd r))" by simp
    from update_item_existing_key [OF this]
    show "\<forall>key k labs S.
                 get_column_name L item = Some key \<and> hash_key key = Some k
                 \<and> existing_labels_of item = Some labs \<and> label_keys labs = Some S \<and> k \<in> S
                 \<longrightarrow> dict_get (fst r) ''labels'' JNull = Some (JList (map label_kv labs))"
      by blast
  qed
  then have kept: "list_all2
             (\<lambda>item u. \<forall>key k labs S.
                 get_column_name L item = Some key \<and> hash_key key = Some k
                 \<and> existing_labels_of item = Some labs \<and> label_keys labs = Some S \<and> k \<in> S
                 \<longrightarrow> dict_get u ''labels'' JNull = Some (JList (map label_kv labs)))
             its ups"
    by (simp add: res list_all2_map2)
  show ?thesis
    by (intro exI conjI) (rule its, rule ups, rule p2, rule ups2, rule any, rule kept)
qed

lemma normal_mode_idempotent_mappings:
  assumes a: "recon_build_update_payload L policy_data lm = Some (payload, added, skipped)"
  shows "\<exists>ms ups payload2.
          policy_mappings policy_data = Some ms \<and> payload_mappings payload = Some ups
        \<and> recon_build_update_payload L (with_mappings policy_data ups) lm
            = Some (payload2, [], concat (map (matched_mapping_key L lm) ms))
        \<and> payload_mappings payload2 = Some ups
        \<and> (\<forall>pd2 p2 a2 s2.
              policy_mappings pd2 = Some ups
              \<and> recon_build_update_payload L pd2 lm = Some (p2, a2, s2)
              \<longrightarrow> a2 = [] \<and> s2 = concat (map (matched_mapping_key L lm) ms)
                  \<and> payload_mappings p2 = Some ups)
        \<and> list_all2
             (\<lambda>m u. \<forall>k labs S.
                 hash_key (mapping_key_of L m) = Some k
                 \<and> existing_labels_of m = Some labs \<and> label_keys labs = Some S \<and> k \<in> S
                 \<longrightarrow> dict_get u ''labels'' JNull = Some (JList (map label_kv labs)))
             ms ups"
proof -
  from recon_build_update_payload_mappings [OF a] obtain ms ups where
    ms: "policy_mappings policy_data = Some ms" and ups: "payload_mappings payload = Some ups"
    and loop: "update_mappings L lm ms = Some (ups, added, skipped)" by blast
  note loop2 = update_mappings_idem [OF loop]
  from recon_build_update_payload_with_mappings [OF a loop2] obtain payload2 where
    p2: "recon_build_update_payload L (with_mappings policy_data ups) lm
            = Some (payload2, [], concat (map (matched_mapping_key L lm) ms))"
    and ups2: "payload_mappings payload2 = Some ups" by blast
  have any: "\<forall>pd2 p2 a2 s2.
              policy_mappings pd2 = Some ups
              \<and> recon_build_update_payload L pd2 lm = Some (p2, a2, s2)
              \<longrightarrow> a2 = [] \<and> s2 = concat (map (matched_mapping_key L lm) ms)
                  \<and> payload_mappings p2 = Some ups"
    using second_pass_mappings [OF loop2] by blast
  from update_mappings_list_all2 [OF loop] obtain res where
    all: "list_all2 (\<lambda>m r. update_mapping L lm m = Some r) ms res"
    and res: "ups = map fst res" by blast
  have "list_all2
             (\<lambda>m r. \<forall>k labs S.
                 hash_key (mapping_key_of L m) = Some k
                 \<and> existing_labels_of m = Some labs \<and> label_keys labs = Some S \<and> k \<in> S
                 \<longrightarrow> dict_get (fst r) ''labels'' JNull = Some (JList (map label_kv labs)))
             ms res"
    using all
  proof (rule list_all2_mono)
    fix m r
    assume "update_mapping L lm m = Some r"
    then have "update_mapping L lm m = Some (fst r, fst (snd r), snd (snd r))" by simp
    from update_mapping_existing_key [OF this]
    show "\<forall>k labs S.
                 hash_key (mapping_key_of L m) = Some k
                 \<and> existing_labels_of m = Some labs \<and> label_keys labs = Some S \<and> k \<in> S
                 \<longrightarrow> dict_get (fst r) ''labels'' JNull = Some (JList (map label_kv labs))"
      by blast
  qed
  then have kept: "list_all2
             (\<lambda>m u. \<forall>k labs S.
                 hash_key (mapping_key_of L m) = Some k
                 \<and> existing_labels_of m = Some labs \<and> label_keys labs = Some S \<and> k \<in> S
                 \<longrightarrow> dict_get u ''labels'' JNull = Some (JList (map label_kv labs)))
             ms ups"
    by (simp add: res list_all2_map2)
  show ?thesis
    by (intro exI conjI) (rule ms, rule ups, rule p2, rule ups2, rule any, rule kept)
qed

text \<open>
  C5. Normal-mode reconciliation is idempotent, in both categories. When a pass returns
  a payload, a second pass with the same ledger map over the definition holding the
  payload's items returns, adds no label, reports exactly the identity keys that have a
  ledger entry as skipped, and produces the same items again. The same holds for any
  definition holding these items on which the second pass returns. Within a pass, an
  item that already has a label under its identity key keeps its labels as they are.
\<close>

theorem normal_mode_idempotent:
  "(build_update_payload L False policy_data lm = Some (payload, added, skipped) \<longrightarrow>
     (\<exists>its ups payload2.
          policy_items policy_data = Some its \<and> payload_items payload = Some ups
        \<and> build_update_payload L False (with_items policy_data ups) lm
            = Some (payload2, [], concat (map (matched_key L lm) its))
        \<and> payload_items payload2 = Some ups
        \<and> (\<forall>pd2 p2 a2 s2.
              policy_items pd2 = Some ups
              \<and> build_update_payload L False pd2 lm = Some (p2, a2, s2)
              \<longrightarrow> a2 = [] \<and> s2 = concat (map (matched_key L lm) its)
                  \<and> payload_items p2 = Some ups)
        \<and> list_all2
             (\<lambda>item u. \<forall>key k labs S.
                 get_column_name L item = Some key \<and> hash_key key = Some k
                 \<and> existing_labels_of item = Some labs \<and> label_keys labs = Some S \<and> k \<in> S
                 \<longrightarrow> dict_get u ''labels'' JNull = Some (JList (map label_kv labs)))
             its ups))
   \<and> (recon_build_update_payload L rpolicy_data rlm = Some (rpayload, radded, rskipped) \<longrightarrow>
     (\<exists>ms ups payload2.
          policy_mappings rpolicy_data = Some ms \<and> payload_mappings rpayload = Some ups
        \<and> recon_build_update_payload L (with_mappings rpolicy_data ups) rlm
            = Some (payload2, [], concat (map (matched_mapping_key L rlm) ms))
        \<and> payload_mappings payload2 = Some ups
        \<and> (\<forall>pd2 p2 a2 s2.
              policy_mappings pd2 = Some ups
              \<and> recon_build_update_payload L pd2 rlm = Some (p2, a2, s2)
              \<longrightarrow> a2 = [] \<and> s2 = concat (map (matched_mapping_key L rlm) ms)
                  \<and> payload_mappings p2 = Some ups)
        \<and> list_all2
             (\<lambda>m u. \<forall>k labs S.
                 hash_key (mapping_key_of L m) = Some k
                 \<and> existing_labels_of m = Some labs \<and> label_keys labs = Some S \<and> k \<in> S
                 \<longrightarrow> dict_get u ''labels'' JNull = Some (JList (map label_kv labs)))
             ms ups))"
  using normal_mode_idempotent_items normal_mode_idempotent_mappings
  by (intro conjI impI) blast+

lemma matched_labelled_policy:
  "concat (map (matched_key L ledger_map) [JObj amount_check, JObj currency_check])
     = [JStr ''NOT_NULL-amount'']"
  by (simp add: matched_key_def key_amount_check key_currency_check ledger_map_def)

lemma matched_labelled_recon_policy:
  "concat (map (matched_mapping_key L recon_ledger_map) [JObj id_mapping, JObj total_mapping])
     = [JStr ''id_id'']"
  by (simp add: matched_mapping_key_def key_id_mapping key_total_mapping recon_ledger_map_def)

theorem normal_mode_idempotent_witness:
  "\<exists>payload ups payload2 rpayload rups rpayload2.
     build_update_payload lib0 False labelled_policy ledger_map
       = Some (payload, [JStr ''NOT_NULL-amount''], [])
     \<and> payload_items payload = Some ups
     \<and> build_update_payload lib0 False (with_items labelled_policy ups) ledger_map
       = Some (payload2, [], [JStr ''NOT_NULL-amount''])
     \<and> recon_build_update_payload lib0 labelled_recon_policy recon_ledger_map
       = Some (rpayload, [JStr ''id_id''], [])
     \<and> payload_mappings rpayload = Some rups
     \<and> recon_build_update_payload lib0 (with_mappings labelled_recon_policy rups) recon_ledger_map
       = Some (rpayload2, [], [JStr ''id_id''])"
proof -
  from labelled_policy_normal obtain payload where
    r: "build_update_payload lib0 False labelled_policy ledger_map
          = Some (payload, [JStr ''NOT_NULL-amount''], [])" by blast
  from labelled_recon_policy_payload obtain rpayload where
    rr: "recon_build_update_payload lib0 labelled_recon_policy recon_ledger_map
          = Some (rpayload, [JStr ''id_id''], [])" by blast
  from normal_mode_idempotent [of lib0 labelled_policy ledger_map payload
      "[JStr ''NOT_NULL-amount'']" "[]" labelled_recon_policy recon_ledger_map rpayload
      "[JStr ''id_id'']" "[]"] r rr
  obtain its ups payload2 ms rups rpayload2 where
    its: "policy_items labelled_policy = Some its"
    and ups: "payload_items payload = Some ups"
    and p2: "build_update_payload lib0 False (with_items labelled_policy ups) ledger_map
            = Some (payload2, [], concat (map (matched_key lib0 ledger_map) its))"
    and ms: "policy_mappings labelled_recon_policy = Some ms"
    and rups: "payload_mappings rpayload = Some rups"
    and rp2: "recon_build_update_payload lib0 (with_mappings labelled_recon_policy rups) recon_ledger_map
            = Some (rpayload2, [], concat (map (matched_mapping_key lib0 recon_ledger_map) ms))"
    by blast
  from its have "its = [JObj amount_check, JObj currency_check]"
    by (simp add: policy_items_labelled_policy)
  with p2 have p2': "build_update_payload lib0 False (with_items labelled_policy ups) ledger_map
            = Some (payload2, [], [JStr ''NOT_NULL-amount''])"
    using matched_labelled_policy [of lib0] by simp
  from ms have "ms = [JObj id_mapping, JObj total_mapping]"
    by (simp add: policy_mappings_labelled_recon_policy)
  with rp2 have rp2': "recon_build_update_payload lib0 (with_mappings labelled_recon_policy rups) recon_ledger_map
            = Some (rpayload2, [], [JStr ''id_id''])"
    using matched_labelled_recon_policy [of lib0] by simp
  show ?thesis
    by (intro exI conjI) (rule r, rule ups, rule p2', rule rr, rule rups, rule rp2')
qed

subsection \<open>Fields carried into the payload\<close>

lemma carried_ConsI:
  "map_of dst k = Some (get_or src k d) \<Longrightarrow> carried ks (JObj src) (JObj dst)
     \<Longrightarrow> carried (k # ks) (JObj src) (JObj dst)"
  by (auto simp: carried_def entry_def get_or_def)

lemma carried_Nil: "carried [] src dst"
  by (simp add: carried_def)

lemma map_of_hit: "map_of ((k, v) # ps) k = Some v"
  by simp

lemma map_of_miss: "k \<noteq> k' \<Longrightarrow> map_of ((k', v) # ps) k = map_of ps k"
  by simp

lemmas lookup_simps = map_of_hit map_of_miss list.inject char.inject simp_thms list.distinct

lemma carried_payload_rule: "carried rule_fields (JObj r) (payload_rule r ba nc)"
  unfolding rule_fields_def payload_rule_def
  by (intro carried_ConsI carried_Nil) (simp_all only: lookup_simps)

lemma carried_recon_payload_rule:
  "carried recon_rule_fields (JObj r) (recon_payload_rule r lba rba nc src)"
  unfolding recon_rule_fields_def recon_payload_rule_def
  by (intro carried_ConsI carried_Nil) (simp_all only: lookup_simps)

lemma carried_updated_item: "carried item_fields (JObj kvs) (updated_item kvs out)"
proof -
  obtain f where f: "updated_item kvs out = JObj
       ([(''measurementType'', get_or kvs ''measurementType'' JNull),
            (''columnName'', get_or kvs ''columnName'' (JStr [])),
            (''executionOrder'', get_or kvs ''executionOrder'' JNull),
            (''weightage'', get_or kvs ''weightage'' JNull),
            (''businessExplanation'', get_or kvs ''businessExplanation'' (JStr [])),
            (''labels'', JList out),
            (''isWarning'', get_or kvs ''isWarning'' (JBool False)),
            (''associatedDQRecommendationId'', get_or kvs ''associatedDQRecommendationId'' JNull),
            (''bulkPolicyDqRuleId'', get_or kvs ''bulkPolicyDqRuleId'' JNull),
            (''thresholdConfig'', get_or kvs ''thresholdConfig'' JNull),
            (''value'', get_or kvs ''value'' JNull),
            (''id'', get_or kvs ''id'' JNull)] @ f)"
    by (simp add: updated_item_def)
  show ?thesis
    unfolding item_fields_def f
    by (intro carried_ConsI carried_Nil) (simp_all only: lookup_simps append_Cons)
qed

lemma expression_updated_item:
  "entry (JObj kvs) ''ruleExpression'' = Some v \<Longrightarrow> truthy v
     \<Longrightarrow> entry (updated_item kvs out) ''ruleExpression'' = Some v"
  by (simp add: entry_def updated_item_def get_or_def)

lemma carried_updated_mapping: "carried mapping_fields (JObj kvs) (updated_mapping kvs out)"
  unfolding mapping_fields_def updated_mapping_def
  by (intro carried_ConsI carried_Nil) (simp_all only: lookup_simps)

lemma build_update_payload_rule_part:
  assumes "build_update_payload L ov policy_data lm = Some (payload, added, skipped)"
  shows "\<exists>r ba nc. rule_part policy_data = JObj r \<and> rule_part payload = payload_rule r ba nc"
  using assms
  by (fastforce simp: build_update_payload_def bind_eq_Some_conv Let_def as_dict_Some
      rule_part_def get_or_Cons)

lemma recon_build_update_payload_rule_part:
  assumes "recon_build_update_payload L policy_data lm = Some (payload, added, skipped)"
  shows "\<exists>r lba rba nc src. rule_part policy_data = JObj r
       \<and> rule_part payload = recon_payload_rule r lba rba nc src"
  using assms
  by (fastforce simp: recon_build_update_payload_def bind_eq_Some_conv Let_def as_dict_Some
      rule_part_def get_or_Cons)

lemma update_item_shape:
  assumes "update_item L ov lm item = Some (u, a, s)"
  shows "\<exists>kvs out. item = JObj kvs \<and> u = updated_item kvs out"
  using assms
  by (auto simp: update_item_def bind_eq_Some_conv Let_def as_dict_Some)

lemma update_mapping_shape:
  assumes "update_mapping L lm m = Some (u, a, s)"
  shows "\<exists>kvs out. m = JObj kvs \<and> u = updated_mapping kvs out"
  using assms
  by (auto simp: update_mapping_def bind_eq_Some_conv Let_def as_dict_Some)

lemma carried_recon_item:
  "carried recon_item_fields (JObj kvs)
     (JObj [(''measurementType'', get_or kvs ''measurementType'' (JStr ''EQUALITY'')),
            (''executionOrder'', get_or kvs ''executionOrder'' (JInt 1)),
            (''id'', get_or kvs ''id'' JNull)])"
  unfolding recon_item_fields_def
  by (intro carried_ConsI carried_Nil) (simp_all only: lookup_simps)

lemma recon_items_carried:
  "recon_items its = Some ups \<Longrightarrow> list_all2 (carried recon_item_fields) its ups"
proof (induction its arbitrary: ups)
  case Nil
  then show ?case by simp
next
  case (Cons x xs)
  from Cons.prems obtain kvs more where x: "x = JObj kvs" and more: "recon_items xs = Some more"
    and ups: "ups = JObj [(''measurementType'', get_or kvs ''measurementType'' (JStr ''EQUALITY'')),
                 (''executionOrder'', get_or kvs ''executionOrder'' (JInt 1)),
                 (''id'', get_or kvs ''id'' JNull)] # more"
    by (auto simp: bind_eq_Some_conv as_dict_Some)
  from Cons.IH [OF more] show ?case
    unfolding x ups by (simp add: carried_recon_item)
qed

lemma recon_build_update_payload_recon_items:
  assumes "recon_build_update_payload L policy_data lm = Some (payload, added, skipped)"
  shows "\<exists>its ups. policy_items policy_data = Some its \<and> payload_items payload = Some ups
       \<and> recon_items its = Some ups"
  using assms
  by (auto simp: recon_build_update_payload_def policy_items_def payload_items_def
      bind_eq_Some_conv Let_def as_dict_Some get_or_Cons)

lemma payload_carries_items:
  assumes a: "build_update_payload L ov policy_data lm = Some (payload, added, skipped)"
  shows "\<exists>its ups. policy_items policy_data = Some its \<and> payload_items payload = Some ups
         \<and> list_all2
              (\<lambda>item u. carried item_fields item u
                 \<and> (\<forall>v. entry item ''ruleExpression'' = Some v \<and> truthy v
                        \<longrightarrow> entry u ''ruleExpression'' = Some v))
              its ups"
proof -
  from build_update_payload_pairs [OF a] obtain its res where
    its: "policy_items policy_data = Some its" and ups: "payload_items payload = Some (map fst res)"
    and all: "list_all2 (\<lambda>item r. update_item L ov lm item = Some r) its res" by blast
  have "list_all2
              (\<lambda>item r. carried item_fields item (fst r)
                 \<and> (\<forall>v. entry item ''ruleExpression'' = Some v \<and> truthy v
                        \<longrightarrow> entry (fst r) ''ruleExpression'' = Some v))
              its res"
    using all
  proof (rule list_all2_mono)
    fix item r
    assume "update_item L ov lm item = Some r"
    then have "update_item L ov lm item = Some (fst r, fst (snd r), snd (snd r))" by simp
    from update_item_shape [OF this] obtain kvs out where
      "item = JObj kvs" "fst r = updated_item kvs out" by blast
    then show "carried item_fields item (fst r)
                 \<and> (\<forall>v. entry item ''ruleExpression'' = Some v \<and> truthy v
                        \<longrightarrow> entry (fst r) ''ruleExpression'' = Some v)"
      by (simp add: carried_updated_item expression_updated_item)
  qed
  then show ?thesis using its ups by (auto simp: list_all2_map2)
qed

lemma payload_carries_mappings:
  assumes a: "recon_build_update_payload L policy_data lm = Some (payload, added, skipped)"
  shows "\<exists>ms ups. policy_mappings policy_data = Some ms \<and> payload_mappings payload = Some ups
         \<and> list_all2 (carried mapping_fields) ms ups"
proof -
  from recon_build_update_payload_pairs [OF a] obtain ms res where
    ms: "policy_mappings policy_data = Some ms" and ups: "payload_mappings payload = Some (map fst res)"
    and all: "list_all2 (\<lambda>m r. update_mapping L lm m = Some r) ms res" by blast
  have "list_all2 (\<lambda>m r. carried mapping_fields m (fst r)) ms res"
    using all
  proof (rule list_all2_mono)
    fix m r
    assume "update_mapping L lm m = Some r"
    then have "update_mapping L lm m = Some (fst r, fst (snd r), snd (snd r))" by simp
    from update_mapping_shape [OF this] obtain kvs out where
      "m = JObj kvs" "fst r = updated_mapping kvs out" by blast
    then show "carried mapping_fields m (fst r)"
      by (simp add: carried_updated_mapping)
  qed
  then show ?thesis using ms ups by (auto simp: list_all2_map2)
qed

lemma sub_object_JObj: "sub_object (JObj r) k = get_or r k JNull"
  by (simp add: sub_object_def entry_def get_or_def)

lemma entry_falsy: "\<not> truthy x \<Longrightarrow> entry x k = None"
  by (cases x) (auto simp: entry_def)

lemma carried_nested:
  assumes "py_or x (JObj []) = JObj ba" and "carried ks (JObj ba) dst"
  shows "carried ks x dst"
proof (cases "truthy x")
  case True
  with assms show ?thesis by (simp add: py_or_def)
next
  case False
  then show ?thesis by (simp add: carried_def entry_falsy)
qed

lemma entry_JObj: "entry (JObj kvs) k = map_of kvs k"
  by (simp add: entry_def)

lemma sub_object_lookup: "map_of kvs k = Some v \<Longrightarrow> sub_object (JObj kvs) k = v"
  by (simp add: sub_object_def entry_def)

lemma backing_payload_rule:
  "sub_object (payload_rule r ba nc) ''backingAsset'' =
     JObj [(''tableAssetId'', get_or ba ''tableAssetId'' JNull), (''id'', get_or ba ''id'' JNull)]"
  unfolding payload_rule_def
  by (rule sub_object_lookup) (simp only: lookup_simps)

lemma notification_payload_rule:
  "sub_object (payload_rule r ba nc) ''notificationChannels'' =
     JObj [(''configuredNotificationGroupIds'',
                  get_or nc ''configuredNotificationGroupIds'' (JList [])),
           (''notifyOn'', get_or nc ''notifyOn'' (JList [])),
           (''notifyOnSuccess'', get_or nc ''notifyOnSuccess'' (JBool False)),
           (''severity'', get_or nc ''severity'' (JStr ''CRITICAL'')),
           (''alertsEnabled'', get_or nc ''alertsEnabled'' (JBool True)),
           (''reNotifyFactor'', get_or nc ''reNotifyFactor'' (JInt 0)),
           (''notifyOnWarning'', get_or nc ''notifyOnWarning'' (JBool False)),
           (''notificationEnabled'', JBool True)]"
  unfolding payload_rule_def
  by (rule sub_object_lookup) (simp only: lookup_simps)

lemma carried_backing_payload_rule:
  "carried backing_asset_fields (JObj ba) (sub_object (payload_rule r ba nc) ''backingAsset'')"
  unfolding backing_asset_fields_def backing_payload_rule
  by (intro carried_ConsI carried_Nil) (simp_all only: lookup_simps)

lemma carried_notification_payload_rule:
  "carried notification_fields (JObj nc) (sub_object (payload_rule r ba nc) ''notificationChannels'')"
  unfolding notification_fields_def notification_payload_rule
  by (intro carried_ConsI carried_Nil) (simp_all only: lookup_simps)

lemma left_backing_recon_payload_rule:
  "sub_object (recon_payload_rule r lba rba nc src) ''leftBackingAsset'' =
     JObj [(''tableAssetId'', get_or lba ''tableAssetId'' JNull), (''id'', get_or lba ''id'' JNull)]"
  unfolding recon_payload_rule_def
  by (rule sub_object_lookup) (simp only: lookup_simps)

lemma right_backing_recon_payload_rule:
  "sub_object (recon_payload_rule r lba rba nc src) ''rightBackingAsset'' =
     JObj [(''tableAssetId'', get_or rba ''tableAssetId'' JNull),
           (''marker'', get_or rba ''marker'' JNull),
           (''id'', get_or rba ''id'' JNull)]"
  unfolding recon_payload_rule_def
  by (rule sub_object_lookup) (simp only: lookup_simps)

lemma notification_recon_payload_rule:
  "sub_object (recon_payload_rule r lba rba nc src) ''notificationChannels'' =
     JObj [(''configuredNotificationGroupIds'',
                  get_or nc ''configuredNotificationGroupIds'' (JList [])),
           (''notifyOn'', get_or nc ''notifyOn'' (JList [])),
           (''notifyOnSuccess'', get_or nc ''notifyOnSuccess'' (JBool False)),
           (''severity'', get_or nc ''severity'' (JStr ''CRITICAL'')),
           (''alertsEnabled'', get_or nc ''alertsEnabled'' (JBool True)),
           (''reNotifyFactor'', get_or nc ''reNotifyFactor'' (JInt 0)),
           (''notifyOnWarning'', get_or nc ''notifyOnWarning'' (JBool False)),
           (''notificationEnabled'', get_or nc ''notificationEnabled'' (JBool False))]"
  unfolding recon_payload_rule_def
  by (rule sub_object_lookup) (simp only: lookup_simps)

lemma spark_recon_payload_rule:
  "sub_object (recon_payload_rule r lba rba nc src) ''sparkResourceConfig'' =
     JObj [(''additionalConfiguration'', get_or src ''additionalConfiguration'' (JObj [])),
           (''yunikorn'', get_or src ''yunikorn'' JNull)]"
  unfolding recon_payload_rule_def
  by (rule sub_object_lookup) (simp only: lookup_simps)

lemma carried_left_backing:
  "carried backing_asset_fields (JObj lba)
     (sub_object (recon_payload_rule r lba rba nc src) ''leftBackingAsset'')"
  unfolding backing_asset_fields_def left_backing_recon_payload_rule
  by (intro carried_ConsI carried_Nil) (simp_all only: lookup_simps)

lemma carried_right_backing:
  "carried right_backing_asset_fields (JObj rba)
     (sub_object (recon_payload_rule r lba rba nc src) ''rightBackingAsset'')"
  unfolding right_backing_asset_fields_def right_backing_recon_payload_rule
  by (intro carried_ConsI carried_Nil) (simp_all only: lookup_simps)

lemma carried_recon_notification:
  "carried recon_notification_fields (JObj nc)
     (sub_object (recon_payload_rule r lba rba nc src) ''notificationChannels'')"
  unfolding recon_notification_fields_def notification_recon_payload_rule
  by (intro carried_ConsI carried_Nil) (simp_all only: lookup_simps)

lemma carried_spark:
  "carried spark_resource_fields (JObj src)
     (sub_object (recon_payload_rule r lba rba nc src) ''sparkResourceConfig'')"
  unfolding spark_resource_fields_def spark_recon_payload_rule
  by (intro carried_ConsI carried_Nil) (simp_all only: lookup_simps)

lemma build_update_payload_shape:
  assumes "build_update_payload L ov policy_data lm = Some (payload, added, skipped)"
  shows "\<exists>pd dt r ba nc ups. policy_data = JObj pd
     \<and> get_or pd ''details'' (JObj []) = JObj dt \<and> get_or pd ''rule'' (JObj []) = JObj r
     \<and> py_or (get_or r ''backingAsset'' JNull) (JObj []) = JObj ba
     \<and> py_or (get_or r ''notificationChannels'' JNull) (JObj []) = JObj nc
     \<and> payload = JObj [(''rule'', payload_rule r ba nc),
                       (''items'', JList ups),
                       (''transformUDFs'', get_or dt ''transformUDFs'' (JList [])),
                       (''engineType'', get_or r ''engineType'' (JStr ''JDBC_SQL''))]"
  using assms
  by (fastforce simp: build_update_payload_def bind_eq_Some_conv Let_def as_dict_Some)

lemma recon_build_update_payload_shape:
  assumes "recon_build_update_payload L policy_data lm = Some (payload, added, skipped)"
  shows "\<exists>pd r lba rba nc src uits ups. policy_data = JObj pd
     \<and> get_or pd ''rule'' (JObj []) = JObj r
     \<and> py_or (get_or r ''leftBackingAsset'' JNull) (JObj []) = JObj lba
     \<and> py_or (get_or r ''rightBackingAsset'' JNull) (JObj []) = JObj rba
     \<and> py_or (get_or r ''notificationChannels'' JNull) (JObj []) = JObj nc
     \<and> py_or (get_or r ''sparkResourceConfig'' JNull) (JObj []) = JObj src
     \<and> payload = JObj [(''rule'', recon_payload_rule r lba rba nc src),
                       (''items'', JList uits),
                       (''mappings'', JList ups),
                       (''cloningDetails'', JNull),
                       (''analyticsPipelineId'', get_or r ''analyticsPipelineId'' JNull)]"
  using assms
  by (fastforce simp: recon_build_update_payload_def bind_eq_Some_conv Let_def as_dict_Some)

lemma payload_carries_rule_objects:
  assumes a: "build_update_payload L ov policy_data lm = Some (payload, added, skipped)"
  shows "carried [''engineType''] (rule_part policy_data) payload
       \<and> carried [''transformUDFs''] (details_part policy_data) payload
       \<and> carried backing_asset_fields (sub_object (rule_part policy_data) ''backingAsset'')
            (sub_object (rule_part payload) ''backingAsset'')
       \<and> carried notification_fields (sub_object (rule_part policy_data) ''notificationChannels'')
            (sub_object (rule_part payload) ''notificationChannels'')"
proof -
  from build_update_payload_shape [OF a] obtain pd dt r ba nc ups where
    pd: "policy_data = JObj pd"
    and dt: "get_or pd ''details'' (JObj []) = JObj dt"
    and r: "get_or pd ''rule'' (JObj []) = JObj r"
    and ba: "py_or (get_or r ''backingAsset'' JNull) (JObj []) = JObj ba"
    and nc: "py_or (get_or r ''notificationChannels'' JNull) (JObj []) = JObj nc"
    and payload: "payload = JObj [(''rule'', payload_rule r ba nc),
                       (''items'', JList ups),
                       (''transformUDFs'', get_or dt ''transformUDFs'' (JList [])),
                       (''engineType'', get_or r ''engineType'' (JStr ''JDBC_SQL''))]"
    by blast
  have rp: "rule_part policy_data = JObj r" by (simp add: rule_part_def pd r)
  have dp: "details_part policy_data = JObj dt" by (simp add: details_part_def pd dt)
  have rq: "rule_part payload = payload_rule r ba nc"
    by (simp add: rule_part_def payload get_or_Cons)
  have 1: "carried [''engineType''] (rule_part policy_data) payload"
    unfolding rp payload
    by (intro carried_ConsI carried_Nil) (simp_all only: lookup_simps)
  have 2: "carried [''transformUDFs''] (details_part policy_data) payload"
    unfolding dp payload
    by (intro carried_ConsI carried_Nil) (simp_all only: lookup_simps)
  have 3: "carried backing_asset_fields (sub_object (rule_part policy_data) ''backingAsset'')
            (sub_object (rule_part payload) ''backingAsset'')"
    unfolding rp rq sub_object_JObj
    using ba carried_backing_payload_rule by (rule carried_nested)
  have 4: "carried notification_fields (sub_object (rule_part policy_data) ''notificationChannels'')
            (sub_object (rule_part payload) ''notificationChannels'')"
    unfolding rp rq sub_object_JObj
    using nc carried_notification_payload_rule by (rule carried_nested)
  from 1 2 3 4 show ?thesis by blast
qed

lemma recon_payload_carries_rule_objects:
  assumes a: "recon_build_update_payload L policy_data lm = Some (payload, added, skipped)"
  shows "carried [''analyticsPipelineId''] (rule_part policy_data) payload
       \<and> carried backing_asset_fields (sub_object (rule_part policy_data) ''leftBackingAsset'')
            (sub_object (rule_part payload) ''leftBackingAsset'')
       \<and> carried right_backing_asset_fields (sub_object (rule_part policy_data) ''rightBackingAsset'')
            (sub_object (rule_part payload) ''rightBackingAsset'')
       \<and> carried recon_notification_fields
            (sub_object (rule_part policy_data) ''notificationChannels'')
            (sub_object (rule_part payload) ''notificationChannels'')
       \<and> carried spark_resource_fields
            (sub_object (rule_part policy_data) ''sparkResourceConfig'')
            (sub_object (rule_part payload) ''sparkResourceConfig'')"
proof -
  from recon_build_update_payload_shape [OF a] obtain pd r lba rba nc src uits ups where
    pd: "policy_data = JObj pd"
    and r: "get_or pd ''rule'' (JObj []) = JObj r"
    and lba: "py_or (get_or r ''leftBackingAsset'' JNull) (JObj []) = JObj lba"
    and rba: "py_or (get_or r ''rightBackingAsset'' JNull) (JObj []) = JObj rba"
    and nc: "py_or (get_or r ''notificationChannels'' JNull) (JObj []) = JObj nc"
    and src: "py_or (get_or r ''sparkResourceConfig'' JNull) (JObj []) = JObj src"
    and payload: "payload = JObj [(''rule'', recon_payload_rule r lba rba nc src),
                       (''items'', JList uits),
                       (''mappings'', JList ups),
                       (''cloningDetails'', JNull),
                       (''analyticsPipelineId'', get_or r ''analyticsPipelineId'' JNull)]"
    by blast
  have rp: "rule_part policy_data = JObj r" by (simp add: rule_part_def pd r)
  have rq: "rule_part payload = recon_payload_rule r lba rba nc src"
    by (simp add: rule_part_def payload get_or_Cons)
  have 1: "carried [''analyticsPipelineId''] (rule_part policy_data) payload"
    unfolding rp payload
    by (intro carried_ConsI carried_Nil) (simp_all only: lookup_simps)
  have 2: "carried backing_asset_fields (sub_object (rule_part policy_data) ''leftBackingAsset'')
            (sub_object (rule_part payload) ''leftBackingAsset'')"
    unfolding rp rq sub_object_JObj
    using lba carried_left_backing by (rule carried_nested)
  have 3: "carried right_backing_asset_fields (sub_object (rule_part policy_data) ''rightBackingAsset'')
            (sub_object (rule_part payload) ''rightBackingAsset'')"
    unfolding rp rq sub_object_JObj
    using rba carried_right_backing by (rule carried_nested)
  have 4: "carried recon_notification_fields
            (sub_object (rule_part policy_data) ''notificationChannels'')
            (sub_object (rule_part payload) ''notificationChannels'')"
    unfolding rp rq sub_object_JObj
    using nc carried_recon_notification by (rule carried_nested)
  have 5: "carried spark_resource_fields
            (sub_object (rule_part policy_data) ''sparkResourceConfig'')
            (sub_object (rule_part payload) ''sparkResourceConfig'')"
    unfolding rp rq sub_object_JObj
    using src carried_spark by (rule carried_nested)
  from 1 2 3 4 5 show ?thesis by blast
qed

text \<open>
  C2, as the code has it. The payload is rebuilt from the fields the builder reads. Every
  entry that a builder fills under a key \<open>k\<close> with \<open>d.get\<close> of the same \<open>k\<close>, with or
  without a default, has the value of \<open>d\<close>'s field \<open>k\<close> whenever the fetched \<open>d\<close> has
  that field: for \<open>d\<close> the rule, the details, an item, a column mapping, a
  reconciliation item, and each object nested in the rule that the builder reads (the
  backing assets, the notification channels, and the Spark resource configuration of a
  reconciliation policy). An item's \<open>ruleExpression\<close> is carried when it is non-empty.
  The labels of the items and mappings are rewritten.
\<close>

theorem payload_carries_listed_fields:
  "(build_update_payload L ov policy_data lm = Some (payload, added, skipped) \<longrightarrow>
      carried rule_fields (rule_part policy_data) (rule_part payload)
    \<and> (\<exists>its ups. policy_items policy_data = Some its \<and> payload_items payload = Some ups
         \<and> list_all2
              (\<lambda>item u. carried item_fields item u
                 \<and> (\<forall>v. entry item ''ruleExpression'' = Some v \<and> truthy v
                        \<longrightarrow> entry u ''ruleExpression'' = Some v))
              its ups)
    \<and> carried [''engineType''] (rule_part policy_data) payload
    \<and> carried [''transformUDFs''] (details_part policy_data) payload
    \<and> carried backing_asset_fields (sub_object (rule_part policy_data) ''backingAsset'')
         (sub_object (rule_part payload) ''backingAsset'')
    \<and> carried notification_fields (sub_object (rule_part policy_data) ''notificationChannels'')
         (sub_object (rule_part payload) ''notificationChannels''))
   \<and> (recon_build_update_payload L rpolicy_data rlm = Some (rpayload, radded, rskipped) \<longrightarrow>
      carried recon_rule_fields (rule_part rpolicy_data) (rule_part rpayload)
    \<and> (\<exists>ms ups. policy_mappings rpolicy_data = Some ms \<and> payload_mappings rpayload = Some ups
         \<and> list_all2 (carried mapping_fields) ms ups)
    \<and> (\<exists>its ups. policy_items rpolicy_data = Some its \<and> payload_items rpayload = Some ups
         \<and> list_all2 (carried recon_item_fields) its ups)
    \<and> carried [''analyticsPipelineId''] (rule_part rpolicy_data) rpayload
    \<and> carried backing_asset_fields (sub_object (rule_part rpolicy_data) ''leftBackingAsset'')
         (sub_object (rule_part rpayload) ''leftBackingAsset'')
    \<and> carried right_backing_asset_fields
         (sub_object (rule_part rpolicy_data) ''rightBackingAsset'')
         (sub_object (rule_part rpayload) ''rightBackingAsset'')
    \<and> carried recon_notification_fields
         (sub_object (rule_part rpolicy_data) ''notificationChannels'')
         (sub_object (rule_part rpayload) ''notificationChannels'')
    \<and> carried spark_resource_fields
         (sub_object (rule_part rpolicy_data) ''sparkResourceConfig'')
         (sub_object (rule_part rpayload) ''sparkResourceConfig''))"
proof (intro conjI impI)
  assume a: "build_update_payload L ov policy_data lm = Some (payload, added, skipped)"
  from build_update_payload_rule_part [OF a]
  show "carried rule_fields (rule_part policy_data) (rule_part payload)"
    by (auto simp: carried_payload_rule)
  from payload_carries_items [OF a]
  show "\<exists>its ups. policy_items policy_data = Some its \<and> payload_items payload = Some ups
         \<and> list_all2
              (\<lambda>item u. carried item_fields item u
                 \<and> (\<forall>v. entry item ''ruleExpression'' = Some v \<and> truthy v
                        \<longrightarrow> entry u ''ruleExpression'' = Some v))
              its ups" .
  note o = payload_carries_rule_objects [OF a]
  from o show "carried [''engineType''] (rule_part policy_data) payload" by (elim conjE)
  from o show "carried [''transformUDFs''] (details_part policy_data) payload" by (elim conjE)
  from o show "carried backing_asset_fields (sub_object (rule_part policy_data) ''backingAsset'')
         (sub_object (rule_part payload) ''backingAsset'')" by (elim conjE)
  from o show "carried notification_fields
         (sub_object (rule_part policy_data) ''notificationChannels'')
         (sub_object (rule_part payload) ''notificationChannels'')" by (elim conjE)
next
  assume a: "recon_build_update_payload L rpolicy_data rlm = Some (rpayload, radded, rskipped)"
  from recon_build_update_payload_rule_part [OF a]
  show "carried recon_rule_fields (rule_part rpolicy_data) (rule_part rpayload)"
    by (auto simp: carried_recon_payload_rule)
  from payload_carries_mappings [OF a]
  show "\<exists>ms ups. policy_mappings rpolicy_data = Some ms \<and> payload_mappings rpayload = Some ups
         \<and> list_all2 (carried mapping_fields) ms ups" .
  from recon_build_update_payload_recon_items [OF a]
  show "\<exists>its ups. policy_items rpolicy_data = Some its \<and> payload_items rpayload = Some ups
         \<and> list_all2 (carried recon_item_fields) its ups"
    by (auto dest: recon_items_carried)
  note o = recon_payload_carries_rule_objects [OF a]
  from o show "carried [''analyticsPipelineId''] (rule_part rpolicy_data) rpayload"
    by (elim conjE)
  from o show "carried backing_asset_fields
         (sub_object (rule_part rpolicy_data) ''leftBackingAsset'')
         (sub_object (rule_part rpayload) ''leftBackingAsset'')" by (elim conjE)
  from o show "carried right_backing_asset_fields
         (sub_object (rule_part rpolicy_data) ''rightBackingAsset'')
         (sub_object (rule_part rpayload) ''rightBackingAsset'')" by (elim conjE)
  from o show "carried recon_notification_fields
         (sub_object (rule_part rpolicy_data) ''notificationChannels'')
         (sub_object (rule_part rpayload) ''notificationChannels'')" by (elim conjE)
  from o show "carried spark_resource_fields
         (sub_object (rule_part rpolicy_data) ''sparkResourceConfig'')
         (sub_object (rule_part rpayload) ''sparkResourceConfig'')" by (elim conjE)
qed

lemma carriedD:
  "carried ks src dst \<Longrightarrow> k \<in> set ks \<Longrightarrow> entry src k = Some v \<Longrightarrow> entry dst k = Some v"
  by (simp add: carried_def)

text \<open>
  C2, as stated, fails: the fetched rule has a \<open>version\<close> field, and the payload's rule
  has none.
\<close>

theorem payload_drops_unlisted_field:
  "build_update_payload lib0 False labelled_policy ledger_map =
     Some (JObj [(''rule'', payload_rule
                    [(''id'', JInt 7), (''name'', JStr ''orders''), (''version'', JInt 3)] [] []),
                 (''items'', JList
                    [updated_item amount_check
                       [JObj [(''key'', JStr ''team''), (''value'', JStr ''finance'')],
                        JObj [(''key'', JStr ''NOT_NULL-amount''), (''value'', JStr ''1'')]],
                     updated_item currency_check
                       [JObj [(''key'', JStr ''owner''), (''value'', JStr ''ops'')]]]),
                 (''transformUDFs'', JList []),
                 (''engineType'', JStr ''JDBC_SQL'')],
           [JStr ''NOT_NULL-amount''], [])
   \<and> entry (rule_part labelled_policy) ''version'' = Some (JInt 3)
   \<and> entry (payload_rule
               [(''id'', JInt 7), (''name'', JStr ''orders''), (''version'', JInt 3)] [] [])
         ''version'' = None"
proof (intro conjI)
  show "build_update_payload lib0 False labelled_policy ledger_map =
     Some (JObj [(''rule'', payload_rule
                    [(''id'', JInt 7), (''name'', JStr ''orders''), (''version'', JInt 3)] [] []),
                 (''items'', JList
                    [updated_item amount_check
                       [JObj [(''key'', JStr ''team''), (''value'', JStr ''finance'')],
                        JObj [(''key'', JStr ''NOT_NULL-amount''), (''value'', JStr ''1'')]],
                     updated_item currency_check
                       [JObj [(''key'', JStr ''owner''), (''value'', JStr ''ops'')]]]),
                 (''transformUDFs'', JList []),
                 (''engineType'', JStr ''JDBC_SQL'')],
           [JStr ''NOT_NULL-amount''], [])"
    by (simp add: build_update_payload_def labelled_policy_def ledger_map_def update_item_def
      key_amount_check key_currency_check labels_amount_check labels_currency_check
      get_or_Cons get_or_Nil py_or_def)
  show "entry (rule_part labelled_policy) ''version'' = Some (JInt 3)"
    by (simp add: entry_def rule_part_def labelled_policy_def get_or_Cons)
  show "entry (payload_rule
               [(''id'', JInt 7), (''name'', JStr ''orders''), (''version'', JInt 3)] [] [])
         ''version'' = None"
    by (simp add: entry_def payload_rule_def)
qed

lemma asset_policy_payload:
  "\<exists>payload. build_update_payload lib0 False asset_policy ledger_map
       = Some (payload, [JStr ''NOT_NULL-amount''], [])"
  by (simp add: build_update_payload_def asset_policy_def ledger_map_def update_item_def
      key_amount_check key_currency_check labels_amount_check labels_currency_check
      get_or_Cons get_or_Nil py_or_def)

lemma asset_recon_policy_payload:
  "\<exists>payload. recon_build_update_payload lib0 asset_recon_policy recon_ledger_map
       = Some (payload, [JStr ''id_id''], [])"
  using key_id_mapping [of lib0] key_total_mapping [of lib0]
  by (simp add: recon_build_update_payload_def asset_recon_policy_def recon_ledger_map_def
      update_mapping_def mapping_key_of_def labels_id_mapping labels_total_mapping
      get_or_Cons get_or_Nil py_or_def Let_def)

lemma policy_items_asset_policy:
  "policy_items asset_policy = Some [JObj amount_check, JObj currency_check]"
  by (simp add: policy_items_def asset_policy_def get_or_Cons get_or_Nil)

lemma policy_mappings_asset_recon_policy:
  "policy_mappings asset_recon_policy = Some [JObj id_mapping, JObj total_mapping]"
  by (simp add: policy_mappings_def asset_recon_policy_def get_or_Cons get_or_Nil)

lemma policy_items_asset_recon_policy:
  "policy_items asset_recon_policy
     = Some [JObj [(''id'', JInt 80), (''measurementType'', JStr ''EQUALITY'')]]"
  by (simp add: policy_items_def asset_recon_policy_def get_or_Cons get_or_Nil)

lemma rule_part_asset_policy:
  "rule_part asset_policy =
     JObj [(''id'', JInt 7), (''name'', JStr ''orders''), (''version'', JInt 3),
           (''engineType'', JStr ''SPARK''),
           (''backingAsset'', JObj [(''tableAssetId'', JInt 9), (''id'', JInt 2),
                                    (''assetName'', JStr ''orders'')]),
           (''notificationChannels'', JObj [(''severity'', JStr ''LOW'')])]"
  by (simp add: rule_part_def asset_policy_def get_or_Cons)

lemma details_part_asset_policy:
  "details_part asset_policy =
     JObj [(''items'', JList [JObj amount_check, JObj currency_check]),
           (''transformUDFs'', JList [JStr ''trim''])]"
  by (simp add: details_part_def asset_policy_def get_or_Cons)

lemma rule_part_asset_recon_policy:
  "rule_part asset_recon_policy =
     JObj [(''id'', JInt 8), (''name'', JStr ''orders_vs_ledger''),
           (''analyticsPipelineId'', JInt 5),
           (''leftBackingAsset'', JObj [(''tableAssetId'', JInt 11), (''id'', JInt 3)]),
           (''rightBackingAsset'', JObj [(''tableAssetId'', JInt 12),
                                         (''marker'', JStr ''m''), (''id'', JInt 4)]),
           (''notificationChannels'', JObj [(''notificationEnabled'', JBool True)]),
           (''sparkResourceConfig'', JObj [(''yunikorn'', JStr ''queue-a'')])]"
  by (simp add: rule_part_def asset_recon_policy_def get_or_Cons)

theorem payload_carries_listed_fields_witness:
  "\<exists>payload ups rpayload rups rits.
     build_update_payload lib0 False asset_policy ledger_map
       = Some (payload, [JStr ''NOT_NULL-amount''], [])
     \<and> entry (rule_part payload) ''name'' = Some (JStr ''orders'')
     \<and> payload_items payload = Some ups
     \<and> map (\<lambda>u. entry u ''id'') ups = [Some (JInt 30), Some (JInt 31)]
     \<and> entry payload ''engineType'' = Some (JStr ''SPARK'')
     \<and> entry payload ''transformUDFs'' = Some (JList [JStr ''trim''])
     \<and> entry (sub_object (rule_part payload) ''backingAsset'') ''tableAssetId'' = Some (JInt 9)
     \<and> entry (sub_object (rule_part payload) ''notificationChannels'') ''severity''
         = Some (JStr ''LOW'')
     \<and> recon_build_update_payload lib0 asset_recon_policy recon_ledger_map
       = Some (rpayload, [JStr ''id_id''], [])
     \<and> entry (rule_part rpayload) ''name'' = Some (JStr ''orders_vs_ledger'')
     \<and> payload_mappings rpayload = Some rups
     \<and> map (\<lambda>u. entry u ''id'') rups = [Some (JInt 40), Some (JInt 41)]
     \<and> payload_items rpayload = Some rits
     \<and> map (\<lambda>u. entry u ''id'') rits = [Some (JInt 80)]
     \<and> entry rpayload ''analyticsPipelineId'' = Some (JInt 5)
     \<and> entry (sub_object (rule_part rpayload) ''leftBackingAsset'') ''id'' = Some (JInt 3)
     \<and> entry (sub_object (rule_part rpayload) ''rightBackingAsset'') ''marker''
         = Some (JStr ''m'')
     \<and> entry (sub_object (rule_part rpayload) ''notificationChannels'') ''notificationEnabled''
         = Some (JBool True)
     \<and> entry (sub_object (rule_part rpayload) ''sparkResourceConfig'') ''yunikorn''
         = Some (JStr ''queue-a'')"
proof -
  from asset_policy_payload obtain payload where
    r: "build_update_payload lib0 False asset_policy ledger_map
          = Some (payload, [JStr ''NOT_NULL-amount''], [])" by blast
  from asset_recon_policy_payload obtain rpayload where
    rr: "recon_build_update_payload lib0 asset_recon_policy recon_ledger_map
          = Some (rpayload, [JStr ''id_id''], [])" by blast
  note T = payload_carries_listed_fields [of lib0 False asset_policy ledger_map payload
      "[JStr ''NOT_NULL-amount'']" "[]" asset_recon_policy recon_ledger_map rpayload
      "[JStr ''id_id'']" "[]"]
  from T r obtain its ups where
    rule: "carried rule_fields (rule_part asset_policy) (rule_part payload)"
    and its: "policy_items asset_policy = Some its"
    and ups: "payload_items payload = Some ups"
    and items: "list_all2 (\<lambda>item u. carried item_fields item u
                 \<and> (\<forall>v. entry item ''ruleExpression'' = Some v \<and> truthy v
                        \<longrightarrow> entry u ''ruleExpression'' = Some v)) its ups"
    and engine: "carried [''engineType''] (rule_part asset_policy) payload"
    and udfs: "carried [''transformUDFs''] (details_part asset_policy) payload"
    and backing: "carried backing_asset_fields
         (sub_object (rule_part asset_policy) ''backingAsset'')
         (sub_object (rule_part payload) ''backingAsset'')"
    and channels: "carried notification_fields
         (sub_object (rule_part asset_policy) ''notificationChannels'')
         (sub_object (rule_part payload) ''notificationChannels'')"
    by blast
  from T rr obtain ms rups rits0 rits where
    rrule: "carried recon_rule_fields (rule_part asset_recon_policy) (rule_part rpayload)"
    and ms: "policy_mappings asset_recon_policy = Some ms"
    and rups: "payload_mappings rpayload = Some rups"
    and mappings: "list_all2 (carried mapping_fields) ms rups"
    and rits0: "policy_items asset_recon_policy = Some rits0"
    and rits: "payload_items rpayload = Some rits"
    and ritems: "list_all2 (carried recon_item_fields) rits0 rits"
    and pipeline: "carried [''analyticsPipelineId''] (rule_part asset_recon_policy) rpayload"
    and left: "carried backing_asset_fields
         (sub_object (rule_part asset_recon_policy) ''leftBackingAsset'')
         (sub_object (rule_part rpayload) ''leftBackingAsset'')"
    and right: "carried right_backing_asset_fields
         (sub_object (rule_part asset_recon_policy) ''rightBackingAsset'')
         (sub_object (rule_part rpayload) ''rightBackingAsset'')"
    and rchannels: "carried recon_notification_fields
         (sub_object (rule_part asset_recon_policy) ''notificationChannels'')
         (sub_object (rule_part rpayload) ''notificationChannels'')"
    and spark: "carried spark_resource_fields
         (sub_object (rule_part asset_recon_policy) ''sparkResourceConfig'')
         (sub_object (rule_part rpayload) ''sparkResourceConfig'')"
    by blast
  have name: "entry (rule_part payload) ''name'' = Some (JStr ''orders'')"
    by (rule carriedD [OF rule])
       (simp_all add: rule_fields_def entry_def rule_part_asset_policy)
  have e1: "entry payload ''engineType'' = Some (JStr ''SPARK'')"
    by (rule carriedD [OF engine]) (simp_all add: entry_def rule_part_asset_policy)
  have e2: "entry payload ''transformUDFs'' = Some (JList [JStr ''trim''])"
    by (rule carriedD [OF udfs]) (simp_all add: entry_def details_part_asset_policy)
  have e3: "entry (sub_object (rule_part payload) ''backingAsset'') ''tableAssetId''
              = Some (JInt 9)"
    by (rule carriedD [OF backing])
       (simp_all add: backing_asset_fields_def entry_def sub_object_def rule_part_asset_policy)
  have e4: "entry (sub_object (rule_part payload) ''notificationChannels'') ''severity''
              = Some (JStr ''LOW'')"
    by (rule carriedD [OF channels])
       (simp_all add: notification_fields_def entry_def sub_object_def rule_part_asset_policy)
  have rname: "entry (rule_part rpayload) ''name'' = Some (JStr ''orders_vs_ledger'')"
    by (rule carriedD [OF rrule])
       (simp_all add: recon_rule_fields_def entry_def rule_part_asset_recon_policy)
  have f1: "entry rpayload ''analyticsPipelineId'' = Some (JInt 5)"
    by (rule carriedD [OF pipeline]) (simp_all add: entry_def rule_part_asset_recon_policy)
  have f2: "entry (sub_object (rule_part rpayload) ''leftBackingAsset'') ''id'' = Some (JInt 3)"
    by (rule carriedD [OF left])
       (simp_all add: backing_asset_fields_def entry_def sub_object_def
          rule_part_asset_recon_policy)
  have f3: "entry (sub_object (rule_part rpayload) ''rightBackingAsset'') ''marker''
         = Some (JStr ''m'')"
    by (rule carriedD [OF right])
       (simp_all add: right_backing_asset_fields_def entry_def sub_object_def
          rule_part_asset_recon_policy)
  have f4: "entry (sub_object (rule_part rpayload) ''notificationChannels'')
              ''notificationEnabled'' = Some (JBool True)"
    by (rule carriedD [OF rchannels])
       (simp_all add: recon_notification_fields_def entry_def sub_object_def
          rule_part_asset_recon_policy)
  have f5: "entry (sub_object (rule_part rpayload) ''sparkResourceConfig'') ''yunikorn''
         = Some (JStr ''queue-a'')"
    by (rule carriedD [OF spark])
       (simp_all add: spark_resource_fields_def entry_def sub_object_def
          rule_part_asset_recon_policy)
  from its have its': "its = [JObj amount_check, JObj currency_check]"
    by (simp add: policy_items_asset_policy)
  from items obtain u1 u2 where u: "ups = [u1, u2]"
    and c1: "carried item_fields (JObj amount_check) u1"
    and c2: "carried item_fields (JObj currency_check) u2"
    unfolding its' by (auto simp: list_all2_Cons1)
  have "entry u1 ''id'' = Some (JInt 30)"
    by (rule carriedD [OF c1]) (simp_all add: item_fields_def entry_def amount_check_def)
  moreover have "entry u2 ''id'' = Some (JInt 31)"
    by (rule carriedD [OF c2]) (simp_all add: item_fields_def entry_def currency_check_def)
  ultimately have ids: "map (\<lambda>u. entry u ''id'') ups = [Some (JInt 30), Some (JInt 31)]"
    by (simp add: u)
  from ms have ms': "ms = [JObj id_mapping, JObj total_mapping]"
    by (simp add: policy_mappings_asset_recon_policy)
  from mappings obtain m1 m2 where m: "rups = [m1, m2]"
    and d1: "carried mapping_fields (JObj id_mapping) m1"
    and d2: "carried mapping_fields (JObj total_mapping) m2"
    unfolding ms' by (auto simp: list_all2_Cons1)
  have "entry m1 ''id'' = Some (JInt 40)"
    by (rule carriedD [OF d1]) (simp_all add: mapping_fields_def entry_def id_mapping_def)
  moreover have "entry m2 ''id'' = Some (JInt 41)"
    by (rule carriedD [OF d2]) (simp_all add: mapping_fields_def entry_def total_mapping_def)
  ultimately have rids: "map (\<lambda>u. entry u ''id'') rups = [Some (JInt 40), Some (JInt 41)]"
    by (simp add: m)
  from rits0 have rits0': "rits0 = [JObj [(''id'', JInt 80), (''measurementType'', JStr ''EQUALITY'')]]"
    by (simp add: policy_items_asset_recon_policy)
  from ritems obtain i1 where i: "rits = [i1]"
    and g1: "carried recon_item_fields
               (JObj [(''id'', JInt 80), (''measurementType'', JStr ''EQUALITY'')]) i1"
    unfolding rits0' by (auto simp: list_all2_Cons1)
  have "entry i1 ''id'' = Some (JInt 80)"
    by (rule carriedD [OF g1]) (simp_all add: recon_item_fields_def entry_def)
  then have iids: "map (\<lambda>u. entry u ''id'') rits = [Some (JInt 80)]"
    by (simp add: i)
  show ?thesis
    by (intro exI conjI)
       (rule r, rule name, rule ups, rule ids, rule e1, rule e2, rule e3, rule e4,
        rule rr, rule rname, rule rups, rule rids, rule rits, rule iids,
        rule f1, rule f2, rule f3, rule f4, rule f5)
qed

subsection \<open>Ledger update, reconciliation policies\<close>

text \<open>
  The reconciliation script tests the pair of policy and identity key: on the same
  situation it appends nothing and the ledger's id stays, and in general a pair whose
  full key is known keeps its id.
\<close>

lemma recon_pair_dedup_keeps_original_id:
  "do { st \<leftarrow> recon_read_existing_csv lib0 recon_ledger_rows;
        st' \<leftarrow> recon_compare_policy lib0 recon_net_versions st
                 \<lparr>info_policy_id = JStr ''P2'', info_version = JInt 3,
                  info_name = JStr ''orders_vs_ledger''\<rparr>;
        Some (labels_of (recon_policy_labels st) (KStr ''P2'') (KStr ''total_amount''),
              new_mappings_added st',
              labels_of (recon_policy_labels st') (KStr ''P2'') (KStr ''total_amount'')) }
   = Some (Some (JStr ''45''), [], Some (JStr ''45''))"
  by (simp add: recon_read_existing_csv_def recon_ledger_rows_def recon_net_versions_def
      recon_snapshot_def fetch_policy_version_def extract_mappings_info_def extract_mapping_def
      find_new_mappings_def get_column_key_def get_or_def labels_of_def Let_def)

lemma record_new_mappings_keeps:
  assumes "record_new_mappings L pid rows st = Some st'"
    and "py_str L pid @ ''_'' @ key \<in> existing_mapping_keys st"
  shows "labels_of (recon_policy_labels st') p (KStr key)
           = labels_of (recon_policy_labels st) p (KStr key)
       \<and> (\<forall>row \<in> set (new_mappings_added st') - set (new_mappings_added st).
             get_column_key L (Left_Column_Name row) (Right_Column_Name row) \<noteq> key)"
  using assms
proof (induction rows arbitrary: st)
  case Nil
  then show ?case by simp
next
  case (Cons m rows)
  let ?mk = "get_column_key L (Left_Column_Name m) (Right_Column_Name m)"
  let ?fk = "py_str L pid @ ''_'' @ ?mk"
  show ?case
  proof (cases "?fk \<in> existing_mapping_keys st")
    case True
    with Cons.prems have "record_new_mappings L pid rows st = Some st'" by (simp add: Let_def)
    from Cons.IH [OF this Cons.prems(2)] show ?thesis .
  next
    case False
    with Cons.prems(2) have ne: "?mk \<noteq> key" by auto
    from False Cons.prems(1) obtain q where q: "hash_key pid = Some q"
      and rest: "record_new_mappings L pid rows
             (st\<lparr>new_mappings_added := new_mappings_added st @ [m],
                 existing_mapping_keys := insert ?fk (existing_mapping_keys st),
                 recon_policy_labels := (recon_policy_labels st)
                   (q \<mapsto> (labels_of (recon_policy_labels st) q)
                          (KStr ?mk \<mapsto> Recon_Rule_ID m))\<rparr>) = Some st'"
      by (auto simp: Let_def bind_eq_Some_conv)
    from Cons.IH [OF rest] Cons.prems(2) ne show ?thesis
      by (auto simp: labels_of_def)
  qed
qed

end
